theory Spec2Isabelle
  imports Main "HOL-Library.Word" "HOL-Library.Sublist" "HOL-Library.AList"
    "HOL-Library.Multiset" "HOL-Library.Char_ord" "HOL-Library.List_Lexorder"
begin

section \<open>Go library functions used by the agent\<close>

text \<open>
  Go strings are byte sequences; they are modelled as \<^typ>\<open>string\<close>.
  \<^verbatim>\<open>strings.HasSuffix\<close> and \<^verbatim>\<open>strings.TrimSuffix\<close> are written as the
  Go standard library defines them (a length test and a slice comparison).
\<close>

definition HasSuffix :: "string \<Rightarrow> string \<Rightarrow> bool" where
  "HasSuffix s suf \<longleftrightarrow>
     length suf \<le> length s \<and> drop (length s - length suf) s = suf"

definition TrimSuffix :: "string \<Rightarrow> string \<Rightarrow> string" where
  "TrimSuffix s suf =
     (if HasSuffix s suf then take (length s - length suf) s else s)"

text \<open>
  \<^verbatim>\<open>strings.EqualFold\<close> and \<^verbatim>\<open>strings.ToUpper\<close> on ASCII text: the letters
  A-Z and a-z are folded, every other byte is compared as it is. (Go folds further
  Unicode letters as well; API types and HTTP verbs are ASCII words.)
\<close>

definition toLowerASCII :: "char \<Rightarrow> char" where
  "toLowerASCII c =
     (case map_of (zip ''ABCDEFGHIJKLMNOPQRSTUVWXYZ'' ''abcdefghijklmnopqrstuvwxyz'') c of
        Some l \<Rightarrow> l
      | None \<Rightarrow> c)"

definition toUpperASCII :: "char \<Rightarrow> char" where
  "toUpperASCII c =
     (case map_of (zip ''abcdefghijklmnopqrstuvwxyz'' ''ABCDEFGHIJKLMNOPQRSTUVWXYZ'') c of
        Some u \<Rightarrow> u
      | None \<Rightarrow> c)"

definition EqualFold :: "string \<Rightarrow> string \<Rightarrow> bool" where
  "EqualFold s t \<longleftrightarrow> map toLowerASCII s = map toLowerASCII t"

definition ToUpper :: "string \<Rightarrow> string" where
  "ToUpper s = map toUpperASCII s"

section \<open>Go maps\<close>

text \<open>
  A Go map is modelled as the list of its entries, each key once. A \<^verbatim>\<open>range\<close> over
  a map visits every entry once, in an order that Go leaves open and that can differ
  from one run of the program to the next. The choice of the run is a parameter: a rank
  of the keys, the entries being visited by increasing rank. Whatever the rank, the
  visit is a rearrangement of the entries, and every arrangement of the entries of a map
  is the visit of some rank.
\<close>

definition rangeMap :: "(string \<Rightarrow> nat) \<Rightarrow> (string \<times> 'v) list \<Rightarrow> (string \<times> 'v) list" where
  "rangeMap rank m = sort_key (\<lambda>entry. rank (fst entry)) m"

text \<open>
  The YAML encoder writes the entries of a Go map in the order of their keys, whatever
  the order in which they were stored. The order of strings of Isabelle stands for the
  comparison of the encoder.
\<close>

definition encodedEntries :: "(string \<times> 'v) list \<Rightarrow> (string \<times> 'v) list" where
  "encodedEntries m = sort_key fst m"

section \<open>Entity mirror store (package eventhub)\<close>

text \<open>
  The control-plane DTOs of package \<^verbatim>\<open>types\<close> are not part of the sources at hand;
  their records list the fields the marshalling functions read.
\<close>

record types_Application =
  UUID :: string
  ID :: "32 word"
  Name :: string
  SubName :: string
  Policy :: string
  TokenType :: string
  Attributes :: "string \<rightharpoonup> string"
  TenantID :: "32 word"
  TenantDomain :: string
  TimeStamp :: "64 word"

record Application =
  UUID :: string
  ID :: "32 word"
  Name :: string
  SubName :: string
  Policy :: string
  TokenType :: string
  Attributes :: "string \<rightharpoonup> string"
  TenantID :: "32 word"
  TenantDomain :: string
  TimeStamp :: "64 word"

record types_ApplicationKeyMapping =
  ApplicationID :: "32 word"
  ApplicationUUID :: string
  ConsumerKey :: string
  KeyType :: string
  KeyManager :: string
  TenantID :: "32 word"
  TenantDomain :: string
  TimeStamp :: "64 word"

record ApplicationKeyMapping =
  ApplicationID :: "32 word"
  ApplicationUUID :: string
  ConsumerKey :: string
  KeyType :: string
  KeyManager :: string
  TenantID :: "32 word"
  TenantDomain :: string
  TimeStamp :: "64 word"

record types_Subscription =
  SubscriptionID :: "32 word"
  SubscriptionUUID :: string
  PolicyID :: string
  APIID :: "32 word"
  APIUUID :: string
  AppID :: "32 word"
  ApplicationUUID :: string
  SubscriptionState :: string
  TenantID :: "32 word"
  TenantDomain :: string
  TimeStamp :: "64 word"

record Subscription =
  SubscriptionID :: "32 word"
  SubscriptionUUID :: string
  PolicyID :: string
  APIID :: "32 word"
  APIUUID :: string
  AppID :: "32 word"
  ApplicationUUID :: string
  SubscriptionState :: string
  TenantID :: "32 word"
  TenantDomain :: string
  TimeStamp :: "64 word"

record types_KeyManager =
  Name :: string
  Enabled :: bool

record KeyManager =
  Name :: string
  Enabled :: bool
  Issuer :: string
  Certificate :: string

text \<open>The four package-level maps; a snapshot pull assigns a whole new map to one of them.\<close>

record mirror =
  SubscriptionMap :: "32 word \<rightharpoonup> Subscription"
  ApplicationMap :: "string \<rightharpoonup> Application"
  ApplicationKeyMappingMap :: "string \<rightharpoonup> ApplicationKeyMapping"
  KeyManagerMap :: "string \<rightharpoonup> KeyManager"

text \<open>
  \<^verbatim>\<open>config.GetControlPlaneConnectedTenantDomain()\<close> reads process-wide configuration;
  its value is the first argument \<open>cpTenant\<close> of the functions that call it.
\<close>

definition MarshalSubscription :: "string \<Rightarrow> types_Subscription \<Rightarrow> Subscription" where
  "MarshalSubscription cpTenant subscriptionInternal =
     (let sub = \<lparr> Subscription.SubscriptionID = types_Subscription.SubscriptionID subscriptionInternal,
                  Subscription.SubscriptionUUID = types_Subscription.SubscriptionUUID subscriptionInternal,
                  Subscription.PolicyID = types_Subscription.PolicyID subscriptionInternal,
                  Subscription.APIID = types_Subscription.APIID subscriptionInternal,
                  Subscription.APIUUID = types_Subscription.APIUUID subscriptionInternal,
                  Subscription.AppID = types_Subscription.AppID subscriptionInternal,
                  Subscription.ApplicationUUID = types_Subscription.ApplicationUUID subscriptionInternal,
                  Subscription.SubscriptionState = types_Subscription.SubscriptionState subscriptionInternal,
                  Subscription.TenantID = types_Subscription.TenantID subscriptionInternal,
                  Subscription.TenantDomain = types_Subscription.TenantDomain subscriptionInternal,
                  Subscription.TimeStamp = types_Subscription.TimeStamp subscriptionInternal \<rparr>
      in if Subscription.TenantDomain sub = ''''
         then sub\<lparr> Subscription.TenantDomain := cpTenant \<rparr>
         else sub)"

definition MarshalApplication :: "string \<Rightarrow> types_Application \<Rightarrow> Application" where
  "MarshalApplication cpTenant appInternal =
     (let app = \<lparr> Application.UUID = types_Application.UUID appInternal,
                  Application.ID = types_Application.ID appInternal,
                  Application.Name = types_Application.Name appInternal,
                  Application.SubName = types_Application.SubName appInternal,
                  Application.Policy = types_Application.Policy appInternal,
                  Application.TokenType = types_Application.TokenType appInternal,
                  Application.Attributes = types_Application.Attributes appInternal,
                  Application.TenantID = types_Application.TenantID appInternal,
                  Application.TenantDomain = types_Application.TenantDomain appInternal,
                  Application.TimeStamp = types_Application.TimeStamp appInternal \<rparr>
      in if Application.TenantDomain app = ''''
         then app\<lparr> Application.TenantDomain := cpTenant \<rparr>
         else app)"

definition marshalKeyMapping :: "types_ApplicationKeyMapping \<Rightarrow> ApplicationKeyMapping" where
  "marshalKeyMapping keyMappingInternal =
     \<lparr> ApplicationKeyMapping.ApplicationID = types_ApplicationKeyMapping.ApplicationID keyMappingInternal,
       ApplicationKeyMapping.ApplicationUUID = types_ApplicationKeyMapping.ApplicationUUID keyMappingInternal,
       ApplicationKeyMapping.ConsumerKey = types_ApplicationKeyMapping.ConsumerKey keyMappingInternal,
       ApplicationKeyMapping.KeyType = types_ApplicationKeyMapping.KeyType keyMappingInternal,
       ApplicationKeyMapping.KeyManager = types_ApplicationKeyMapping.KeyManager keyMappingInternal,
       ApplicationKeyMapping.TenantID = types_ApplicationKeyMapping.TenantID keyMappingInternal,
       ApplicationKeyMapping.TenantDomain = types_ApplicationKeyMapping.TenantDomain keyMappingInternal,
       ApplicationKeyMapping.TimeStamp = types_ApplicationKeyMapping.TimeStamp keyMappingInternal \<rparr>"

definition MarshalKeyManager :: "types_KeyManager \<Rightarrow> KeyManager" where
  "MarshalKeyManager keyManagerInternal =
     \<lparr> KeyManager.Name = types_KeyManager.Name keyManagerInternal,
       KeyManager.Enabled = types_KeyManager.Enabled keyManagerInternal,
       KeyManager.Issuer = '''',
       KeyManager.Certificate = '''' \<rparr>"

definition GetApplicationKeyMappingReference :: "types_ApplicationKeyMapping \<Rightarrow> string" where
  "GetApplicationKeyMappingReference keyMapping =
     types_ApplicationKeyMapping.ConsumerKey keyMapping @ '':'' @
     types_ApplicationKeyMapping.KeyManager keyMapping"

text \<open>
  The \<^verbatim>\<open>range\<close> loops that fill the fresh \<^verbatim>\<open>resourceMap\<close>: one store per
  list element, in list order, so a later element with the same key overwrites.
\<close>

fun applicationsLoop ::
  "string \<Rightarrow> types_Application list \<Rightarrow> (string \<rightharpoonup> Application) \<Rightarrow> (string \<rightharpoonup> Application)" where
  "applicationsLoop cpTenant [] resourceMap = resourceMap"
| "applicationsLoop cpTenant (application # rest) resourceMap =
     applicationsLoop cpTenant rest
       (resourceMap(types_Application.UUID application \<mapsto> MarshalApplication cpTenant application))"

fun keyMappingsLoop ::
  "types_ApplicationKeyMapping list \<Rightarrow> (string \<rightharpoonup> ApplicationKeyMapping)
     \<Rightarrow> (string \<rightharpoonup> ApplicationKeyMapping)" where
  "keyMappingsLoop [] resourceMap = resourceMap"
| "keyMappingsLoop (keyMapping # rest) resourceMap =
     keyMappingsLoop rest
       (resourceMap(GetApplicationKeyMappingReference keyMapping \<mapsto> marshalKeyMapping keyMapping))"

fun subscriptionsLoop ::
  "string \<Rightarrow> types_Subscription list \<Rightarrow> (32 word \<rightharpoonup> Subscription) \<Rightarrow> (32 word \<rightharpoonup> Subscription)" where
  "subscriptionsLoop cpTenant [] resourceMap = resourceMap"
| "subscriptionsLoop cpTenant (sb # rest) resourceMap =
     subscriptionsLoop cpTenant rest
       (resourceMap(types_Subscription.SubscriptionID sb \<mapsto> MarshalSubscription cpTenant sb))"

fun keyManagersLoop ::
  "types_KeyManager list \<Rightarrow> (string \<rightharpoonup> KeyManager) \<Rightarrow> (string \<rightharpoonup> KeyManager)" where
  "keyManagersLoop [] resourceMap = resourceMap"
| "keyManagersLoop (keyManager # rest) resourceMap =
     keyManagersLoop rest
       (resourceMap(types_KeyManager.Name keyManager \<mapsto> MarshalKeyManager keyManager))"

text \<open>
  Each function returns the new value of the package-level map together with the
  store in which that map has been assigned.
\<close>

definition MarshalKeyManagers ::
  "types_KeyManager list \<Rightarrow> mirror \<Rightarrow> (string \<rightharpoonup> KeyManager) \<times> mirror" where
  "MarshalKeyManagers keyManagersList st =
     (let resourceMap = keyManagersLoop keyManagersList Map.empty;
          st' = st\<lparr> KeyManagerMap := resourceMap \<rparr>
      in (KeyManagerMap st', st'))"

definition MarshalMultipleApplications ::
  "string \<Rightarrow> types_Application list \<Rightarrow> mirror \<Rightarrow> (string \<rightharpoonup> Application) \<times> mirror" where
  "MarshalMultipleApplications cpTenant appList st =
     (let resourceMap = applicationsLoop cpTenant appList Map.empty;
          st' = st\<lparr> ApplicationMap := resourceMap \<rparr>
      in (ApplicationMap st', st'))"

definition MarshalMultipleApplicationKeyMappings ::
  "types_ApplicationKeyMapping list \<Rightarrow> mirror \<Rightarrow> (string \<rightharpoonup> ApplicationKeyMapping) \<times> mirror" where
  "MarshalMultipleApplicationKeyMappings keymappingList st =
     (let resourceMap = keyMappingsLoop keymappingList Map.empty;
          st' = st\<lparr> ApplicationKeyMappingMap := resourceMap \<rparr>
      in (ApplicationKeyMappingMap st', st'))"

definition MarshalMultipleSubscriptions ::
  "string \<Rightarrow> types_Subscription list \<Rightarrow> mirror \<Rightarrow> (32 word \<rightharpoonup> Subscription) \<times> mirror" where
  "MarshalMultipleSubscriptions cpTenant subscriptionsList st =
     (let resourceMap = subscriptionsLoop cpTenant subscriptionsList Map.empty;
          st' = st\<lparr> SubscriptionMap := resourceMap \<rparr>
      in (SubscriptionMap st', st'))"

section \<open>Lifecycle events (package managementserver)\<close>

text \<open>
  The event types (\<^verbatim>\<open>APICPEvent\<close>, \<^verbatim>\<open>API\<close>, \<^verbatim>\<open>OperationFromDP\<close>, the filter
  types, \<^verbatim>\<open>APIMEndpoint\<close> and its parts) are declared in a file of the package that
  is not among the sources at hand. The records below hold the fields that
  \<^verbatim>\<open>rest_server.go\<close> reads or writes, under the names it uses. Numeric fields that
  are only copied are integers; the three timeout fields hold the constant \<open>-1.0\<close>.
\<close>

record APKHeader =
  Name :: string
  Value :: string

record APKHeaderModifier =
  AddHeaders :: "APKHeader list"
  RemoveHeaders :: "string list"

record APKHeaders =
  RequestHeaders :: APKHeaderModifier
  ResponseHeaders :: APKHeaderModifier

record APKMirrorRequest =
  URLs :: "string list"

record APKRedirectRequest =
  URL :: string

text \<open>
  The Go filter list holds interface values; the type switch of
  \<^verbatim>\<open>extractOperations\<close> knows three dynamic types and logs any other.
\<close>

datatype Filter =
    FilterAPKHeaders APKHeaders
  | FilterAPKMirrorRequest APKMirrorRequest
  | FilterAPKRedirectRequest APKRedirectRequest
  | FilterOther

record AIModelWeight =
  Model :: string
  Endpoint :: string
  Weight :: int

record AIModelBasedRoundRobin =
  ProductionModels :: "AIModelWeight list"
  SandboxModels :: "AIModelWeight list"
  OnQuotaExceedSuspendDuration :: int

record OperationFromDP =
  Path :: string
  Verb :: string
  Scopes :: "string list"
  Filters :: "Filter list"
  AIModelBasedRoundRobin :: "AIModelBasedRoundRobin option"

record EndpointEntry =
  URL :: string
  SecurityEnabled :: bool
  SecurityType :: string
  BasicUsername :: string
  BasicPassword :: string
  APIKeyName :: string
  APIKeyValue :: string
  APIKeyIn :: string

record MultiEndpoints =
  Protocol :: string
  ProdEndpoints :: "EndpointEntry list"
  SandEndpoints :: "EndpointEntry list"

record EndpointSecurityConfig =
  Enabled :: bool
  SecurityType :: string
  APIKeyName :: string
  APIKeyValue :: string
  BasicUsername :: string
  BasicPassword :: string

record AIConfiguration =
  LLMProviderID :: string
  LLMProviderName :: string
  LLMProviderAPIVersion :: string

record CORSPolicy =
  AccessControlAllowOrigins :: "string list"
  AccessControlAllowCredentials :: bool
  AccessControlAllowHeaders :: "string list"
  AccessControlAllowMethods :: "string list"
  AccessControlExposeHeaders :: "string list"

record AIRL =
  RequestCount :: int
  TimeUnit :: string
  PromptTokenCount :: "int option"
  CompletionTokenCount :: "int option"
  TotalTokenCount :: "int option"

text \<open>
  \<^verbatim>\<open>APIProperties\<close> is a Go map from property names to values, given as the list of
  its entries.
\<close>

record API =
  APIUUID :: string
  RevisionID :: string
  Vhost :: string
  APIName :: string
  APIVersion :: string
  APIType :: string
  APISubType :: string
  BasePath :: string
  Organization :: string
  IsDefaultVersion :: bool
  Definition :: string
  EndpointProtocol :: string
  ProdEndpoint :: string
  SandEndpoint :: string
  ProdEndpointSecurity :: EndpointSecurityConfig
  SandEndpointSecurity :: EndpointSecurityConfig
  MultiEndpoints :: MultiEndpoints
  AuthHeader :: string
  APIKeyHeader :: string
  SecurityScheme :: "string list"
  APIProperties :: "(string \<times> string) list"
  AIConfiguration :: AIConfiguration
  CORSPolicy :: "CORSPolicy option"
  ProdAIRL :: "AIRL option"
  SandAIRL :: "AIRL option"
  AIModelBasedRoundRobin :: "AIModelBasedRoundRobin option"
  Operations :: "OperationFromDP list"

record APICPEvent =
  Event :: string
  API :: API

subsection \<open>Resolved endpoints\<close>

record SecurityConfig =
  Enabled :: bool
  Type :: string
  Username :: string
  Password :: string
  APIKeyIdentifier :: string
  APIKeyValue :: string
  APIKeyIdentifierType :: string
  ConnectionTimeoutDuration :: int
  SocketTimeoutDuration :: int
  ConnectionRequestTimeoutDuration :: int

record Endpoints =
  URL :: string

record APIMEndpointSecurity =
  Production :: SecurityConfig
  Sandbox :: SecurityConfig

record APIMEndpointConfig =
  EndpointType :: string
  ProductionEndpoints :: Endpoints
  SandboxEndpoints :: Endpoints
  EndpointSecurity :: APIMEndpointSecurity

record APIMEndpoint =
  DeploymentStage :: string
  EndpointUUID :: string
  EndpointName :: string
  EndpointConfig :: APIMEndpointConfig

text \<open>The zero value of \<^verbatim>\<open>SecurityConfig\<close>, for the stage an endpoint does not belong to.\<close>

definition zeroSecurityConfig :: SecurityConfig where
  "zeroSecurityConfig =
     \<lparr> SecurityConfig.Enabled = False, Type = '''', Username = '''', Password = '''',
       APIKeyIdentifier = '''', SecurityConfig.APIKeyValue = '''', APIKeyIdentifierType = '''',
       ConnectionTimeoutDuration = 0, SocketTimeoutDuration = 0,
       ConnectionRequestTimeoutDuration = 0 \<rparr>"

subsection \<open>Operations and operation policies\<close>

record ModelConfig =
  Model :: string
  EndpointID :: string
  Weight :: int

record ModelBasedRoundRobinConfig =
  Production :: "ModelConfig list"
  Sandbox :: "ModelConfig list"
  SuspendDuration :: string

record Header =
  Name :: string
  Value :: string

text \<open>
  \<^verbatim>\<open>FilterParameters\<close> is an interface with four implementing types (and the nil
  interface value of a zero \<^verbatim>\<open>OperationPolicy\<close>). The string field of
  \<^verbatim>\<open>WeightedRoundRobinConfigs\<close> is the JSON text of a
  \<^verbatim>\<open>ModelBasedRoundRobinConfig\<close> with every double quote replaced by a single quote;
  the constructor carries the configuration that text renders. A header value that is
  empty is left out of the document (\<^verbatim>\<open>omitempty\<close>).
\<close>

datatype FilterParameters =
    NilParameters
  | WeightedRoundRobinConfigs ModelBasedRoundRobinConfig
  | ModelBasedRoundRobinConfigParameters ModelBasedRoundRobinConfig
  | HeaderParameters Header
  | RedirectRequestParameters string
  | MirrorRequestParameters string

record OperationPolicy =
  PolicyName :: string
  PolicyVersion :: string
  PolicyID :: string
  PolicyType :: string
  Parameters :: FilterParameters

text \<open>
  The policy lists of an operation are Go slices while \<^verbatim>\<open>extractOperations\<close> runs and
  plain sequences once they are written to a document; \<open>'p\<close> is the one or the other.
\<close>

record 'p OperationPolicies =
  Request :: 'p
  Response :: 'p
  Fault :: "string list"

record 'p APIOperation =
  ID :: string
  Target :: string
  Verb :: string
  AuthType :: string
  ThrottlingPolicy :: string
  Scopes :: "string list"
  UsedProductIDs :: "string list"
  OperationPolicies :: "'p OperationPolicies"

record AdditionalProperty =
  Name :: string
  Value :: string
  Display :: bool

record Scope =
  Name :: string
  DisplayName :: string
  Description :: string
  Bindings :: "string list"

record ScopeWrapper =
  Scope :: Scope
  Shared :: bool

subsection \<open>What the functions take from outside the package\<close>

text \<open>
  The named constants of package \<^verbatim>\<open>constants\<close>, \<^verbatim>\<open>DeleteEvent\<close> and
  \<^verbatim>\<open>utils.OpenAPIDefaultYaml\<close> are declared outside the sources at hand; their values
  are fields of a record that the functions take as an argument.
\<close>

record constants =
  ModelWeightedRoundRobin :: string
  V1 :: string
  CommonType :: string
  AddHeader :: string
  RemoveHeader :: string
  MirrorRequest :: string
  RedirectRequest :: string
  DeleteEvent :: string
  OpenAPIDefaultYaml :: string

record ControlPlane =
  Provider :: string
  EnvironmentLabels :: "string list"

text \<open>
  A generic YAML tree, as \<^verbatim>\<open>yaml.Unmarshal\<close> into \<^verbatim>\<open>map[string]interface{}\<close> yields
  it. Mapping keys are strings, as in every OpenAPI document (on a key of another type
  the type assertions \<^verbatim>\<open>path.(string)\<close> and \<^verbatim>\<open>verb.(string)\<close> would panic).
\<close>

datatype yaml =
    YScalar string
  | YSeq "yaml list"
  | YMap "(string \<times> yaml) list"

text \<open>
  The libraries and the runtime, as far as a run of the handler depends on them:
  \<^item> \<open>ReadConfigs\<close>: the result of \<^verbatim>\<open>config.ReadConfigs()\<close>, \<open>None\<close> when it
    returns an error;
  \<^item> \<open>newUUID k\<close>: the text of the \<open>k\<close>-th identifier that \<^verbatim>\<open>uuid.New()\<close> returns
    during the run (a random version-4 UUID);
  \<^item> \<open>unmarshalPaths\<close>: \<^verbatim>\<open>yaml.Unmarshal\<close> into \<^verbatim>\<open>OpenAPIPaths\<close>, \<open>None\<close> on an
    error; the paths of the map, each with its verbs, in the order in which the two
    \<^verbatim>\<open>range\<close> loops of \<^verbatim>\<open>extractOperations\<close> visit them (Go fixes no order);
  \<^item> \<open>unmarshalMap\<close>: \<^verbatim>\<open>yaml.Unmarshal\<close> into a generic map, \<open>None\<close> on an error;
  \<^item> \<open>rangeScopewrappers\<close>: the rank by which the \<^verbatim>\<open>range\<close> at the end of
    \<^verbatim>\<open>extractOperations\<close> visits the keys of the map \<^verbatim>\<open>scopewrappers\<close>;
  \<^item> \<open>rangeAPIProperties\<close>: the rank by which the \<^verbatim>\<open>range\<close> of
    \<^verbatim>\<open>createAdditionalProperties\<close> visits the keys of the property map;
  \<^item> \<open>matchRegex\<close>: \<^verbatim>\<open>regexp.Compile\<close> followed by \<^verbatim>\<open>MatchString\<close>, false
    when the pattern does not compile;
  \<^item> \<open>growslice old needed\<close>: the capacity the runtime gives the new array when
    \<^verbatim>\<open>append\<close> outgrows an array of capacity \<open>old\<close> and needs \<open>needed\<close> elements;
  \<^item> \<open>JSONToYAML\<close>: the JSON decoder followed by the YAML encoder, \<open>None\<close> on an
    error;
  \<^item> the import client (\<^verbatim>\<open>utils.DeleteAPIRevision\<close>, \<^verbatim>\<open>utils.ImportAPI\<close>) and the
    packer are arguments of the handler itself.
\<close>

record runtime =
  constants :: constants
  ReadConfigs :: "ControlPlane option"
  newUUID :: "nat \<Rightarrow> string"
  unmarshalPaths :: "string \<Rightarrow> (string \<times> string list) list option"
  unmarshalMap :: "string \<Rightarrow> (string \<times> yaml) list option"
  rangeScopewrappers :: "string \<Rightarrow> nat"
  rangeAPIProperties :: "string \<Rightarrow> nat"
  matchRegex :: "string \<Rightarrow> string \<Rightarrow> bool"
  growslice :: "nat \<Rightarrow> nat \<Rightarrow> nat"
  JSONToYAML :: "string \<Rightarrow> string option"

section \<open>Operation matching (package managementserver)\<close>

text \<open>
  \<^verbatim>\<open>removeVersionSuffix(str1, str2)\<close>: the guard tests for the bare version, the
  trim removes \<^verbatim>\<open>"/" + version\<close>.
\<close>

definition removeVersionSuffix :: "string \<Rightarrow> string \<Rightarrow> string" where
  "removeVersionSuffix str1 str2 =
     (if HasSuffix str1 str2 then TrimSuffix str1 (''/'' @ str2) else str1)"

text \<open>
  \<^verbatim>\<open>processOpenAPIPath\<close> replaces every leftmost, non-overlapping match of the
  regular expression \<^verbatim>\<open>{[^}]+}\<close> by \<^verbatim>\<open>hardcode\<close>. A match starts at an opening
  brace, runs over at least one byte other than a closing brace and ends at the first
  closing brace; a brace at which no match starts is copied.
\<close>

function processOpenAPIPath :: "string \<Rightarrow> string" where
  "processOpenAPIPath [] = []"
| "processOpenAPIPath (c # cs) =
     (if c = CHR ''{'' \<and> takeWhile (\<lambda>x. x \<noteq> CHR ''}'') cs \<noteq> []
           \<and> dropWhile (\<lambda>x. x \<noteq> CHR ''}'') cs \<noteq> []
      then ''hardcode'' @ processOpenAPIPath (tl (dropWhile (\<lambda>x. x \<noteq> CHR ''}'') cs))
      else c # processOpenAPIPath cs)"
  by pat_completeness auto
termination
proof (relation "measure length")
  show "wf (measure length)" by simp
next
  fix c :: char and cs :: string
  have "length (tl (dropWhile (\<lambda>x. x \<noteq> CHR ''}'') cs)) \<le> length cs"
    using length_dropWhile_le [of "\<lambda>x. x \<noteq> CHR ''}''" cs] by simp
  then show "(tl (dropWhile (\<lambda>x. x \<noteq> CHR ''}'') cs), c # cs) \<in> measure length"
    by simp
next
  fix c :: char and cs :: string
  show "(cs, c # cs) \<in> measure length" by simp
qed

text \<open>
  \<^verbatim>\<open>matchRegex(regexStr, targetStr)\<close> compiles an arbitrary pattern with Go's
  \<^verbatim>\<open>regexp\<close> package and is false when the pattern does not compile; the engine is
  the parameter \<open>matcher\<close>. The loop normalises \<^verbatim>\<open>path\<close> again at every
  declared operation whose verb matches, and keeps the normalised value.
\<close>

fun findMatchingAPKOperation ::
  "(string \<Rightarrow> string \<Rightarrow> bool) \<Rightarrow> string \<Rightarrow> string \<Rightarrow> OperationFromDP list \<Rightarrow> OperationFromDP option" where
  "findMatchingAPKOperation matcher path verb [] = None"
| "findMatchingAPKOperation matcher path verb (operationFromDP # operations) =
     (if EqualFold (OperationFromDP.Verb operationFromDP) verb
      then (let path' = processOpenAPIPath path
            in if matcher (OperationFromDP.Path operationFromDP) path'
               then Some operationFromDP
               else findMatchingAPKOperation matcher path' verb operations)
      else findMatchingAPKOperation matcher path verb operations)"

text \<open>
  For a pattern without metacharacters \<^verbatim>\<open>MatchString\<close> is the substring test;
  \<open>literalRegex\<close> is that instance of the engine, used to run examples.
\<close>

definition literalRegex :: "string \<Rightarrow> string \<Rightarrow> bool" where
  "literalRegex regexStr targetStr \<longleftrightarrow>
     list_ex (\<lambda>i. take (length regexStr) (drop i targetStr) = regexStr) [0..<Suc (length targetStr)]"

section \<open>Endpoint resolution\<close>

text \<open>\<^verbatim>\<open>fmt.Sprintf("%d", n)\<close>: the decimal digits, with a minus sign below zero.\<close>

definition digitChar :: "nat \<Rightarrow> char" where
  "digitChar d = ''0123456789'' ! d"

function showNat :: "nat \<Rightarrow> string" where
  "showNat n = (if n < 10 then [digitChar n] else showNat (n div 10) @ [digitChar (n mod 10)])"
  by pat_completeness auto
termination
  by (relation "measure id") auto

definition showInt :: "int \<Rightarrow> string" where
  "showInt i = (if i < 0 then ''-'' @ showNat (nat (- i)) else showNat (nat i))"

text \<open>
  The local variables of \<^verbatim>\<open>createAPIYaml\<close> that its two endpoint loops update, and
  the number of identifiers drawn from \<^verbatim>\<open>uuid.New()\<close> so far.
\<close>

record endpointVars =
  apimEndpints :: "APIMEndpoint list"
  prodCount :: nat
  sandCount :: nat
  primaryProductionEndpointID :: string
  primarySandboxEndpointID :: string
  primaryProdcutionURL :: string
  primarySandboxURL :: string
  uuidsDrawn :: nat

definition initialEndpointVars :: endpointVars where
  "initialEndpointVars =
     \<lparr> apimEndpints = [], prodCount = 0, sandCount = 0,
       primaryProductionEndpointID = '''', primarySandboxEndpointID = '''',
       primaryProdcutionURL = '''', primarySandboxURL = '''', uuidsDrawn = 0 \<rparr>"

text \<open>
  The \<^verbatim>\<open>APIMEndpoint\<close> literals of lines 193 to 217 and 238 to 262, as functions of
  the loop variables they read.
\<close>

definition productionAPIMEndpoint :: "MultiEndpoints \<Rightarrow> EndpointEntry \<Rightarrow> string \<Rightarrow> string \<Rightarrow> string \<Rightarrow> APIMEndpoint" where
  "productionAPIMEndpoint multiEndpoints endpoint endpointUUID endpointName prodEndpoint =
     \<lparr> DeploymentStage = ''PRODUCTION'',
       EndpointUUID = endpointUUID,
       EndpointName = endpointName,
       EndpointConfig =
         \<lparr> EndpointType = Protocol multiEndpoints,
           ProductionEndpoints = \<lparr> Endpoints.URL = prodEndpoint \<rparr>,
           SandboxEndpoints = \<lparr> Endpoints.URL = '''' \<rparr>,
           EndpointSecurity =
             \<lparr> APIMEndpointSecurity.Production =
                 \<lparr> SecurityConfig.Enabled = SecurityEnabled endpoint,
                   Type = EndpointEntry.SecurityType endpoint,
                   Username = EndpointEntry.BasicUsername endpoint,
                   Password = EndpointEntry.BasicPassword endpoint,
                   APIKeyIdentifier = EndpointEntry.APIKeyName endpoint,
                   SecurityConfig.APIKeyValue = EndpointEntry.APIKeyValue endpoint,
                   APIKeyIdentifierType = APIKeyIn endpoint,
                   ConnectionTimeoutDuration = - 1,
                   SocketTimeoutDuration = - 1,
                   ConnectionRequestTimeoutDuration = - 1 \<rparr>,
               Sandbox = zeroSecurityConfig \<rparr> \<rparr> \<rparr>"

definition sandboxAPIMEndpoint :: "MultiEndpoints \<Rightarrow> EndpointEntry \<Rightarrow> string \<Rightarrow> string \<Rightarrow> string \<Rightarrow> APIMEndpoint" where
  "sandboxAPIMEndpoint multiEndpoints endpoint endpointUUID endpointName sandEndpoint =
     \<lparr> DeploymentStage = ''SANDBOX'',
       EndpointUUID = endpointUUID,
       EndpointName = endpointName,
       EndpointConfig =
         \<lparr> EndpointType = Protocol multiEndpoints,
           ProductionEndpoints = \<lparr> Endpoints.URL = '''' \<rparr>,
           SandboxEndpoints = \<lparr> Endpoints.URL = sandEndpoint \<rparr>,
           EndpointSecurity =
             \<lparr> APIMEndpointSecurity.Production = zeroSecurityConfig,
               Sandbox =
                 \<lparr> SecurityConfig.Enabled = SecurityEnabled endpoint,
                   Type = EndpointEntry.SecurityType endpoint,
                   Username = EndpointEntry.BasicUsername endpoint,
                   Password = EndpointEntry.BasicPassword endpoint,
                   APIKeyIdentifier = EndpointEntry.APIKeyName endpoint,
                   SecurityConfig.APIKeyValue = EndpointEntry.APIKeyValue endpoint,
                   APIKeyIdentifierType = APIKeyIn endpoint,
                   ConnectionTimeoutDuration = - 1,
                   SocketTimeoutDuration = - 1,
                   ConnectionRequestTimeoutDuration = - 1 \<rparr> \<rparr> \<rparr> \<rparr>"

text \<open>\<^verbatim>\<open>fmt.Sprintf("%s://%s", protocol, url)\<close> for a URL that is not empty, lines 184 to 187.\<close>

definition stageURL :: "MultiEndpoints \<Rightarrow> EndpointEntry \<Rightarrow> string" where
  "stageURL multiEndpoints endpoint =
     (if EndpointEntry.URL endpoint \<noteq> ''''
      then Protocol multiEndpoints @ ''://'' @ EndpointEntry.URL endpoint
      else '''')"

text \<open>One round of the loop over \<^verbatim>\<open>multiEndpoints.ProdEndpoints\<close>, lines 177 to 217.\<close>

definition prodEndpointStep :: "runtime \<Rightarrow> MultiEndpoints \<Rightarrow> EndpointEntry \<Rightarrow> endpointVars \<Rightarrow> endpointVars" where
  "prodEndpointStep rt multiEndpoints endpoint v =
     (let prodCount' = prodCount v + 1;
          endpointName = (if prodCount' = 1 then ''Default Production Endpoint''
                          else showNat prodCount' @ '' Production Endpoint'');
          prodEndpoint = stageURL multiEndpoints endpoint;
          endpointUUID = newUUID rt (uuidsDrawn v) @ ''--PRODUCTION'';
          v1 = v\<lparr> prodCount := prodCount', uuidsDrawn := uuidsDrawn v + 1 \<rparr>;
          v2 = (if prodCount' = 1
                then v1\<lparr> primaryProductionEndpointID := endpointUUID,
                         primaryProdcutionURL := prodEndpoint \<rparr>
                else v1)
      in v2\<lparr> apimEndpints := apimEndpints v2 @
           [productionAPIMEndpoint multiEndpoints endpoint endpointUUID endpointName prodEndpoint] \<rparr>)"

fun prodEndpointsLoop :: "runtime \<Rightarrow> MultiEndpoints \<Rightarrow> EndpointEntry list \<Rightarrow> endpointVars \<Rightarrow> endpointVars" where
  "prodEndpointsLoop rt multiEndpoints [] v = v"
| "prodEndpointsLoop rt multiEndpoints (endpoint # rest) v =
     prodEndpointsLoop rt multiEndpoints rest (prodEndpointStep rt multiEndpoints endpoint v)"

text \<open>One round of the loop over \<^verbatim>\<open>multiEndpoints.SandEndpoints\<close>, lines 221 to 262.\<close>

definition sandEndpointStep :: "runtime \<Rightarrow> MultiEndpoints \<Rightarrow> EndpointEntry \<Rightarrow> endpointVars \<Rightarrow> endpointVars" where
  "sandEndpointStep rt multiEndpoints endpoint v =
     (let sandCount' = sandCount v + 1;
          endpointName = (if sandCount' = 1 then ''Default Sandbox Endpoint''
                          else showNat sandCount' @ '' Sandbox Endpoint'');
          sandEndpoint = stageURL multiEndpoints endpoint;
          endpointUUID = newUUID rt (uuidsDrawn v) @ ''--SANDBOX'';
          v1 = v\<lparr> sandCount := sandCount', uuidsDrawn := uuidsDrawn v + 1 \<rparr>;
          v2 = (if sandCount' = 1
                then v1\<lparr> primarySandboxEndpointID := endpointUUID,
                         primarySandboxURL := sandEndpoint \<rparr>
                else v1)
      in v2\<lparr> apimEndpints := apimEndpints v2 @
           [sandboxAPIMEndpoint multiEndpoints endpoint endpointUUID endpointName sandEndpoint] \<rparr>)"

fun sandEndpointsLoop :: "runtime \<Rightarrow> MultiEndpoints \<Rightarrow> EndpointEntry list \<Rightarrow> endpointVars \<Rightarrow> endpointVars" where
  "sandEndpointsLoop rt multiEndpoints [] v = v"
| "sandEndpointsLoop rt multiEndpoints (endpoint # rest) v =
     sandEndpointsLoop rt multiEndpoints rest (sandEndpointStep rt multiEndpoints endpoint v)"

text \<open>Lines 167 to 263 of \<^verbatim>\<open>createAPIYaml\<close>: both loops, production first.\<close>

definition resolveEndpoints :: "runtime \<Rightarrow> MultiEndpoints \<Rightarrow> endpointVars" where
  "resolveEndpoints rt multiEndpoints =
     sandEndpointsLoop rt multiEndpoints (SandEndpoints multiEndpoints)
       (prodEndpointsLoop rt multiEndpoints (ProdEndpoints multiEndpoints) initialEndpointVars)"

text \<open>
  \<^verbatim>\<open>convertAIModelWeightsToModelConfigs\<close>: the inner loop stops at the first endpoint
  whose production URL or sandbox URL equals the endpoint of the weight; the
  \<^verbatim>\<open>isProd\<close> argument is not read.
\<close>

fun findEndpointID :: "string \<Rightarrow> APIMEndpoint list \<Rightarrow> string" where
  "findEndpointID weightEndpoint [] = ''''"
| "findEndpointID weightEndpoint (endpoint # rest) =
     (if Endpoints.URL (ProductionEndpoints (EndpointConfig endpoint)) = weightEndpoint
      then EndpointUUID endpoint
      else if Endpoints.URL (SandboxEndpoints (EndpointConfig endpoint)) = weightEndpoint
      then EndpointUUID endpoint
      else findEndpointID weightEndpoint rest)"

fun convertAIModelWeightsToModelConfigs :: "AIModelWeight list \<Rightarrow> APIMEndpoint list \<Rightarrow> bool \<Rightarrow> ModelConfig list" where
  "convertAIModelWeightsToModelConfigs [] apimEndpoints isProd = []"
| "convertAIModelWeightsToModelConfigs (weight # rest) apimEndpoints isProd =
     \<lparr> ModelConfig.Model = AIModelWeight.Model weight,
       EndpointID = findEndpointID (AIModelWeight.Endpoint weight) apimEndpoints,
       ModelConfig.Weight = AIModelWeight.Weight weight \<rparr>
     # convertAIModelWeightsToModelConfigs rest apimEndpoints isProd"

section \<open>Go slices of operation policies\<close>

text \<open>
  A Go slice is a header (backing array, length, capacity); \<^verbatim>\<open>append\<close> writes into
  the backing array when the capacity allows it and copies to a new array otherwise, so
  two slices can share an array and see each other's writes. The policy slices of
  \<^verbatim>\<open>extractOperations\<close> are modelled with that store: line 949 of the source
  assigns to the request slice the result of appending to the response slice.
\<close>

record slice =
  arr :: nat
  len :: nat
  cap :: nat

record policyHeap =
  arrays :: "nat \<Rightarrow> OperationPolicy list"
  allocated :: nat

definition nilSlice :: slice where
  "nilSlice = \<lparr> arr = 0, len = 0, cap = 0 \<rparr>"

definition emptyHeap :: policyHeap where
  "emptyHeap = \<lparr> arrays = (\<lambda>a. []), allocated = 0 \<rparr>"

definition zeroOperationPolicy :: OperationPolicy where
  "zeroOperationPolicy =
     \<lparr> PolicyName = '''', PolicyVersion = '''', PolicyID = '''', PolicyType = '''',
       Parameters = NilParameters \<rparr>"

text \<open>The elements a slice shows: the first \<open>len\<close> cells of its array.\<close>

definition elems :: "policyHeap \<Rightarrow> slice \<Rightarrow> OperationPolicy list" where
  "elems h s = take (len s) (arrays h (arr s))"

text \<open>
  \<^verbatim>\<open>append(s, x)\<close>. The new array has at least \<open>len s + 1\<close> cells, whatever the
  growth function answers; its cells beyond the copied ones hold the zero value.
\<close>

definition append_slice ::
  "(nat \<Rightarrow> nat \<Rightarrow> nat) \<Rightarrow> policyHeap \<Rightarrow> slice \<Rightarrow> OperationPolicy \<Rightarrow> policyHeap \<times> slice" where
  "append_slice grow h s x =
     (if len s < cap s
      then (h\<lparr> arrays := (arrays h)(arr s := (arrays h (arr s))[len s := x]) \<rparr>,
            s\<lparr> len := len s + 1 \<rparr>)
      else (let newcap = max (len s + 1) (grow (cap s) (len s + 1));
                a = allocated h + 1
            in (h\<lparr> arrays := (arrays h)(a := elems h s @ [x] @
                                   replicate (newcap - (len s + 1)) zeroOperationPolicy),
                   allocated := a \<rparr>,
                \<lparr> arr = a, len = len s + 1, cap = newcap \<rparr>)))"

text \<open>
  A slice header fits a store when its length is within its capacity and, unless the
  capacity is zero (the nil slice), its array has been allocated with that capacity.
\<close>

definition wfSlice :: "policyHeap \<Rightarrow> slice \<Rightarrow> bool" where
  "wfSlice h s \<longleftrightarrow>
     len s \<le> cap s \<and> (cap s = 0 \<or> (length (arrays h (arr s)) = cap s \<and> arr s \<le> allocated h))"

text \<open>
  The growth of the Go runtime for small slices: the capacity doubles (0, 1, 2, 4, 8).
  It is the instance used to run examples.
\<close>

definition doubling :: "nat \<Rightarrow> nat \<Rightarrow> nat" where
  "doubling old needed = (if 2 * old < needed then needed else 2 * old)"

section \<open>Operation extraction\<close>

text \<open>
  The local variables of \<^verbatim>\<open>extractOperations\<close>. The two policy slices are declared
  once, before the loops over the schema, and are never reset. \<^verbatim>\<open>scopewrappers\<close> is a
  Go map from scope names to scope wrappers.
\<close>

record extractVars =
  heap :: policyHeap
  apiOperations :: "slice APIOperation list"
  requestOperationPolicies :: slice
  responseOperationPolicies :: slice
  scopewrappers :: "(string \<times> ScopeWrapper) list"

definition initialExtractVars :: extractVars where
  "initialExtractVars =
     \<lparr> heap = emptyHeap, apiOperations = [], requestOperationPolicies = nilSlice,
       responseOperationPolicies = nilSlice, scopewrappers = [] \<rparr>"

fun scopesLoop :: "string list \<Rightarrow> (string \<times> ScopeWrapper) list \<Rightarrow> (string \<times> ScopeWrapper) list" where
  "scopesLoop [] m = m"
| "scopesLoop (scope # rest) m =
     scopesLoop rest
       (AList.update scope
          \<lparr> Scope = \<lparr> Scope.Name = scope, DisplayName = scope, Description = scope, Bindings = [] \<rparr>,
            Shared = False \<rparr> m)"

text \<open>\<^verbatim>\<open>requestOperationPolicies = append(requestOperationPolicies, operationPolicy)\<close>\<close>

definition appendRequestToRequest :: "runtime \<Rightarrow> OperationPolicy \<Rightarrow> extractVars \<Rightarrow> extractVars" where
  "appendRequestToRequest rt operationPolicy v =
     (case append_slice (growslice rt) (heap v) (requestOperationPolicies v) operationPolicy of
        (h, s) \<Rightarrow> v\<lparr> heap := h, requestOperationPolicies := s \<rparr>)"

text \<open>
  \<^verbatim>\<open>requestOperationPolicies = append(responseOperationPolicies, operationPolicy)\<close>,
  the assignment of line 949.
\<close>

definition appendResponseToRequest :: "runtime \<Rightarrow> OperationPolicy \<Rightarrow> extractVars \<Rightarrow> extractVars" where
  "appendResponseToRequest rt operationPolicy v =
     (case append_slice (growslice rt) (heap v) (responseOperationPolicies v) operationPolicy of
        (h, s) \<Rightarrow> v\<lparr> heap := h, requestOperationPolicies := s \<rparr>)"

text \<open>\<^verbatim>\<open>responseOperationPolicies = append(responseOperationPolicies, operationPolicy)\<close>\<close>

definition appendResponseToResponse :: "runtime \<Rightarrow> OperationPolicy \<Rightarrow> extractVars \<Rightarrow> extractVars" where
  "appendResponseToResponse rt operationPolicy v =
     (case append_slice (growslice rt) (heap v) (responseOperationPolicies v) operationPolicy of
        (h, s) \<Rightarrow> v\<lparr> heap := h, responseOperationPolicies := s \<rparr>)"

text \<open>
  The policy literals of the header loops: lines 926 to 933 and 958 to 965 for a header
  that is added, lines 942 to 948 and 974 to 980 for a header that is removed.
\<close>

definition addHeaderPolicy :: "runtime \<Rightarrow> APKHeader \<Rightarrow> OperationPolicy" where
  "addHeaderPolicy rt header =
     \<lparr> PolicyName = AddHeader (constants rt), PolicyVersion = V1 (constants rt),
       PolicyID = [], PolicyType = [],
       Parameters = HeaderParameters
         \<lparr> Header.Name = APKHeader.Name header, Header.Value = APKHeader.Value header \<rparr> \<rparr>"

definition removeHeaderPolicy :: "runtime \<Rightarrow> string \<Rightarrow> OperationPolicy" where
  "removeHeaderPolicy rt header =
     \<lparr> PolicyName = RemoveHeader (constants rt), PolicyVersion = V1 (constants rt),
       PolicyID = [], PolicyType = [],
       Parameters = HeaderParameters \<lparr> Header.Name = header, Header.Value = [] \<rparr> \<rparr>"

text \<open>
  The four loops over the headers of an \<^verbatim>\<open>APKHeaders\<close> filter, lines 925 to 982. The
  loop that removes request headers assigns to the request slice what \<^verbatim>\<open>append\<close>
  makes of the response slice (line 949); the other three append to their own slice.
\<close>

fun requestAddHeadersLoop :: "runtime \<Rightarrow> APKHeader list \<Rightarrow> extractVars \<Rightarrow> extractVars" where
  "requestAddHeadersLoop rt [] v = v"
| "requestAddHeadersLoop rt (requestHeader # rest) v =
     requestAddHeadersLoop rt rest (appendRequestToRequest rt (addHeaderPolicy rt requestHeader) v)"

fun requestRemoveHeadersLoop :: "runtime \<Rightarrow> string list \<Rightarrow> extractVars \<Rightarrow> extractVars" where
  "requestRemoveHeadersLoop rt [] v = v"
| "requestRemoveHeadersLoop rt (requestHeader # rest) v =
     requestRemoveHeadersLoop rt rest (appendResponseToRequest rt (removeHeaderPolicy rt requestHeader) v)"

fun responseAddHeadersLoop :: "runtime \<Rightarrow> APKHeader list \<Rightarrow> extractVars \<Rightarrow> extractVars" where
  "responseAddHeadersLoop rt [] v = v"
| "responseAddHeadersLoop rt (responseHeader # rest) v =
     responseAddHeadersLoop rt rest (appendResponseToResponse rt (addHeaderPolicy rt responseHeader) v)"

fun responseRemoveHeadersLoop :: "runtime \<Rightarrow> string list \<Rightarrow> extractVars \<Rightarrow> extractVars" where
  "responseRemoveHeadersLoop rt [] v = v"
| "responseRemoveHeadersLoop rt (responseHeader # rest) v =
     responseRemoveHeadersLoop rt rest (appendResponseToResponse rt (removeHeaderPolicy rt responseHeader) v)"

fun mirrorURLsLoop :: "runtime \<Rightarrow> string list \<Rightarrow> extractVars \<Rightarrow> extractVars" where
  "mirrorURLsLoop rt [] v = v"
| "mirrorURLsLoop rt (url # rest) v =
     mirrorURLsLoop rt rest
       (appendRequestToRequest rt
          \<lparr> PolicyName = constants.MirrorRequest (constants rt), PolicyVersion = V1 (constants rt),
            PolicyID = '''', PolicyType = '''',
            Parameters = MirrorRequestParameters url \<rparr> v)"

text \<open>
  The type switch over one filter, lines 918 to 1012. The redirect policy is built with
  a \<^verbatim>\<open>MirrorRequest\<close> parameter value, as in the source.
\<close>

fun filterStep :: "runtime \<Rightarrow> Filter \<Rightarrow> extractVars \<Rightarrow> extractVars" where
  "filterStep rt (FilterAPKHeaders fltr) v =
     (let requestHeaders = RequestHeaders fltr;
          v1 = (if AddHeaders requestHeaders \<noteq> []
                then requestAddHeadersLoop rt (AddHeaders requestHeaders) v else v);
          v2 = (if RemoveHeaders requestHeaders \<noteq> []
                then requestRemoveHeadersLoop rt (RemoveHeaders requestHeaders) v1 else v1);
          responseHeaders = ResponseHeaders fltr;
          v3 = (if AddHeaders responseHeaders \<noteq> []
                then responseAddHeadersLoop rt (AddHeaders responseHeaders) v2 else v2)
      in if RemoveHeaders responseHeaders \<noteq> []
         then responseRemoveHeadersLoop rt (RemoveHeaders responseHeaders) v3 else v3)"
| "filterStep rt (FilterAPKMirrorRequest fltr) v = mirrorURLsLoop rt (URLs fltr) v"
| "filterStep rt (FilterAPKRedirectRequest fltr) v =
     appendRequestToRequest rt
       \<lparr> PolicyName = constants.RedirectRequest (constants rt), PolicyVersion = V1 (constants rt),
         PolicyID = '''', PolicyType = '''',
         Parameters = MirrorRequestParameters (APKRedirectRequest.URL fltr) \<rparr> v"
| "filterStep rt FilterOther v = v"

fun filtersLoop :: "runtime \<Rightarrow> Filter list \<Rightarrow> extractVars \<Rightarrow> extractVars" where
  "filtersLoop rt [] v = v"
| "filtersLoop rt (operationLevelFilter # rest) v =
     filtersLoop rt rest (filterStep rt operationLevelFilter v)"

text \<open>
  The body of the inner loop for one (path, verb) pair of the schema, lines 887 to
  1026: nothing happens when no declared operation matches; otherwise the scopes are
  stored, the policies of the operation are appended to the shared slices, and the
  operation is recorded with the two slice headers as they are at that moment.
\<close>

definition operationStep ::
  "runtime \<Rightarrow> APICPEvent \<Rightarrow> APIMEndpoint list \<Rightarrow> string \<Rightarrow> string \<Rightarrow> extractVars \<Rightarrow> extractVars" where
  "operationStep rt event apimEndpoints path verb v =
     (case findMatchingAPKOperation (matchRegex rt) path verb (Operations (API event)) of
        None \<Rightarrow> v
      | Some operationFromDP \<Rightarrow>
          (let scopes = OperationFromDP.Scopes operationFromDP;
               v1 = v\<lparr> scopewrappers := scopesLoop scopes (scopewrappers v) \<rparr>;
               v2 = (case OperationFromDP.AIModelBasedRoundRobin operationFromDP of
                       None \<Rightarrow> v1
                     | Some aiModelBasedRoundRobin \<Rightarrow>
                         appendRequestToRequest rt
                           \<lparr> PolicyName = ModelWeightedRoundRobin (constants rt),
                             PolicyVersion = V1 (constants rt),
                             PolicyID = '''', PolicyType = '''',
                             Parameters = ModelBasedRoundRobinConfigParameters
                               \<lparr> ModelBasedRoundRobinConfig.Production = convertAIModelWeightsToModelConfigs
                                    (ProductionModels aiModelBasedRoundRobin) apimEndpoints True,
                                 Sandbox = convertAIModelWeightsToModelConfigs
                                    (SandboxModels aiModelBasedRoundRobin) apimEndpoints False,
                                 SuspendDuration =
                                    showInt (OnQuotaExceedSuspendDuration aiModelBasedRoundRobin) \<rparr> \<rparr>
                           v1);
               v3 = filtersLoop rt (Filters operationFromDP) v2
           in v3\<lparr> apiOperations := apiOperations v3 @
                [\<lparr> ID = '''', Target = path, APIOperation.Verb = verb,
                   AuthType = ''Application & Application User'',
                   ThrottlingPolicy = ''Unlimited'',
                   APIOperation.Scopes = scopes,
                   UsedProductIDs = [],
                   OperationPolicies =
                     \<lparr> Request = requestOperationPolicies v3,
                       Response = responseOperationPolicies v3,
                       Fault = [] \<rparr> \<rparr>] \<rparr>))"

fun verbsLoop ::
  "runtime \<Rightarrow> APICPEvent \<Rightarrow> APIMEndpoint list \<Rightarrow> string \<Rightarrow> string list \<Rightarrow> extractVars \<Rightarrow> extractVars" where
  "verbsLoop rt event apimEndpoints path [] v = v"
| "verbsLoop rt event apimEndpoints path (verb # rest) v =
     verbsLoop rt event apimEndpoints path rest (operationStep rt event apimEndpoints path verb v)"

fun pathsLoop ::
  "runtime \<Rightarrow> APICPEvent \<Rightarrow> APIMEndpoint list \<Rightarrow> (string \<times> string list) list \<Rightarrow> extractVars \<Rightarrow> extractVars" where
  "pathsLoop rt event apimEndpoints [] v = v"
| "pathsLoop rt event apimEndpoints ((path, operations) # rest) v =
     pathsLoop rt event apimEndpoints rest (verbsLoop rt event apimEndpoints path operations v)"

text \<open>The loop of the GraphQL branch, lines 869 to 877.\<close>

fun graphQLOperationsLoop :: "OperationFromDP list \<Rightarrow> slice APIOperation list \<Rightarrow> slice APIOperation list" where
  "graphQLOperationsLoop [] ops = ops"
| "graphQLOperationsLoop (operation # rest) ops =
     graphQLOperationsLoop rest
       (ops @
          [\<lparr> ID = '''', Target = OperationFromDP.Path operation,
             APIOperation.Verb = OperationFromDP.Verb operation,
             AuthType = ''Application & Application User'',
             ThrottlingPolicy = ''Unlimited'',
             APIOperation.Scopes = [], UsedProductIDs = [],
             OperationPolicies = \<lparr> Request = nilSlice, Response = nilSlice, Fault = [] \<rparr> \<rparr>])"

datatype error = UnmarshalError

text \<open>
  \<^verbatim>\<open>extractOperations\<close> returns the operations, the scope wrappers and an error; the
  model adds the store in which the slices of the operations are to be read. The scope
  wrappers are copied from the map to a slice by a \<^verbatim>\<open>range\<close> (lines 1029 to 1032), in
  the order in which the runtime visits the map. The
  GraphQL branch fills \<^verbatim>\<open>apiOperations\<close> and then falls through to the final
  \<^verbatim>\<open>return\<close>, which returns two empty slices.
\<close>

definition extractOperations ::
  "runtime \<Rightarrow> APICPEvent \<Rightarrow> APIMEndpoint list \<Rightarrow>
     error + (slice APIOperation list \<times> ScopeWrapper list \<times> policyHeap)" where
  "extractOperations rt event apimEndpoints =
     (if ToUpper (APIType (API event)) = ''GRAPHQL''
      then (let ops = graphQLOperationsLoop (Operations (API event)) []
            in Inr ([], [], emptyHeap))
      else if ToUpper (APIType (API event)) = ''REST''
      then (case unmarshalPaths rt (Definition (API event)) of
              None \<Rightarrow> Inl UnmarshalError
            | Some paths \<Rightarrow>
                (let v = pathsLoop rt event apimEndpoints paths initialExtractVars;
                     scopeWrapperSlice = map snd (rangeMap (rangeScopewrappers rt) (scopewrappers v))
                 in Inr (apiOperations v, scopeWrapperSlice, heap v)))
      else Inr ([], [], emptyHeap))"

text \<open>An operation as the YAML encoder sees it: each policy slice read in the store.\<close>

definition readOperation :: "policyHeap \<Rightarrow> slice APIOperation \<Rightarrow> OperationPolicy list APIOperation" where
  "readOperation h operation =
     \<lparr> ID = ID operation, Target = Target operation,
       APIOperation.Verb = APIOperation.Verb operation,
       AuthType = AuthType operation, ThrottlingPolicy = ThrottlingPolicy operation,
       APIOperation.Scopes = APIOperation.Scopes operation,
       UsedProductIDs = UsedProductIDs operation,
       OperationPolicies =
         \<lparr> Request = elems h (Request (OperationPolicies operation)),
           Response = elems h (Response (OperationPolicies operation)),
           Fault = Fault (OperationPolicies operation) \<rparr> \<rparr>"

section \<open>Artifact synthesis\<close>

text \<open>
  \<^verbatim>\<open>createAPIYaml\<close> builds its documents as nested Go maps and returns the text the
  YAML encoder makes of them. A document is modelled as the tree handed to the encoder:
  a record with one field per key, named after the key, and an optional field for a
  key that the function adds or deletes under a condition (\<open>None\<close>: the key is absent).
\<close>

subsection \<open>The documents\<close>

record SecurityDoc =
  sec_apiKeyValue :: string
  sec_apiKeyIdentifier :: string
  sec_apiKeyIdentifierType :: string
  sec_type :: string
  sec_username :: string
  sec_password :: string
  sec_enabled :: bool
  sec_additionalProperties :: "(string \<times> string) list"
  sec_customParameters :: "(string \<times> string) list"
  sec_connectionTimeoutDuration :: int
  sec_socketTimeoutDuration :: int
  sec_connectionRequestTimeoutDuration :: int

record EndpointSecurityDoc =
  es_sandbox :: SecurityDoc
  es_production :: SecurityDoc

text \<open>\<open>ec_sandbox_endpoints\<close> and \<open>ec_production_endpoints\<close> hold the \<^verbatim>\<open>url\<close> of the key.\<close>

record EndpointConfigDoc =
  ec_endpoint_type :: string
  ec_sandbox_endpoints :: "string option"
  ec_production_endpoints :: "string option"
  ec_endpoint_security :: EndpointSecurityDoc

record SubtypeConfigurationDoc =
  st_subtype :: string
  st_configuration :: string

record CorsConfigurationDoc =
  corsConfigurationEnabled :: bool
  accessControlAllowOrigins :: "string list"
  accessControlAllowCredentials :: bool
  accessControlAllowHeaders :: "string list"
  accessControlAllowMethods :: "string list"
  accessControlExposeHeaders :: "string list"

record TokenConfigDoc =
  productionMaxPromptTokenCount :: "int option"
  productionMaxCompletionTokenCount :: "int option"
  productionMaxTotalTokenCount :: "int option"
  isTokenBasedThrottlingEnabled :: "bool option"
  sandboxMaxPromptTokenCount :: "int option"
  sandboxMaxCompletionTokenCount :: "int option"
  sandboxMaxTotalTokenCount :: "int option"

record MaxTpsDoc =
  mt_production :: "int option"
  mt_productionTimeUnit :: "string option"
  mt_tokenBasedThrottlingConfiguration :: "TokenConfigDoc option"
  mt_sandbox :: "int option"
  mt_sandboxTimeUnit :: "string option"

record APIData =
  api_name :: string
  api_context :: string
  api_version :: string
  api_organizationId :: string
  api_provider :: string
  api_lifeCycleStatus :: string
  api_responseCachingEnabled :: bool
  api_cacheTimeout :: int
  api_hasThumbnail :: bool
  api_isDefaultVersion :: bool
  api_isRevision :: bool
  api_enableSchemaValidation :: bool
  api_enableSubscriberVerification :: bool
  api_type :: string
  api_transport :: "string list"
  api_endpointConfig :: EndpointConfigDoc
  api_policies :: "string list"
  api_gatewayType :: string
  api_gatewayVendor :: string
  api_operations :: "OperationPolicy list APIOperation list"
  api_additionalProperties :: "AdditionalProperty list"
  api_securityScheme :: "string list"
  api_authorizationHeader :: string
  api_apiKeyHeader :: string
  api_scopes :: "ScopeWrapper list"
  api_subtypeConfiguration :: "SubtypeConfigurationDoc option"
  api_corsConfiguration :: "CorsConfigurationDoc option"
  api_maxTps :: "MaxTpsDoc option"
  api_primaryProductionEndpointId :: "string option"
  api_primarySandboxEndpointId :: "string option"
  api_endpointImplementationType :: "string option"
  api_apiPolicies :: "OperationPolicy list OperationPolicies"

record APIDoc =
  doc_type :: string
  doc_version :: string
  doc_data :: APIData

record EpSecurityDoc =
  eps_enabled :: bool
  eps_type :: string
  eps_apiKeyIdentifier :: string
  eps_apiKeyValue :: string
  eps_apiKeyIdentifierType :: string
  eps_username :: string
  eps_customParameters :: string
  eps_connectionTimeoutDuration :: int
  eps_connectionRequestTimeoutDuration :: int
  eps_socketTimeoutDuration :: int
  eps_grantType :: string
  eps_tokenUrl :: string
  eps_proxyConfigs :: "(string \<times> string) list"

record EpSecurityMapDoc =
  esm_production :: "EpSecurityDoc option"
  esm_sandbox :: "EpSecurityDoc option"
  esm_customParameters :: string

record EpConfigDoc =
  epc_endpoint_type :: string
  epc_production_endpoints :: "string option"
  epc_sandbox_endpoints :: "string option"
  epc_endpoint_security :: EpSecurityMapDoc

record EndpointDoc =
  ep_id :: string
  ep_name :: string
  ep_deploymentStage :: string
  ep_endpointConfig :: EpConfigDoc

record EndpointsDoc =
  eds_type :: string
  eds_version :: string
  eds_data :: "EndpointDoc list"

record DeploymentEnvironment =
  displayOnDevportal :: bool
  deploymentEnvironment :: string
  deploymentVhost :: string

record DeploymentDoc =
  dep_type :: string
  dep_version :: string
  dep_data :: "DeploymentEnvironment list"

text \<open>
  The definition that \<^verbatim>\<open>createAPIYaml\<close> returns: the text of the event as it came, or
  the encoding of the tree it rewrote.
\<close>

datatype DefinitionDoc =
    Unchanged string
  | Marshalled "(string \<times> yaml) list"

subsection \<open>Parts of \<^verbatim>\<open>createAPIYaml\<close>\<close>

text \<open>
  \<^verbatim>\<open>createAdditionalProperties\<close>: one element per entry of the map, appended in the
  order in which the \<^verbatim>\<open>range\<close> visits the entries.
\<close>

fun additionalPropertiesLoop :: "(string \<times> string) list \<Rightarrow> AdditionalProperty list" where
  "additionalPropertiesLoop [] = []"
| "additionalPropertiesLoop ((key, val) # rest) =
     \<lparr> AdditionalProperty.Name = key, AdditionalProperty.Value = val, Display = False \<rparr>
     # additionalPropertiesLoop rest"

definition createAdditionalProperties :: "runtime \<Rightarrow> (string \<times> string) list \<Rightarrow> AdditionalProperty list" where
  "createAdditionalProperties rt data =
     additionalPropertiesLoop (rangeMap (rangeAPIProperties rt) data)"

text \<open>
  The \<^verbatim>\<open>endpoint_security\<close> entry of one stage in the API definition, lines 332 to
  359; \<open>secType\<close> is the type that the caller has already defaulted or not.
\<close>

definition securityDoc :: "EndpointSecurityConfig \<Rightarrow> string \<Rightarrow> SecurityDoc" where
  "securityDoc sec secType =
     \<lparr> sec_apiKeyValue = EndpointSecurityConfig.APIKeyValue sec,
       sec_apiKeyIdentifier = EndpointSecurityConfig.APIKeyName sec,
       sec_apiKeyIdentifierType = ''HEADER'',
       sec_type = secType,
       sec_username = EndpointSecurityConfig.BasicUsername sec,
       sec_password = EndpointSecurityConfig.BasicPassword sec,
       sec_enabled = EndpointSecurityConfig.Enabled sec,
       sec_additionalProperties = [],
       sec_customParameters = [],
       sec_connectionTimeoutDuration = - 1,
       sec_socketTimeoutDuration = - 1,
       sec_connectionRequestTimeoutDuration = - 1 \<rparr>"

text \<open>
  The inline endpoint configuration, lines 270 to 278, 296 to 303, 323 to 361 and 378
  to 385: the single-endpoint fields with the protocol in front, the security type
  defaulted to \<^verbatim>\<open>NONE\<close>, and the key of a stage deleted when the event has no
  endpoint for it.
\<close>

definition inlineEndpointConfig :: "API \<Rightarrow> EndpointConfigDoc" where
  "inlineEndpointConfig api =
     (let sandEndpoint = (if SandEndpoint api \<noteq> ''''
                          then EndpointProtocol api @ ''://'' @ SandEndpoint api
                          else SandEndpoint api);
          prodEndpoint = (if ProdEndpoint api \<noteq> ''''
                          then EndpointProtocol api @ ''://'' @ ProdEndpoint api
                          else ProdEndpoint api);
          sandboxSecType = (if EndpointSecurityConfig.SecurityType (SandEndpointSecurity api) = ''''
                            then ''NONE''
                            else EndpointSecurityConfig.SecurityType (SandEndpointSecurity api));
          prodSecType = (if EndpointSecurityConfig.SecurityType (ProdEndpointSecurity api) = ''''
                         then ''NONE''
                         else EndpointSecurityConfig.SecurityType (ProdEndpointSecurity api))
      in \<lparr> ec_endpoint_type = EndpointProtocol api,
           ec_sandbox_endpoints = (if SandEndpoint api = '''' then None else Some sandEndpoint),
           ec_production_endpoints = (if ProdEndpoint api = '''' then None else Some prodEndpoint),
           ec_endpoint_security =
             \<lparr> es_sandbox = securityDoc (SandEndpointSecurity api) sandboxSecType,
               es_production = securityDoc (ProdEndpointSecurity api) prodSecType \<rparr> \<rparr>)"

text \<open>
  The endpoint configuration that lines 625 to 663 put in place of the inline one: the
  URLs of the primary endpoints, both keys always present, the security types as the
  event has them.
\<close>

definition primaryEndpointConfig :: "API \<Rightarrow> endpointVars \<Rightarrow> EndpointConfigDoc" where
  "primaryEndpointConfig api ev =
     \<lparr> ec_endpoint_type = EndpointProtocol api,
       ec_sandbox_endpoints = Some (primarySandboxURL ev),
       ec_production_endpoints = Some (primaryProdcutionURL ev),
       ec_endpoint_security =
         \<lparr> es_sandbox = securityDoc (SandEndpointSecurity api)
                          (EndpointSecurityConfig.SecurityType (SandEndpointSecurity api)),
           es_production = securityDoc (ProdEndpointSecurity api)
                          (EndpointSecurityConfig.SecurityType (ProdEndpointSecurity api)) \<rparr> \<rparr>"

text \<open>The \<^verbatim>\<open>subtypeConfiguration\<close> map, lines 286 to 294; \<open>None\<close> when it stays empty.\<close>

definition subTypeConfiguration :: "API \<Rightarrow> SubtypeConfigurationDoc option" where
  "subTypeConfiguration api =
     (if APISubType api \<noteq> '''' \<and> LLMProviderID (AIConfiguration api) \<noteq> ''''
         \<and> LLMProviderName (AIConfiguration api) \<noteq> ''''
         \<and> LLMProviderAPIVersion (AIConfiguration api) \<noteq> ''''
      then Some \<lparr> st_subtype = APISubType api,
                  st_configuration =
                    ''{'' @ [CHR 0x22] @ ''llmProviderId'' @ [CHR 0x22] @ '':'' @ [CHR 0x22]
                    @ LLMProviderID (AIConfiguration api) @ [CHR 0x22] @ ''}'' \<rparr>
      else None)"

definition corsConfiguration :: "API \<Rightarrow> CorsConfigurationDoc option" where
  "corsConfiguration api =
     (case CORSPolicy api of
        None \<Rightarrow> None
      | Some policy \<Rightarrow>
          Some \<lparr> corsConfigurationEnabled = True,
                 accessControlAllowOrigins = AccessControlAllowOrigins policy,
                 accessControlAllowCredentials = AccessControlAllowCredentials policy,
                 accessControlAllowHeaders = AccessControlAllowHeaders policy,
                 accessControlAllowMethods = AccessControlAllowMethods policy,
                 accessControlExposeHeaders = AccessControlExposeHeaders policy \<rparr>)"

text \<open>
  The \<^verbatim>\<open>maxTps\<close> map, lines 397 to 444. The production part adds the token
  configuration, with its enabling flag, only when it has a token count; the sandbox
  part creates an empty token configuration when there is none yet and never sets the
  flag.
\<close>

definition emptyTokenConfig :: TokenConfigDoc where
  "emptyTokenConfig =
     \<lparr> productionMaxPromptTokenCount = None, productionMaxCompletionTokenCount = None,
       productionMaxTotalTokenCount = None, isTokenBasedThrottlingEnabled = None,
       sandboxMaxPromptTokenCount = None, sandboxMaxCompletionTokenCount = None,
       sandboxMaxTotalTokenCount = None \<rparr>"

definition emptyMaxTps :: MaxTpsDoc where
  "emptyMaxTps =
     \<lparr> mt_production = None, mt_productionTimeUnit = None,
       mt_tokenBasedThrottlingConfiguration = None, mt_sandbox = None,
       mt_sandboxTimeUnit = None \<rparr>"

definition maxTpsProduction :: "API \<Rightarrow> MaxTpsDoc \<Rightarrow> MaxTpsDoc" where
  "maxTpsProduction api maxTps =
     (case ProdAIRL api of
        None \<Rightarrow> maxTps
      | Some airl \<Rightarrow>
          (let m1 = maxTps\<lparr> mt_production := Some (RequestCount airl),
                            mt_productionTimeUnit := Some (ToUpper (TimeUnit airl)) \<rparr>;
               tokenConfig = emptyTokenConfig
                 \<lparr> productionMaxPromptTokenCount := PromptTokenCount airl,
                   productionMaxCompletionTokenCount := CompletionTokenCount airl,
                   productionMaxTotalTokenCount := TotalTokenCount airl \<rparr>
           in if PromptTokenCount airl \<noteq> None \<or> CompletionTokenCount airl \<noteq> None
                 \<or> TotalTokenCount airl \<noteq> None
              then m1\<lparr> mt_tokenBasedThrottlingConfiguration :=
                        Some (tokenConfig\<lparr> isTokenBasedThrottlingEnabled := Some True \<rparr>) \<rparr>
              else m1))"

definition maxTpsSandbox :: "API \<Rightarrow> MaxTpsDoc \<Rightarrow> MaxTpsDoc" where
  "maxTpsSandbox api maxTps =
     (case SandAIRL api of
        None \<Rightarrow> maxTps
      | Some airl \<Rightarrow>
          (let m1 = maxTps\<lparr> mt_sandbox := Some (RequestCount airl),
                            mt_sandboxTimeUnit := Some (ToUpper (TimeUnit airl)) \<rparr>;
               tokenConfig = (case mt_tokenBasedThrottlingConfiguration m1 of
                                None \<Rightarrow> emptyTokenConfig
                              | Some t \<Rightarrow> t);
               setIfPresent = (\<lambda>new old. case new of None \<Rightarrow> old | Some n \<Rightarrow> Some n)
           in m1\<lparr> mt_tokenBasedThrottlingConfiguration :=
                 Some (tokenConfig
                   \<lparr> sandboxMaxPromptTokenCount :=
                       setIfPresent (PromptTokenCount airl) (sandboxMaxPromptTokenCount tokenConfig),
                     sandboxMaxCompletionTokenCount :=
                       setIfPresent (CompletionTokenCount airl) (sandboxMaxCompletionTokenCount tokenConfig),
                     sandboxMaxTotalTokenCount :=
                       setIfPresent (TotalTokenCount airl) (sandboxMaxTotalTokenCount tokenConfig) \<rparr>) \<rparr>))"

definition maxTpsDoc :: "API \<Rightarrow> MaxTpsDoc option" where
  "maxTpsDoc api =
     (if ProdAIRL api = None \<and> SandAIRL api = None then None
      else Some (maxTpsSandbox api (maxTpsProduction api emptyMaxTps)))"

subsection \<open>Rewriting the OpenAPI definition\<close>

text \<open>
  The innermost loop of lines 455 to 469: the first operation whose target and verb
  equal the path and the verb up to letter case decides; if the content of the verb is
  a map it gets the scopes of the operation (when there are any) and the auth type.
\<close>

fun annotateVerb :: "OperationPolicy list APIOperation list \<Rightarrow> string \<Rightarrow> string \<Rightarrow> yaml \<Rightarrow> yaml" where
  "annotateVerb [] path verb verbContent = verbContent"
| "annotateVerb (operation # rest) path verb verbContent =
     (if EqualFold path (Target operation) \<and> EqualFold verb (APIOperation.Verb operation)
      then (case verbContent of
              YMap verbContentMap \<Rightarrow>
                (let m1 = (if APIOperation.Scopes operation \<noteq> []
                           then AList.update ''security''
                                  (YSeq [YMap [(''default'', YSeq (map YScalar (APIOperation.Scopes operation)))]])
                                  verbContentMap
                           else verbContentMap)
                 in YMap (AList.update ''x-auth-type'' (YScalar ''Application & Application User'') m1))
            | _ \<Rightarrow> verbContent)
      else annotateVerb rest path verb verbContent)"

definition annotatePath :: "OperationPolicy list APIOperation list \<Rightarrow> string \<times> yaml \<Rightarrow> string \<times> yaml" where
  "annotatePath operations entry =
     (case entry of
        (path, YMap pathContentMap) \<Rightarrow>
          (path, YMap (map (\<lambda>(verb, verbContent). (verb, annotateVerb operations path verb verbContent))
                        pathContentMap))
      | (path, pathContent) \<Rightarrow> (path, pathContent))"

definition annotatePaths :: "OperationPolicy list APIOperation list \<Rightarrow> (string \<times> yaml) list \<Rightarrow> (string \<times> yaml) list" where
  "annotatePaths operations openAPI =
     (case map_of openAPI ''paths'' of
        Some (YMap paths) \<Rightarrow> AList.update ''paths'' (YMap (map (annotatePath operations) paths)) openAPI
      | _ \<Rightarrow> openAPI)"

text \<open>
  Lines 474 to 500: the synthetic OAuth2 scheme with the names of the collected scopes.
  \<^verbatim>\<open>scopesForOpenAPIComponents\<close> is a Go map from the scope names to the empty string;
  the tree holds its entries as the encoder writes them.
\<close>

definition addSecurityScheme :: "ScopeWrapper list \<Rightarrow> (string \<times> yaml) list \<Rightarrow> (string \<times> yaml) list" where
  "addSecurityScheme scopes openAPI =
     (let scopesForOpenAPIComponents =
            YMap (encodedEntries
                    (foldl (\<lambda>m scopeWrapper. AList.update (Scope.Name (Scope scopeWrapper)) (YScalar '''') m)
                       [] scopes));
          components = (case map_of openAPI ''components'' of Some (YMap c) \<Rightarrow> c | _ \<Rightarrow> []);
          securitySchemes = (case map_of components ''securitySchemes'' of Some (YMap s) \<Rightarrow> s | _ \<Rightarrow> []);
          securitySchemes' = AList.update ''default''
            (YMap [(''type'', YScalar ''oauth2''),
                   (''flows'', YMap [(''implicit'',
                      YMap [(''authorizationUrl'', YScalar ''https://test.com''),
                            (''scopes'', scopesForOpenAPIComponents),
                            (''x-scopes-bindings'', scopesForOpenAPIComponents)])])])
            securitySchemes;
          components' = AList.update ''securitySchemes'' (YMap securitySchemes') components
      in AList.update ''components'' (YMap components') openAPI)"

definition rewriteDefinition ::
  "runtime \<Rightarrow> API \<Rightarrow> OperationPolicy list APIOperation list \<Rightarrow> ScopeWrapper list \<Rightarrow> DefinitionDoc" where
  "rewriteDefinition rt api operations scopes =
     (if EqualFold (APIType api) ''rest''
      then (case unmarshalMap rt (Definition api) of
              None \<Rightarrow> Unchanged (Definition api)
            | Some openAPI \<Rightarrow> Marshalled (addSecurityScheme scopes (annotatePaths operations openAPI)))
      else Unchanged (Definition api))"

subsection \<open>The endpoint document\<close>

definition epSecurityDoc :: "SecurityConfig \<Rightarrow> EpSecurityDoc" where
  "epSecurityDoc sec =
     \<lparr> eps_enabled = SecurityConfig.Enabled sec,
       eps_type = Type sec,
       eps_apiKeyIdentifier = APIKeyIdentifier sec,
       eps_apiKeyValue = SecurityConfig.APIKeyValue sec,
       eps_apiKeyIdentifierType = APIKeyIdentifierType sec,
       eps_username = Username sec,
       eps_customParameters = ''{}'',
       eps_connectionTimeoutDuration = ConnectionTimeoutDuration sec,
       eps_connectionRequestTimeoutDuration = ConnectionRequestTimeoutDuration sec,
       eps_socketTimeoutDuration = SocketTimeoutDuration sec,
       eps_grantType = '''',
       eps_tokenUrl = '''',
       eps_proxyConfigs =
         [(''proxyEnabled'', ''''), (''proxyHost'', ''''), (''proxyPort'', ''''),
          (''proxyUsername'', ''''), (''proxyPassword'', ''''), (''proxyProtocol'', '''')] \<rparr>"

text \<open>One round of the loop of lines 514 to 602.\<close>

definition endpointDoc :: "APIMEndpoint \<Rightarrow> EndpointDoc" where
  "endpointDoc e =
     \<lparr> ep_id = EndpointUUID e,
       ep_name = EndpointName e,
       ep_deploymentStage = DeploymentStage e,
       ep_endpointConfig =
         \<lparr> epc_endpoint_type = EndpointType (EndpointConfig e),
           epc_production_endpoints =
             (if DeploymentStage e = ''PRODUCTION''
              then Some (Endpoints.URL (ProductionEndpoints (EndpointConfig e))) else None),
           epc_sandbox_endpoints =
             (if DeploymentStage e = ''PRODUCTION'' then None
              else if DeploymentStage e = ''SANDBOX''
              then Some (Endpoints.URL (SandboxEndpoints (EndpointConfig e))) else None),
           epc_endpoint_security =
             \<lparr> esm_production =
                 (if DeploymentStage e = ''PRODUCTION''
                  then Some (epSecurityDoc (APIMEndpointSecurity.Production (EndpointSecurity (EndpointConfig e))))
                  else None),
               esm_sandbox =
                 (if DeploymentStage e = ''PRODUCTION'' then None
                  else if DeploymentStage e = ''SANDBOX''
                  then Some (epSecurityDoc (APIMEndpointSecurity.Sandbox (EndpointSecurity (EndpointConfig e))))
                  else None),
               esm_customParameters = ''null'' \<rparr> \<rparr> \<rparr>"

subsection \<open>\<^verbatim>\<open>createAPIYaml\<close> and \<^verbatim>\<open>createDeployementYaml\<close>\<close>

text \<open>The condition of line 616, under which the primary endpoints are written.\<close>

definition multiEndpointConfigEnabled :: "endpointVars \<Rightarrow> bool" where
  "multiEndpointConfigEnabled ev \<longleftrightarrow>
     primaryProductionEndpointID ev \<noteq> [] \<or> primarySandboxEndpointID ev \<noteq> []"

text \<open>The API-level policy list, lines 666 to 690.\<close>

definition apiRequestPolicies :: "runtime \<Rightarrow> API \<Rightarrow> APIMEndpoint list \<Rightarrow> OperationPolicy list" where
  "apiRequestPolicies rt api apimEndpoints =
     (case API.AIModelBasedRoundRobin api of
        None \<Rightarrow> []
      | Some aiModelBasedRoundRobin \<Rightarrow>
          (if APIType api \<noteq> ''GraphQL''
           then [\<lparr> PolicyName = ModelWeightedRoundRobin (constants rt),
                   PolicyVersion = V1 (constants rt),
                   PolicyID = '''',
                   PolicyType = CommonType (constants rt),
                   Parameters = WeightedRoundRobinConfigs
                     \<lparr> ModelBasedRoundRobinConfig.Production = convertAIModelWeightsToModelConfigs
                          (ProductionModels aiModelBasedRoundRobin) apimEndpoints True,
                       Sandbox = convertAIModelWeightsToModelConfigs
                          (SandboxModels aiModelBasedRoundRobin) apimEndpoints False,
                       SuspendDuration =
                          showInt (OnQuotaExceedSuspendDuration aiModelBasedRoundRobin) \<rparr> \<rparr>]
           else []))"

text \<open>
  \<^verbatim>\<open>createAPIYaml\<close> returns the API definition document, the definition and the
  endpoint document. The endpoint document is \<open>None\<close> when \<^verbatim>\<open>endpointsData\<close> stays
  the nil map, whose encoding is the text \<^verbatim>\<open>{}\<close> followed by a newline.
\<close>

definition createAPIYaml :: "runtime \<Rightarrow> APICPEvent \<Rightarrow> APIDoc \<times> DefinitionDoc \<times> EndpointsDoc option" where
  "createAPIYaml rt apiCPEvent =
     (let api = API apiCPEvent;
          provider = (case ReadConfigs rt of None \<Rightarrow> ''admin'' | Some config \<Rightarrow> Provider config);
          context = removeVersionSuffix (BasePath api) (APIVersion api);
          ev = resolveEndpoints rt (MultiEndpoints api);
          extracted = extractOperations rt apiCPEvent (apimEndpints ev);
          operations = (case extracted of
                          Inl operationsErr \<Rightarrow> []
                        | Inr (ops, scopes, h) \<Rightarrow> map (readOperation h) ops);
          scopes = (case extracted of
                      Inl operationsErr \<Rightarrow> []
                    | Inr (ops, scopes, h) \<Rightarrow> scopes);
          apiType = (if APIType api = ''GraphQL'' then ''GRAPHQL'' else ''HTTP'');
          multi = multiEndpointConfigEnabled ev;
          data =
            \<lparr> api_name = APIName api,
              api_context = context,
              api_version = APIVersion api,
              api_organizationId = Organization api,
              api_provider = provider,
              api_lifeCycleStatus = ''CREATED'',
              api_responseCachingEnabled = False,
              api_cacheTimeout = 300,
              api_hasThumbnail = False,
              api_isDefaultVersion = IsDefaultVersion api,
              api_isRevision = False,
              api_enableSchemaValidation = False,
              api_enableSubscriberVerification = False,
              api_type = apiType,
              api_transport = [''http'', ''https''],
              api_endpointConfig =
                (if multi then primaryEndpointConfig api ev else inlineEndpointConfig api),
              api_policies = [''Unlimited''],
              api_gatewayType = ''wso2/apk'',
              api_gatewayVendor = ''wso2'',
              api_operations = operations,
              api_additionalProperties = createAdditionalProperties rt (APIProperties api),
              api_securityScheme = SecurityScheme api,
              api_authorizationHeader = AuthHeader api,
              api_apiKeyHeader = APIKeyHeader api,
              api_scopes = scopes,
              api_subtypeConfiguration = subTypeConfiguration api,
              api_corsConfiguration = corsConfiguration api,
              api_maxTps = maxTpsDoc api,
              api_primaryProductionEndpointId =
                (if multi then Some (primaryProductionEndpointID ev) else None),
              api_primarySandboxEndpointId =
                (if multi then Some (primarySandboxEndpointID ev) else None),
              api_endpointImplementationType = (if multi then Some ''ENDPOINT'' else None),
              api_apiPolicies =
                \<lparr> Request = apiRequestPolicies rt api (apimEndpints ev), Response = [], Fault = [] \<rparr> \<rparr>;
          definition = rewriteDefinition rt api operations scopes;
          dataArr = map endpointDoc (apimEndpints ev);
          endpointsData =
            (if 1 < prodCount ev \<or> 1 < sandCount ev
             then Some \<lparr> eds_type = ''endpoints'', eds_version = ''v4.6.0'', eds_data = dataArr \<rparr>
             else None)
      in (\<lparr> doc_type = ''api'', doc_version = ''v4.6.0'', doc_data = data \<rparr>,
          definition, endpointsData))"

definition createDeployementYaml :: "runtime \<Rightarrow> string \<Rightarrow> DeploymentDoc" where
  "createDeployementYaml rt vhost =
     (let envLabel = (case ReadConfigs rt of
                        None \<Rightarrow> [''Default'']
                      | Some config \<Rightarrow> EnvironmentLabels config)
      in \<lparr> dep_type = ''deployment_environments'',
           dep_version = ''v4.3.0'',
           dep_data = map (\<lambda>label. \<lparr> displayOnDevportal = True,
                                      deploymentEnvironment = label,
                                      deploymentVhost = vhost \<rparr>) envLabel \<rparr>)"

section \<open>The \<^verbatim>\<open>POST /apis\<close> handler\<close>

text \<open>
  What the handler of \<^verbatim>\<open>StartInternalServer\<close> sends with \<^verbatim>\<open>c.JSON\<close>: a status code
  and a value that is encoded as JSON, either a string or an object of string fields.
\<close>

datatype JSONBody =
    JSONString string
  | JSONObject "(string \<times> string) list"

record Response =
  status :: nat
  body :: JSONBody

text \<open>
  The single element of the undeploy payload. The handler passes its JSON encoding to
  the client; the record stands for that text.
\<close>

record UndeployPayload =
  up_revisionUuid :: string
  up_name :: string
  up_vhost :: string
  up_displayOnDevportal :: bool

text \<open>A file of the archive; its content is the encoding of one of the documents.\<close>

datatype FileContent =
    APIYaml APIDoc
  | EndpointsYaml EndpointsDoc
  | DeploymentYaml DeploymentDoc
  | DefinitionFile DefinitionDoc

record ZipFile =
  Path :: string
  Content :: FileContent

text \<open>
  The import client and the packer of package \<^verbatim>\<open>utils\<close>:
  \<^item> \<open>DeleteAPIRevision\<close> answers \<open>None\<close> or the text of its error;
  \<^item> \<open>CreateZipFile\<close> answers the bytes it has written to the buffer (the handler only
    logs an error of the packer and goes on with the buffer);
  \<^item> \<open>ImportAPI\<close> answers the text of its error or the identifier and the revision
    identifier.
\<close>

record importClient =
  DeleteAPIRevision :: "string \<Rightarrow> string \<Rightarrow> UndeployPayload list \<Rightarrow> string option"
  CreateZipFile :: "ZipFile list \<Rightarrow> string"
  ImportAPI :: "string \<Rightarrow> string \<Rightarrow> string + (string \<times> string)"

text \<open>The calls a run of the handler makes to the import client, in order, with their arguments.\<close>

datatype ClientCall =
    CallDeleteAPIRevision string string "UndeployPayload list"
  | CallImportAPI string string

text \<open>
  A run of the handler responds, or panics (\<^verbatim>\<open>envLabel[0]\<close> on an empty list of
  environment labels is an index out of range).
\<close>

datatype outcome =
    Responded Response
  | Panic

text \<open>
  \<^verbatim>\<open>json.Marshal\<close> of the payload: a slice of one map with three strings and a boolean
  has an encoding, so the error branch of the handler is never taken.
\<close>

definition marshalPayload :: "UndeployPayload list \<Rightarrow> string + UndeployPayload list" where
  "marshalPayload payload = Inr payload"

definition environmentLabels :: "runtime \<Rightarrow> string list" where
  "environmentLabels rt =
     (case ReadConfigs rt of None \<Rightarrow> [''Default''] | Some cpConfig \<Rightarrow> EnvironmentLabels cpConfig)"

text \<open>The branch of a delete event, lines 68 to 92.\<close>

definition handleDeleteEvent :: "runtime \<Rightarrow> importClient \<Rightarrow> APICPEvent \<Rightarrow> outcome \<times> ClientCall list" where
  "handleDeleteEvent rt client event =
     (case environmentLabels rt of
        [] \<Rightarrow> (Panic, [])
      | label # others \<Rightarrow>
          (let payload = [\<lparr> up_revisionUuid = RevisionID (API event),
                            up_name = label,
                            up_vhost = Vhost (API event),
                            up_displayOnDevportal = True \<rparr>]
           in case marshalPayload payload of
                Inl err \<Rightarrow> (Responded \<lparr> status = 500, body = JSONString err \<rparr>, [])
              | Inr jsonPayload \<Rightarrow>
                  (let call = CallDeleteAPIRevision (API.APIUUID (API event)) (RevisionID (API event)) jsonPayload
                   in case DeleteAPIRevision client (API.APIUUID (API event)) (RevisionID (API event)) jsonPayload of
                        Some errorUndeployRevision \<Rightarrow>
                          (Responded \<lparr> status = 503, body = JSONString errorUndeployRevision \<rparr>, [call])
                      | None \<Rightarrow>
                          (Responded \<lparr> status = 200, body = JSONObject [(''message'', ''Success'')] \<rparr>,
                           [call]))))"

text \<open>The branch of any other event, lines 94 to 151.\<close>

definition handleCreateOrUpdateEvent :: "runtime \<Rightarrow> importClient \<Rightarrow> APICPEvent \<Rightarrow> outcome \<times> ClientCall list" where
  "handleCreateOrUpdateEvent rt client event0 =
     (let api0 = API event0;
          api1 = (if EqualFold (APIType api0) ''rest'' \<and> Definition api0 = ''''
                  then api0\<lparr> Definition := OpenAPIDefaultYaml (constants rt) \<rparr> else api0);
          api2 = (if EqualFold (APIType api1) ''rest''
                  then (case JSONToYAML rt (Definition api1) of
                          Some yaml \<Rightarrow> api1\<lparr> Definition := yaml \<rparr>
                        | None \<Rightarrow> api1)
                  else api1);
          event = event0\<lparr> API := api2 \<rparr>;
          base = APIName api2 @ ''-'' @ APIVersion api2
      in case createAPIYaml rt event of
           (apiYaml, definition, endpointsYaml) \<Rightarrow>
             (let deploymentContent = createDeployementYaml rt (Vhost api2);
                  definitionPath = (if ToUpper (APIType api2) = ''GRAPHQL''
                                    then base @ ''/Definitions/schema.graphql''
                                    else base @ ''/Definitions/swagger.yaml'');
                  zipFiles =
                    (case endpointsYaml of
                       Some endpoints \<Rightarrow>
                         [\<lparr> Path = base @ ''/api.yaml'', Content = APIYaml apiYaml \<rparr>,
                          \<lparr> Path = base @ ''/endpoints.yaml'', Content = EndpointsYaml endpoints \<rparr>,
                          \<lparr> Path = base @ ''/deployment_environments.yaml'',
                            Content = DeploymentYaml deploymentContent \<rparr>,
                          \<lparr> Path = definitionPath, Content = DefinitionFile definition \<rparr>]
                     | None \<Rightarrow>
                         [\<lparr> Path = base @ ''/api.yaml'', Content = APIYaml apiYaml \<rparr>,
                          \<lparr> Path = base @ ''/deployment_environments.yaml'',
                            Content = DeploymentYaml deploymentContent \<rparr>,
                          \<lparr> Path = definitionPath, Content = DefinitionFile definition \<rparr>]);
                  buf = CreateZipFile client zipFiles;
                  archive = ''admin-'' @ base @ ''.zip'';
                  call = CallImportAPI archive buf
              in case ImportAPI client archive buf of
                   Inl err \<Rightarrow> (Responded \<lparr> status = 503, body = JSONString err \<rparr>, [call])
                 | Inr (ident, revisionID) \<Rightarrow>
                     (Responded \<lparr> status = 200,
                                  body = JSONObject [(''id'', ident), (''revisionID'', revisionID)] \<rparr>,
                      [call])))"

text \<open>
  The handler: \<open>bound\<close> is the result of \<^verbatim>\<open>c.ShouldBindJSON\<close>, the text of its error
  or the event.
\<close>

definition postAPIs :: "runtime \<Rightarrow> importClient \<Rightarrow> string + APICPEvent \<Rightarrow> outcome \<times> ClientCall list" where
  "postAPIs rt client bound =
     (case bound of
        Inl err \<Rightarrow> (Responded \<lparr> status = 400, body = JSONObject [(''error'', err)] \<rparr>, [])
      | Inr event \<Rightarrow>
          (if Event event = DeleteEvent (constants rt)
           then handleDeleteEvent rt client event
           else handleCreateOrUpdateEvent rt client event))"

section \<open>Concrete inputs\<close>

text \<open>
  Inputs on which the functions are run in the examples below: a value for each
  constant, a runtime whose schema decoder answers with a given list of paths, and a
  REST event with a given multi-endpoint configuration and given declared operations.
\<close>

definition exampleConstants :: constants where
  "exampleConstants =
     \<lparr> ModelWeightedRoundRobin = ''modelWeightedRoundRobin'', V1 = ''v1'', CommonType = ''common'',
       AddHeader = ''addHeader'', RemoveHeader = ''removeHeader'',
       constants.MirrorRequest = ''mirrorRequest'', constants.RedirectRequest = ''redirectRequest'',
       DeleteEvent = ''DELETED'', OpenAPIDefaultYaml = ''openapi: 3.0.1'' \<rparr>"

definition exampleRuntime :: "(nat \<Rightarrow> string) \<Rightarrow> (string \<times> string list) list \<Rightarrow> runtime" where
  "exampleRuntime uuids paths =
     \<lparr> constants = exampleConstants,
       ReadConfigs = Some \<lparr> Provider = ''admin'', EnvironmentLabels = [''Default''] \<rparr>,
       newUUID = uuids,
       unmarshalPaths = (\<lambda>text. Some paths),
       unmarshalMap = (\<lambda>text. None),
       rangeScopewrappers = (\<lambda>scope. 0),
       rangeAPIProperties = (\<lambda>name. 0),
       matchRegex = literalRegex,
       growslice = doubling,
       JSONToYAML = (\<lambda>json. None) \<rparr>"

definition noSecurity :: EndpointSecurityConfig where
  "noSecurity =
     \<lparr> EndpointSecurityConfig.Enabled = False, SecurityType = '''', APIKeyName = '''',
       APIKeyValue = '''', BasicUsername = '''', BasicPassword = '''' \<rparr>"

definition exampleAPI :: "MultiEndpoints \<Rightarrow> OperationFromDP list \<Rightarrow> API" where
  "exampleAPI multiEndpoints operations =
     \<lparr> API.APIUUID = ''X'', RevisionID = ''2'', Vhost = ''foo'',
       APIName = ''pets'', APIVersion = ''1.0'', APIType = ''REST'', APISubType = '''',
       BasePath = ''/pets/1.0'', Organization = ''org'', IsDefaultVersion = False,
       Definition = ''paths: {}'',
       EndpointProtocol = ''https'', ProdEndpoint = ''api.example.com'', SandEndpoint = '''',
       ProdEndpointSecurity = noSecurity, SandEndpointSecurity = noSecurity,
       MultiEndpoints = multiEndpoints,
       AuthHeader = ''Authorization'', APIKeyHeader = ''ApiKey'',
       SecurityScheme = [''oauth2''], APIProperties = [],
       AIConfiguration = \<lparr> LLMProviderID = '''', LLMProviderName = '''', LLMProviderAPIVersion = '''' \<rparr>,
       CORSPolicy = None, ProdAIRL = None, SandAIRL = None,
       AIModelBasedRoundRobin = None,
       Operations = operations \<rparr>"

definition exampleEvent :: "MultiEndpoints \<Rightarrow> OperationFromDP list \<Rightarrow> APICPEvent" where
  "exampleEvent multiEndpoints operations =
     \<lparr> Event = ''CREATED'', API = exampleAPI multiEndpoints operations \<rparr>"

definition exampleEntry :: "string \<Rightarrow> EndpointEntry" where
  "exampleEntry url =
     \<lparr> EndpointEntry.URL = url, SecurityEnabled = False, SecurityType = '''',
       BasicUsername = '''', BasicPassword = '''', APIKeyName = '''', APIKeyValue = '''',
       APIKeyIn = '''' \<rparr>"

definition noHeaders :: APKHeaderModifier where
  "noHeaders = \<lparr> AddHeaders = [], RemoveHeaders = [] \<rparr>"

text \<open>A declared operation with the given path, verb and filters, and nothing else.\<close>

definition declared :: "string \<Rightarrow> string \<Rightarrow> Filter list \<Rightarrow> OperationFromDP" where
  "declared path verb filters =
     \<lparr> OperationFromDP.Path = path, Verb = verb, Scopes = [], Filters = filters,
       AIModelBasedRoundRobin = None \<rparr>"

definition exampleHeader :: "string \<Rightarrow> APKHeader" where
  "exampleHeader name = \<lparr> APKHeader.Name = name, Value = [CHR ''v''] \<rparr>"

text \<open>A rank by which a \<^verbatim>\<open>range\<close> visits the key \<open>first\<close> before every other key.\<close>

definition rankFirst :: "string \<Rightarrow> string \<Rightarrow> nat" where
  "rankFirst first key = (if key = first then 0 else 1)"

text \<open>
  A REST event with two production entries in its multi-endpoint configuration, two
  declared operations, the first of them with two scopes, and two API properties; and
  the two paths of its schema, each with the verb \<^verbatim>\<open>get\<close>.
\<close>

definition repeatedEvent :: APICPEvent where
  "repeatedEvent =
     \<lparr> Event = ''CREATED'',
       API = (exampleAPI
                \<lparr> Protocol = ''https'',
                  ProdEndpoints = [exampleEntry ''a.example.com'', exampleEntry ''b.example.com''],
                  SandEndpoints = [] \<rparr>
                [(declared ''/a'' ''GET'' [])\<lparr> OperationFromDP.Scopes := [''read'', ''write''] \<rparr>,
                 declared ''/b'' ''GET'' []])
             \<lparr> APIProperties := [(''k1'', ''v1''), (''k2'', ''v2'')] \<rparr> \<rparr>"

definition repeatedPaths :: "(string \<times> string list) list" where
  "repeatedPaths = [(''/a'', [''get'']), (''/b'', [''get''])]"

section \<open>Properties of the model of Go maps\<close>

text \<open>
  A \<^verbatim>\<open>range\<close> visits the entries of the map, each once; a rank that does not
  tell the keys apart leaves the list as it is; and every arrangement of the entries
  of a map is the visit of some rank, so the model excludes no order that Go can take.
\<close>

lemma rangeMap_mset: "mset (rangeMap rank m) = mset m"
  by (simp add: rangeMap_def)

lemma rangeMap_constant: "rangeMap (\<lambda>k. c) m = m"
  unfolding rangeMap_def by (induction m) (simp_all add: insort_is_Cons)

lemma filter_key_single:
  "distinct (map f zs) \<Longrightarrow> k \<in> set zs \<Longrightarrow> filter (\<lambda>x. f k = f x) zs = [k]"
proof (induction zs)
  case Nil then show ?case by simp
next
  case (Cons z zs)
  show ?case
  proof (cases "k = z")
    case True
    with Cons.prems have "\<forall>x \<in> set zs. f z \<noteq> f x" by auto
    then have "filter (\<lambda>x. f z = f x) zs = []" by (simp add: filter_empty_conv)
    with True show ?thesis by simp
  next
    case False
    with Cons.prems have in_zs: "k \<in> set zs" by simp
    then have "f k \<in> f ` set zs" by simp
    with Cons.prems have "f k \<noteq> f z" by auto
    with Cons in_zs False show ?thesis by simp
  qed
qed

lemma sort_key_distinct_keys:
  assumes "mset xs = mset ys" and "distinct (map f xs)"
  shows "sort_key f xs = sort_key f ys"
proof (rule properties_for_sort_key)
  show "mset (sort_key f ys) = mset xs" using assms by simp
  show "sorted (map f (sort_key f ys))" by simp
  fix k assume "k \<in> set (sort_key f ys)"
  then have k: "k \<in> set ys" by simp
  then have kx: "k \<in> set xs" using assms(1) by (metis mset_eq_setD)
  have "mset (map f ys) = mset (map f xs)" using assms(1) by simp
  then have dy: "distinct (map f ys)"
    using assms(2) by (metis mset_eq_imp_distinct_iff)
  have "mset (map f (sort_key f ys)) = mset (map f ys)" by simp
  then have ds: "distinct (map f (sort_key f ys))"
    using dy by (metis mset_eq_imp_distinct_iff)
  show "filter (\<lambda>x. f k = f x) (sort_key f ys) = filter (\<lambda>x. f k = f x) xs"
    using filter_key_single [OF ds] filter_key_single [OF assms(2) kx] k by simp
qed

lemma rangeMap_any_order:
  assumes "distinct (map fst m)" and "mset m' = mset m"
  shows "\<exists>rank. rangeMap rank m = m'"
proof -
  define ks where "ks = map fst m'"
  define rank :: "string \<Rightarrow> nat" where "rank k = (THE i. i < length ks \<and> ks ! i = k)" for k
  have "mset (map fst m') = mset (map fst m)" using assms(2) by simp
  then have d': "distinct ks"
    unfolding ks_def using assms(1) by (metis mset_eq_imp_distinct_iff)
  have rank_nth: "rank (ks ! i) = i" if "i < length ks" for i
    unfolding rank_def using that d' by (intro the_equality) (auto simp: nth_eq_iff_index_eq)
  have "map (\<lambda>entry. rank (fst entry)) m' = [0..<length m']"
    by (rule nth_equalityI) (use rank_nth in \<open>simp_all add: ks_def\<close>)
  then have s: "sorted (map (\<lambda>entry. rank (fst entry)) m')"
    and d: "distinct (map (\<lambda>entry. rank (fst entry)) m')"
    by simp_all
  have "sort_key (\<lambda>entry. rank (fst entry)) m' = sort_key (\<lambda>entry. rank (fst entry)) m"
    using assms(2) d by (rule sort_key_distinct_keys)
  moreover have "sort_key (\<lambda>entry. rank (fst entry)) m' = m'"
    using s by (rule sort_key_id_if_sorted)
  ultimately show ?thesis unfolding rangeMap_def by metis
qed

text \<open>
  The map \<^verbatim>\<open>scopesForOpenAPIComponents\<close> is filled with one constant value, so its
  entries as the encoder writes them depend on the set of names only, not on the order
  in which the names were stored.
\<close>

lemma update_keeps_constant:
  "\<forall>e \<in> set m. snd e = c \<Longrightarrow> \<forall>e \<in> set (AList.update k c m). snd e = c"
  by (induction m) auto

lemma scope_map_fold:
  "distinct (map fst m) \<Longrightarrow> \<forall>e \<in> set m. snd e = c \<Longrightarrow>
     distinct (map fst (foldl (\<lambda>m x. AList.update (f x) c m) m xs))
     \<and> set (foldl (\<lambda>m x. AList.update (f x) c m) m xs) = set m \<union> (\<lambda>x. (f x, c)) ` set xs"
proof (induction xs arbitrary: m)
  case Nil then show ?case by simp
next
  case (Cons x xs)
  have d: "distinct (map fst (AList.update (f x) c m))"
    using Cons.prems(1) by (rule distinct_update)
  have v: "\<forall>e \<in> set (AList.update (f x) c m). snd e = c"
    using Cons.prems(2) by (rule update_keeps_constant)
  have s: "set (AList.update (f x) c m) = insert (f x, c) (set m)"
    using Cons.prems(2) by (induction m) auto
  from Cons.IH [OF d v] s show ?case by auto
qed

lemma scope_map_permutation:
  assumes "mset xs = mset ys"
  shows "encodedEntries (foldl (\<lambda>m x. AList.update (f x) c m) [] xs) =
         encodedEntries (foldl (\<lambda>m x. AList.update (f x) c m) [] ys)"
proof -
  let ?b = "\<lambda>zs. foldl (\<lambda>m x. AList.update (f x) c m) [] zs"
  have x: "distinct (map fst (?b xs))" "set (?b xs) = (\<lambda>x. (f x, c)) ` set xs"
    using scope_map_fold [of "[]" c f xs] by simp_all
  have y: "distinct (map fst (?b ys))" "set (?b ys) = (\<lambda>x. (f x, c)) ` set ys"
    using scope_map_fold [of "[]" c f ys] by simp_all
  have "set xs = set ys" using assms by (rule mset_eq_setD)
  with x y have "set (?b xs) = set (?b ys)" by simp
  moreover have "distinct (?b xs)" "distinct (?b ys)"
    using x(1) y(1) by (simp_all add: distinct_map)
  ultimately have "mset (?b xs) = mset (?b ys)"
    by (simp add: set_eq_iff_mset_eq_distinct)
  then show ?thesis unfolding encodedEntries_def using x(1) by (rule sort_key_distinct_keys)
qed

lemma addSecurityScheme_permutation:
  "mset scopes1 = mset scopes2 \<Longrightarrow> addSecurityScheme scopes1 openAPI = addSecurityScheme scopes2 openAPI"
  using scope_map_permutation [of scopes1 scopes2 "\<lambda>scopeWrapper. Scope.Name (Scope scopeWrapper)" "YScalar []"]
  by (simp add: addSecurityScheme_def Let_def)

lemma rewriteDefinition_permutation:
  "mset scopes1 = mset scopes2 \<Longrightarrow>
     rewriteDefinition rt api operations scopes1 = rewriteDefinition rt api operations scopes2"
  by (simp add: rewriteDefinition_def addSecurityScheme_permutation [of scopes1 scopes2] split: option.splits)


section \<open>Properties of the mirror store\<close>





lemma MarshalApplication_TenantDomain:
  "Application.TenantDomain (MarshalApplication cpTenant a) =
     (if types_Application.TenantDomain a = '''' then cpTenant else types_Application.TenantDomain a)"
  by (simp add: MarshalApplication_def Let_def)

lemma MarshalSubscription_TenantDomain:
  "Subscription.TenantDomain (MarshalSubscription cpTenant s) =
     (if types_Subscription.TenantDomain s = '''' then cpTenant else types_Subscription.TenantDomain s)"
  by (simp add: MarshalSubscription_def Let_def)

lemma marshalKeyMapping_TenantDomain:
  "ApplicationKeyMapping.TenantDomain (marshalKeyMapping k) = types_ApplicationKeyMapping.TenantDomain k"
  by (simp add: marshalKeyMapping_def)



text \<open>
  C4. With the control-plane tenant \<^verbatim>\<open>carbon.super\<close>, a snapshot application and a
  snapshot subscription whose tenant domain is empty are stored with tenant domain
  \<^verbatim>\<open>carbon.super\<close>; a snapshot key mapping whose tenant domain is empty is stored
  with its tenant domain still empty, because \<^verbatim>\<open>marshalKeyMapping\<close> copies the field
  and has no backfill.
\<close>

theorem key_mapping_tenant_domain_not_backfilled:
  "map_option Application.TenantDomain
     (ApplicationMap (snd (MarshalMultipleApplications ''carbon.super''
        [\<lparr> types_Application.UUID = ''a1'', ID = 1, Name = ''n'', SubName = ''s'', Policy = ''p'',
           TokenType = ''JWT'', Attributes = Map.empty, TenantID = 0, TenantDomain = '''', TimeStamp = 0 \<rparr>]
        \<lparr> SubscriptionMap = Map.empty, ApplicationMap = Map.empty,
          ApplicationKeyMappingMap = Map.empty, KeyManagerMap = Map.empty \<rparr>)) ''a1'') =
     Some ''carbon.super''
   \<and> map_option Subscription.TenantDomain
     (SubscriptionMap (snd (MarshalMultipleSubscriptions ''carbon.super''
        [\<lparr> types_Subscription.SubscriptionID = 5, SubscriptionUUID = ''s1'', PolicyID = ''Gold'', APIID = 1,
           APIUUID = ''api'', AppID = 1, ApplicationUUID = ''a1'', SubscriptionState = ''UNBLOCKED'',
           TenantID = 0, TenantDomain = '''', TimeStamp = 0 \<rparr>]
        \<lparr> SubscriptionMap = Map.empty, ApplicationMap = Map.empty,
          ApplicationKeyMappingMap = Map.empty, KeyManagerMap = Map.empty \<rparr>)) 5) =
     Some ''carbon.super''
   \<and> map_option ApplicationKeyMapping.TenantDomain
     (ApplicationKeyMappingMap (snd (MarshalMultipleApplicationKeyMappings
        [\<lparr> types_ApplicationKeyMapping.ApplicationID = 1, ApplicationUUID = ''a1'', ConsumerKey = ''ck'',
           KeyType = ''PRODUCTION'', KeyManager = ''km'', TenantID = 0, TenantDomain = '''', TimeStamp = 0 \<rparr>]
        \<lparr> SubscriptionMap = Map.empty, ApplicationMap = Map.empty,
          ApplicationKeyMappingMap = Map.empty, KeyManagerMap = Map.empty \<rparr>)) ''ck:km'') =
     Some ''''"
  by (simp add: MarshalMultipleApplications_def MarshalMultipleSubscriptions_def
      MarshalMultipleApplicationKeyMappings_def MarshalApplication_def MarshalSubscription_def
      marshalKeyMapping_def GetApplicationKeyMappingReference_def Let_def)

section \<open>Properties of operation matching\<close>

lemma HasSuffix_iff: "HasSuffix s suf \<longleftrightarrow> suffix suf s"
proof
  assume "HasSuffix s suf"
  then have "drop (length s - length suf) s = suf" by (simp add: HasSuffix_def)
  then show "suffix suf s" using suffix_drop [of "length s - length suf" s] by simp
next
  assume "suffix suf s"
  then obtain p where "s = p @ suf" by (auto simp: suffix_def)
  then show "HasSuffix s suf" by (simp add: HasSuffix_def)
qed

lemma HasSuffix_append [simp]: "HasSuffix (p @ suf) suf"
  by (simp add: HasSuffix_def)

lemma TrimSuffix_append [simp]: "TrimSuffix (p @ suf) suf = p"
  by (simp add: TrimSuffix_def)

lemma TrimSuffix_not: "\<not> suffix suf s \<Longrightarrow> TrimSuffix s suf = s"
  by (simp add: TrimSuffix_def HasSuffix_iff)

lemma set_tl_dropWhile: "set (tl (dropWhile P cs)) \<subseteq> set cs"
proof -
  have "set (tl xs) \<subseteq> set xs" for xs :: "'a list"
    by (cases xs) auto
  then have "set (tl (dropWhile P cs)) \<subseteq> set (dropWhile P cs)" .
  moreover have "set (dropWhile P cs) \<subseteq> set cs"
    by (auto dest: set_dropWhileD)
  ultimately show ?thesis by blast
qed

lemma set_processOpenAPIPath:
  "set (processOpenAPIPath p) \<subseteq> set p \<union> set ''hardcode''"
proof (induction p rule: processOpenAPIPath.induct)
  case 1
  then show ?case by simp
next
  case (2 c cs)
  let ?ne = "\<lambda>x. x \<noteq> CHR ''}''"
  show ?case
  proof (cases "c = CHR ''{'' \<and> takeWhile ?ne cs \<noteq> [] \<and> dropWhile ?ne cs \<noteq> []")
    case True
    then have eq: "processOpenAPIPath (c # cs) = ''hardcode'' @ processOpenAPIPath (tl (dropWhile ?ne cs))"
      by simp
    have "set (processOpenAPIPath (tl (dropWhile ?ne cs))) \<subseteq> set (tl (dropWhile ?ne cs)) \<union> set ''hardcode''"
      using 2(1) True by blast
    then have "set (processOpenAPIPath (tl (dropWhile ?ne cs))) \<subseteq> set cs \<union> set ''hardcode''"
      using set_tl_dropWhile [of ?ne cs] by blast
    then show ?thesis unfolding eq set_append by auto
  next
    case False
    then have eq: "processOpenAPIPath (c # cs) = c # processOpenAPIPath cs"
      by auto
    have "set (processOpenAPIPath cs) \<subseteq> set cs \<union> set ''hardcode''"
      using 2(2) False by blast
    then show ?thesis unfolding eq by auto
  qed
qed

lemma processOpenAPIPath_no_close:
  assumes "CHR ''}'' \<notin> set p" shows "CHR ''}'' \<notin> set (processOpenAPIPath p)"
proof
  assume "CHR ''}'' \<in> set (processOpenAPIPath p)"
  then have "CHR ''}'' \<in> set p \<union> set ''hardcode''"
    using set_processOpenAPIPath [of p] by blast
  with assms show False by simp
qed

lemma processOpenAPIPath_hardcode:
  "processOpenAPIPath (''hardcode'' @ r) = ''hardcode'' @ processOpenAPIPath r"
  by simp

lemma processOpenAPIPath_no_open:
  "CHR ''{'' \<notin> set pre \<Longrightarrow> processOpenAPIPath (pre @ r) = pre @ processOpenAPIPath r"
  by (induction pre) auto

lemma processOpenAPIPath_idem:
  "processOpenAPIPath (processOpenAPIPath p) = processOpenAPIPath p"
proof (induction p rule: processOpenAPIPath.induct)
  case 1
  then show ?case by simp
next
  case (2 c cs)
  let ?ne = "\<lambda>x. x \<noteq> CHR ''}''"
  show ?case
  proof (cases "c = CHR ''{'' \<and> takeWhile ?ne cs \<noteq> [] \<and> dropWhile ?ne cs \<noteq> []")
    case True
    then have "processOpenAPIPath (c # cs) = ''hardcode'' @ processOpenAPIPath (tl (dropWhile ?ne cs))"
      by simp
    moreover have "processOpenAPIPath (processOpenAPIPath (tl (dropWhile ?ne cs))) =
        processOpenAPIPath (tl (dropWhile ?ne cs))"
      using 2(1) True by blast
    ultimately show ?thesis
      by (simp only: processOpenAPIPath_hardcode)
  next
    case False
    then have eq: "processOpenAPIPath (c # cs) = c # processOpenAPIPath cs"
      by auto
    have ih: "processOpenAPIPath (processOpenAPIPath cs) = processOpenAPIPath cs"
      using 2(2) False by blast
    show ?thesis
    proof (cases "c = CHR ''{''")
      case neq: False
      then show ?thesis using eq ih by simp
    next
      case brace: True
      with False consider "takeWhile ?ne cs = []" | "dropWhile ?ne cs = []" by blast
      then have "takeWhile ?ne (processOpenAPIPath cs) = [] \<or> dropWhile ?ne (processOpenAPIPath cs) = []"
      proof cases
        case 1
        show ?thesis
        proof (cases cs)
          case Nil
          then show ?thesis by simp
        next
          case (Cons d ds)
          with 1 have "d = CHR ''}''" by (auto split: if_splits)
          with Cons show ?thesis by simp
        qed
      next
        case 2
        then have "CHR ''}'' \<notin> set cs"
          by auto
        then have "CHR ''}'' \<notin> set (processOpenAPIPath cs)"
          by (rule processOpenAPIPath_no_close)
        then have "dropWhile ?ne (processOpenAPIPath cs) = []"
          by auto
        then show ?thesis ..
      qed
      then show ?thesis unfolding eq using ih by auto
    qed
  qed
qed

lemma processOpenAPIPath_placeholder:
  assumes "name \<noteq> []" "CHR ''}'' \<notin> set name"
  shows "processOpenAPIPath (CHR ''{'' # name @ CHR ''}'' # post) = ''hardcode'' @ processOpenAPIPath post"
proof -
  let ?ne = "\<lambda>x. x \<noteq> CHR ''}''"
  have t: "takeWhile ?ne (name @ CHR ''}'' # post) = name"
    using assms(2) by (induction name) auto
  have d: "dropWhile ?ne (name @ CHR ''}'' # post) = CHR ''}'' # post"
    using assms(2) by (induction name) auto
  show ?thesis using t d assms(1) by simp
qed

lemma findMatching_find_aux:
  "findMatchingAPKOperation mr (processOpenAPIPath path) verb ops =
     find (\<lambda>op. EqualFold (OperationFromDP.Verb op) verb \<and> mr (OperationFromDP.Path op) (processOpenAPIPath path)) ops"
  by (induction ops) (simp_all add: processOpenAPIPath_idem Let_def)

lemma findMatching_find:
  "findMatchingAPKOperation mr path verb ops =
     find (\<lambda>op. EqualFold (OperationFromDP.Verb op) verb \<and> mr (OperationFromDP.Path op) (processOpenAPIPath path)) ops"
  by (induction ops) (simp_all add: findMatching_find_aux Let_def)

text \<open>
  C7. \<^verbatim>\<open>findMatchingAPKOperation\<close> returns the first declared operation, in
  declaration order, whose verb equals the schema verb up to letter case and whose path,
  as a regular expression, matches the normalised schema path (and none when there is no
  such operation); the repeated normalisation inside the loop changes nothing, since
  normalising is idempotent. Normalising replaces a placeholder \<^verbatim>\<open>{name}\<close> by the
  token \<^verbatim>\<open>hardcode\<close> whatever the non-empty name is (any bytes but a closing brace),
  copies the text before it when that text has no opening brace, and goes on
  normalising the text after it.
\<close>

theorem findMatchingAPKOperation_first_declared_match:
  "findMatchingAPKOperation matcher path verb operations =
     find (\<lambda>operationFromDP. EqualFold (OperationFromDP.Verb operationFromDP) verb
             \<and> matcher (OperationFromDP.Path operationFromDP) (processOpenAPIPath path)) operations
   \<and> processOpenAPIPath (processOpenAPIPath path) = processOpenAPIPath path
   \<and> (\<forall>pre name post. name \<noteq> [] \<and> CHR ''}'' \<notin> set name \<and> CHR ''{'' \<notin> set pre \<longrightarrow>
          processOpenAPIPath (pre @ ''{'' @ name @ ''}'' @ post) =
            pre @ ''hardcode'' @ processOpenAPIPath post)"
proof (intro conjI allI impI)
  show "findMatchingAPKOperation matcher path verb operations =
     find (\<lambda>operationFromDP. EqualFold (OperationFromDP.Verb operationFromDP) verb
             \<and> matcher (OperationFromDP.Path operationFromDP) (processOpenAPIPath path)) operations"
    by (rule findMatching_find)
  show "processOpenAPIPath (processOpenAPIPath path) = processOpenAPIPath path"
    by (rule processOpenAPIPath_idem)
next
  fix pre name post :: string
  assume a: "name \<noteq> [] \<and> CHR ''}'' \<notin> set name \<and> CHR ''{'' \<notin> set pre"
  then have "processOpenAPIPath (pre @ CHR ''{'' # name @ CHR ''}'' # post) =
      pre @ processOpenAPIPath (CHR ''{'' # name @ CHR ''}'' # post)"
    using processOpenAPIPath_no_open [of pre "CHR ''{'' # name @ CHR ''}'' # post"] by blast
  also have "\<dots> = pre @ ''hardcode'' @ processOpenAPIPath post"
    using a processOpenAPIPath_placeholder [of name post] by blast
  finally show "processOpenAPIPath (pre @ ''{'' @ name @ ''}'' @ post) =
            pre @ ''hardcode'' @ processOpenAPIPath post"
    by simp
qed

theorem findMatchingAPKOperation_first_declared_match_witness:
  "findMatchingAPKOperation literalRegex ''/pets/{petId}'' ''get''
     [\<lparr> OperationFromDP.Path = ''/pets/hardcode'', Verb = ''POST'', Scopes = [], Filters = [], AIModelBasedRoundRobin = None \<rparr>,
      \<lparr> OperationFromDP.Path = ''/pets/hardcode'', Verb = ''GET'', Scopes = [''read''], Filters = [], AIModelBasedRoundRobin = None \<rparr>,
      \<lparr> OperationFromDP.Path = ''/pets'', Verb = ''GET'', Scopes = [], Filters = [], AIModelBasedRoundRobin = None \<rparr>] =
     Some \<lparr> OperationFromDP.Path = ''/pets/hardcode'', Verb = ''GET'', Scopes = [''read''], Filters = [], AIModelBasedRoundRobin = None \<rparr>
   \<and> processOpenAPIPath ''/pets/{petId}'' = ''/pets/hardcode''
   \<and> processOpenAPIPath ''/pets/{id}'' = ''/pets/hardcode''"
proof -
  let ?ops = "[\<lparr> OperationFromDP.Path = ''/pets/hardcode'', Verb = ''POST'', Scopes = [], Filters = [], AIModelBasedRoundRobin = None \<rparr>,
      \<lparr> OperationFromDP.Path = ''/pets/hardcode'', Verb = ''GET'', Scopes = [''read''], Filters = [], AIModelBasedRoundRobin = None \<rparr>,
      \<lparr> OperationFromDP.Path = ''/pets'', Verb = ''GET'', Scopes = [], Filters = [], AIModelBasedRoundRobin = None \<rparr>]"
  note t = findMatchingAPKOperation_first_declared_match [of literalRegex "''/pets/{petId}''" "''get''" ?ops]
  have h1: "''petId'' \<noteq> [] \<and> CHR ''}'' \<notin> set ''petId'' \<and> CHR ''{'' \<notin> set ''/pets/''" by simp
  have h2: "''id'' \<noteq> [] \<and> CHR ''}'' \<notin> set ''id'' \<and> CHR ''{'' \<notin> set ''/pets/''" by simp
  from t h1 have "processOpenAPIPath (''/pets/'' @ ''{'' @ ''petId'' @ ''}'' @ '''') =
      ''/pets/'' @ ''hardcode'' @ processOpenAPIPath ''''"
    by blast
  then have n1: "processOpenAPIPath ''/pets/{petId}'' = ''/pets/hardcode''" by simp
  from t h2 have "processOpenAPIPath (''/pets/'' @ ''{'' @ ''id'' @ ''}'' @ '''') =
      ''/pets/'' @ ''hardcode'' @ processOpenAPIPath ''''"
    by blast
  then have n2: "processOpenAPIPath ''/pets/{id}'' = ''/pets/hardcode''" by simp
  from t have "findMatchingAPKOperation literalRegex ''/pets/{petId}'' ''get'' ?ops =
     find (\<lambda>operationFromDP. EqualFold (OperationFromDP.Verb operationFromDP) ''get''
             \<and> literalRegex (OperationFromDP.Path operationFromDP) (processOpenAPIPath ''/pets/{petId}'')) ?ops"
    by blast
  then have "findMatchingAPKOperation literalRegex ''/pets/{petId}'' ''get'' ?ops =
     Some \<lparr> OperationFromDP.Path = ''/pets/hardcode'', Verb = ''GET'', Scopes = [''read''], Filters = [], AIModelBasedRoundRobin = None \<rparr>"
    unfolding n1 by (simp add: EqualFold_def toLowerASCII_def literalRegex_def)
  with n1 n2 show ?thesis by blast
qed

section \<open>Properties of endpoint resolution and synthesis\<close>

lemma prodEndpointStep_fields:
  "prodCount (prodEndpointStep rt me e v) = prodCount v + 1"
  "sandCount (prodEndpointStep rt me e v) = sandCount v"
  "uuidsDrawn (prodEndpointStep rt me e v) = uuidsDrawn v + 1"
  "primarySandboxEndpointID (prodEndpointStep rt me e v) = primarySandboxEndpointID v"
  "primarySandboxURL (prodEndpointStep rt me e v) = primarySandboxURL v"
  "primaryProductionEndpointID (prodEndpointStep rt me e v) =
     (if prodCount v = 0 then newUUID rt (uuidsDrawn v) @ ''--PRODUCTION'' else primaryProductionEndpointID v)"
  "primaryProdcutionURL (prodEndpointStep rt me e v) =
     (if prodCount v = 0 then stageURL me e else primaryProdcutionURL v)"
  "apimEndpints (prodEndpointStep rt me e v) = apimEndpints v @
     [productionAPIMEndpoint me e (newUUID rt (uuidsDrawn v) @ ''--PRODUCTION'')
        (if prodCount v = 0 then ''Default Production Endpoint''
         else showNat (prodCount v + 1) @ '' Production Endpoint'')
        (stageURL me e)]"
  by (simp_all add: prodEndpointStep_def Let_def)

lemma sandEndpointStep_fields:
  "sandCount (sandEndpointStep rt me e v) = sandCount v + 1"
  "prodCount (sandEndpointStep rt me e v) = prodCount v"
  "uuidsDrawn (sandEndpointStep rt me e v) = uuidsDrawn v + 1"
  "primaryProductionEndpointID (sandEndpointStep rt me e v) = primaryProductionEndpointID v"
  "primaryProdcutionURL (sandEndpointStep rt me e v) = primaryProdcutionURL v"
  "primarySandboxEndpointID (sandEndpointStep rt me e v) =
     (if sandCount v = 0 then newUUID rt (uuidsDrawn v) @ ''--SANDBOX'' else primarySandboxEndpointID v)"
  "primarySandboxURL (sandEndpointStep rt me e v) =
     (if sandCount v = 0 then stageURL me e else primarySandboxURL v)"
  "apimEndpints (sandEndpointStep rt me e v) = apimEndpints v @
     [sandboxAPIMEndpoint me e (newUUID rt (uuidsDrawn v) @ ''--SANDBOX'')
        (if sandCount v = 0 then ''Default Sandbox Endpoint''
         else showNat (sandCount v + 1) @ '' Sandbox Endpoint'')
        (stageURL me e)]"
  by (simp_all add: sandEndpointStep_def Let_def)

lemma prodEndpointsLoop_counts:
  "prodCount (prodEndpointsLoop rt me es v) = prodCount v + length es"
  "sandCount (prodEndpointsLoop rt me es v) = sandCount v"
  "uuidsDrawn (prodEndpointsLoop rt me es v) = uuidsDrawn v + length es"
  "primarySandboxEndpointID (prodEndpointsLoop rt me es v) = primarySandboxEndpointID v"
  "primarySandboxURL (prodEndpointsLoop rt me es v) = primarySandboxURL v"
  by (induction es arbitrary: v; simp add: prodEndpointStep_fields)+

lemma sandEndpointsLoop_counts:
  "sandCount (sandEndpointsLoop rt me es v) = sandCount v + length es"
  "prodCount (sandEndpointsLoop rt me es v) = prodCount v"
  "uuidsDrawn (sandEndpointsLoop rt me es v) = uuidsDrawn v + length es"
  "primaryProductionEndpointID (sandEndpointsLoop rt me es v) = primaryProductionEndpointID v"
  "primaryProdcutionURL (sandEndpointsLoop rt me es v) = primaryProdcutionURL v"
  by (induction es arbitrary: v; simp add: sandEndpointStep_fields)+

lemma prodEndpointsLoop_primary_keep:
  "prodCount v \<noteq> 0 \<Longrightarrow>
     primaryProductionEndpointID (prodEndpointsLoop rt me es v) = primaryProductionEndpointID v
   \<and> primaryProdcutionURL (prodEndpointsLoop rt me es v) = primaryProdcutionURL v"
  by (induction es arbitrary: v) (simp_all add: prodEndpointStep_fields)

lemma sandEndpointsLoop_primary_keep:
  "sandCount v \<noteq> 0 \<Longrightarrow>
     primarySandboxEndpointID (sandEndpointsLoop rt me es v) = primarySandboxEndpointID v
   \<and> primarySandboxURL (sandEndpointsLoop rt me es v) = primarySandboxURL v"
  by (induction es arbitrary: v) (simp_all add: sandEndpointStep_fields)

lemma prodEndpointsLoop_primary_first:
  "prodCount v = 0 \<Longrightarrow>
     primaryProductionEndpointID (prodEndpointsLoop rt me (e # es) v) = newUUID rt (uuidsDrawn v) @ ''--PRODUCTION''
   \<and> primaryProdcutionURL (prodEndpointsLoop rt me (e # es) v) = stageURL me e"
  using prodEndpointsLoop_primary_keep [of "prodEndpointStep rt me e v" rt me es]
  by (simp add: prodEndpointStep_fields)

lemma sandEndpointsLoop_primary_first:
  "sandCount v = 0 \<Longrightarrow>
     primarySandboxEndpointID (sandEndpointsLoop rt me (e # es) v) = newUUID rt (uuidsDrawn v) @ ''--SANDBOX''
   \<and> primarySandboxURL (sandEndpointsLoop rt me (e # es) v) = stageURL me e"
  using sandEndpointsLoop_primary_keep [of "sandEndpointStep rt me e v" rt me es]
  by (simp add: sandEndpointStep_fields)

lemma prodEndpointsLoop_endpoints:
  "\<exists>X. apimEndpints (prodEndpointsLoop rt me es v) = apimEndpints v @ X
     \<and> length X = length es
     \<and> (\<forall>d \<in> set X. DeploymentStage d = ''PRODUCTION'')
     \<and> (\<forall>e rest. es = e # rest \<longrightarrow>
           EndpointUUID (hd X) = newUUID rt (uuidsDrawn v) @ ''--PRODUCTION''
         \<and> Endpoints.URL (ProductionEndpoints (EndpointConfig (hd X))) = stageURL me e)"
proof (induction es arbitrary: v)
  case Nil
  then show ?case by simp
next
  case (Cons e es)
  from Cons.IH [of "prodEndpointStep rt me e v"]
  obtain X where X: "apimEndpints (prodEndpointsLoop rt me es (prodEndpointStep rt me e v)) =
      apimEndpints (prodEndpointStep rt me e v) @ X" "length X = length es"
      "\<forall>d \<in> set X. DeploymentStage d = ''PRODUCTION''"
    by blast
  let ?d = "productionAPIMEndpoint me e (newUUID rt (uuidsDrawn v) @ ''--PRODUCTION'')
        (if prodCount v = 0 then ''Default Production Endpoint''
         else showNat (prodCount v + 1) @ '' Production Endpoint'')
        (stageURL me e)"
  have "apimEndpints (prodEndpointsLoop rt me (e # es) v) = apimEndpints v @ (?d # X)"
    using X(1) by (simp add: prodEndpointStep_fields)
  moreover have "length (?d # X) = length (e # es)" using X(2) by simp
  moreover have "\<forall>d \<in> set (?d # X). DeploymentStage d = ''PRODUCTION''"
    using X(3) by (simp add: productionAPIMEndpoint_def)
  moreover have "EndpointUUID (hd (?d # X)) = newUUID rt (uuidsDrawn v) @ ''--PRODUCTION''
         \<and> Endpoints.URL (ProductionEndpoints (EndpointConfig (hd (?d # X)))) = stageURL me e"
    by (simp add: productionAPIMEndpoint_def)
  ultimately show ?case by blast
qed

lemma sandEndpointsLoop_endpoints:
  "\<exists>Y. apimEndpints (sandEndpointsLoop rt me es v) = apimEndpints v @ Y
     \<and> length Y = length es
     \<and> (\<forall>d \<in> set Y. DeploymentStage d = ''SANDBOX'')
     \<and> (\<forall>e rest. es = e # rest \<longrightarrow>
           EndpointUUID (hd Y) = newUUID rt (uuidsDrawn v) @ ''--SANDBOX''
         \<and> Endpoints.URL (SandboxEndpoints (EndpointConfig (hd Y))) = stageURL me e)"
proof (induction es arbitrary: v)
  case Nil
  then show ?case by simp
next
  case (Cons e es)
  from Cons.IH [of "sandEndpointStep rt me e v"]
  obtain Y where Y: "apimEndpints (sandEndpointsLoop rt me es (sandEndpointStep rt me e v)) =
      apimEndpints (sandEndpointStep rt me e v) @ Y" "length Y = length es"
      "\<forall>d \<in> set Y. DeploymentStage d = ''SANDBOX''"
    by blast
  let ?d = "sandboxAPIMEndpoint me e (newUUID rt (uuidsDrawn v) @ ''--SANDBOX'')
        (if sandCount v = 0 then ''Default Sandbox Endpoint''
         else showNat (sandCount v + 1) @ '' Sandbox Endpoint'')
        (stageURL me e)"
  have "apimEndpints (sandEndpointsLoop rt me (e # es) v) = apimEndpints v @ (?d # Y)"
    using Y(1) by (simp add: sandEndpointStep_fields)
  moreover have "length (?d # Y) = length (e # es)" using Y(2) by simp
  moreover have "\<forall>d \<in> set (?d # Y). DeploymentStage d = ''SANDBOX''"
    using Y(3) by (simp add: sandboxAPIMEndpoint_def)
  moreover have "EndpointUUID (hd (?d # Y)) = newUUID rt (uuidsDrawn v) @ ''--SANDBOX''
         \<and> Endpoints.URL (SandboxEndpoints (EndpointConfig (hd (?d # Y)))) = stageURL me e"
    by (simp add: sandboxAPIMEndpoint_def)
  ultimately show ?case by blast
qed

lemma resolveEndpoints_counts:
  "prodCount (resolveEndpoints rt me) = length (ProdEndpoints me)"
  "sandCount (resolveEndpoints rt me) = length (SandEndpoints me)"
  by (simp_all add: resolveEndpoints_def sandEndpointsLoop_counts prodEndpointsLoop_counts
      initialEndpointVars_def)

lemma resolveEndpoints_primary_production:
  "primaryProductionEndpointID (resolveEndpoints rt me) =
     (if ProdEndpoints me = [] then '''' else newUUID rt 0 @ ''--PRODUCTION'')"
  "primaryProdcutionURL (resolveEndpoints rt me) =
     (if ProdEndpoints me = [] then '''' else stageURL me (hd (ProdEndpoints me)))"
proof -
  have z: "prodCount initialEndpointVars = 0" "uuidsDrawn initialEndpointVars = 0"
    "primaryProductionEndpointID initialEndpointVars = ''''"
    "primaryProdcutionURL initialEndpointVars = ''''"
    by (simp_all add: initialEndpointVars_def)
  show "primaryProductionEndpointID (resolveEndpoints rt me) =
     (if ProdEndpoints me = [] then '''' else newUUID rt 0 @ ''--PRODUCTION'')"
    using prodEndpointsLoop_primary_first [OF z(1), of rt me] z
    by (cases "ProdEndpoints me") (simp_all add: resolveEndpoints_def sandEndpointsLoop_counts)
  show "primaryProdcutionURL (resolveEndpoints rt me) =
     (if ProdEndpoints me = [] then '''' else stageURL me (hd (ProdEndpoints me)))"
    using prodEndpointsLoop_primary_first [OF z(1), of rt me] z
    by (cases "ProdEndpoints me") (simp_all add: resolveEndpoints_def sandEndpointsLoop_counts)
qed

lemma resolveEndpoints_primary_sandbox:
  "primarySandboxEndpointID (resolveEndpoints rt me) =
     (if SandEndpoints me = [] then '''' else newUUID rt (length (ProdEndpoints me)) @ ''--SANDBOX'')"
  "primarySandboxURL (resolveEndpoints rt me) =
     (if SandEndpoints me = [] then '''' else stageURL me (hd (SandEndpoints me)))"
proof -
  let ?v = "prodEndpointsLoop rt me (ProdEndpoints me) initialEndpointVars"
  have z: "sandCount ?v = 0" "uuidsDrawn ?v = length (ProdEndpoints me)"
    "primarySandboxEndpointID ?v = ''''" "primarySandboxURL ?v = ''''"
    by (simp_all add: prodEndpointsLoop_counts initialEndpointVars_def)
  show "primarySandboxEndpointID (resolveEndpoints rt me) =
     (if SandEndpoints me = [] then '''' else newUUID rt (length (ProdEndpoints me)) @ ''--SANDBOX'')"
    using sandEndpointsLoop_primary_first [OF z(1), of rt me] z
    by (cases "SandEndpoints me") (simp_all add: resolveEndpoints_def)
  show "primarySandboxURL (resolveEndpoints rt me) =
     (if SandEndpoints me = [] then '''' else stageURL me (hd (SandEndpoints me)))"
    using sandEndpointsLoop_primary_first [OF z(1), of rt me] z
    by (cases "SandEndpoints me") (simp_all add: resolveEndpoints_def)
qed

lemma resolveEndpoints_endpoints:
  "\<exists>X Y. apimEndpints (resolveEndpoints rt me) = X @ Y
     \<and> length X = length (ProdEndpoints me) \<and> length Y = length (SandEndpoints me)
     \<and> (\<forall>d \<in> set X. DeploymentStage d = ''PRODUCTION'')
     \<and> (\<forall>d \<in> set Y. DeploymentStage d = ''SANDBOX'')
     \<and> (\<forall>e rest. ProdEndpoints me = e # rest \<longrightarrow>
           EndpointUUID (hd X) = newUUID rt 0 @ ''--PRODUCTION''
         \<and> Endpoints.URL (ProductionEndpoints (EndpointConfig (hd X))) = stageURL me e)
     \<and> (\<forall>e rest. SandEndpoints me = e # rest \<longrightarrow>
           EndpointUUID (hd Y) = newUUID rt (length (ProdEndpoints me)) @ ''--SANDBOX''
         \<and> Endpoints.URL (SandboxEndpoints (EndpointConfig (hd Y))) = stageURL me e)"
proof -
  let ?v = "prodEndpointsLoop rt me (ProdEndpoints me) initialEndpointVars"
  from prodEndpointsLoop_endpoints [of rt me "ProdEndpoints me" initialEndpointVars]
  obtain X where X: "apimEndpints ?v = X" "length X = length (ProdEndpoints me)"
    "\<forall>d \<in> set X. DeploymentStage d = ''PRODUCTION''"
    "\<forall>e rest. ProdEndpoints me = e # rest \<longrightarrow>
           EndpointUUID (hd X) = newUUID rt 0 @ ''--PRODUCTION''
         \<and> Endpoints.URL (ProductionEndpoints (EndpointConfig (hd X))) = stageURL me e"
    by (auto simp: initialEndpointVars_def)
  from sandEndpointsLoop_endpoints [of rt me "SandEndpoints me" ?v]
  obtain Y where Y: "apimEndpints (sandEndpointsLoop rt me (SandEndpoints me) ?v) = apimEndpints ?v @ Y"
    "length Y = length (SandEndpoints me)"
    "\<forall>d \<in> set Y. DeploymentStage d = ''SANDBOX''"
    "\<forall>e rest. SandEndpoints me = e # rest \<longrightarrow>
           EndpointUUID (hd Y) = newUUID rt (uuidsDrawn ?v) @ ''--SANDBOX''
         \<and> Endpoints.URL (SandboxEndpoints (EndpointConfig (hd Y))) = stageURL me e"
    by blast
  have "apimEndpints (resolveEndpoints rt me) = X @ Y"
    using X(1) Y(1) by (simp add: resolveEndpoints_def)
  moreover have "uuidsDrawn ?v = length (ProdEndpoints me)"
    by (simp add: prodEndpointsLoop_counts initialEndpointVars_def)
  ultimately show ?thesis using X(2-4) Y(2-4) by auto
qed

lemma filter_stages:
  assumes "\<forall>d \<in> set X. DeploymentStage d = ''PRODUCTION''" "\<forall>d \<in> set Y. DeploymentStage d = ''SANDBOX''"
  shows "filter (\<lambda>d. DeploymentStage d = ''PRODUCTION'') (X @ Y) = X"
    and "filter (\<lambda>d. DeploymentStage d = ''SANDBOX'') (X @ Y) = Y"
proof -
  have "filter (\<lambda>d. DeploymentStage d = ''PRODUCTION'') X = X"
    using assms(1) by (simp add: filter_id_conv)
  moreover have "filter (\<lambda>d. DeploymentStage d = ''PRODUCTION'') Y = []"
    using assms(2) by (auto simp: filter_empty_conv)
  ultimately show "filter (\<lambda>d. DeploymentStage d = ''PRODUCTION'') (X @ Y) = X" by simp
  have "filter (\<lambda>d. DeploymentStage d = ''SANDBOX'') Y = Y"
    using assms(2) by (simp add: filter_id_conv)
  moreover have "filter (\<lambda>d. DeploymentStage d = ''SANDBOX'') X = []"
    using assms(1) by (auto simp: filter_empty_conv)
  ultimately show "filter (\<lambda>d. DeploymentStage d = ''SANDBOX'') (X @ Y) = Y" by simp
qed

lemma createAPIYaml_fields:
  "api_context (doc_data (fst (createAPIYaml rt event))) =
     removeVersionSuffix (BasePath (API event)) (APIVersion (API event))"
  "api_primaryProductionEndpointId (doc_data (fst (createAPIYaml rt event))) =
     (if multiEndpointConfigEnabled (resolveEndpoints rt (MultiEndpoints (API event)))
      then Some (primaryProductionEndpointID (resolveEndpoints rt (MultiEndpoints (API event)))) else None)"
  "api_primarySandboxEndpointId (doc_data (fst (createAPIYaml rt event))) =
     (if multiEndpointConfigEnabled (resolveEndpoints rt (MultiEndpoints (API event)))
      then Some (primarySandboxEndpointID (resolveEndpoints rt (MultiEndpoints (API event)))) else None)"
  "api_endpointImplementationType (doc_data (fst (createAPIYaml rt event))) =
     (if multiEndpointConfigEnabled (resolveEndpoints rt (MultiEndpoints (API event))) then Some ''ENDPOINT'' else None)"
  "api_endpointConfig (doc_data (fst (createAPIYaml rt event))) =
     (if multiEndpointConfigEnabled (resolveEndpoints rt (MultiEndpoints (API event)))
      then primaryEndpointConfig (API event) (resolveEndpoints rt (MultiEndpoints (API event)))
      else inlineEndpointConfig (API event))"
  "snd (snd (createAPIYaml rt event)) =
     (if 1 < prodCount (resolveEndpoints rt (MultiEndpoints (API event)))
         \<or> 1 < sandCount (resolveEndpoints rt (MultiEndpoints (API event)))
      then Some \<lparr> eds_type = ''endpoints'', eds_version = ''v4.6.0'',
                  eds_data = map endpointDoc (apimEndpints (resolveEndpoints rt (MultiEndpoints (API event)))) \<rparr>
      else None)"
  by (simp_all add: createAPIYaml_def Let_def multiEndpointConfigEnabled_def)

lemma multiEndpointConfigEnabled_iff:
  "multiEndpointConfigEnabled (resolveEndpoints rt me) \<longleftrightarrow>
     ProdEndpoints me \<noteq> [] \<or> SandEndpoints me \<noteq> []"
  by (simp add: multiEndpointConfigEnabled_def resolveEndpoints_primary_production resolveEndpoints_primary_sandbox)

section \<open>Properties of the synthesized documents\<close>

text \<open>
  C9. The context written to the API definition is \<^verbatim>\<open>removeVersionSuffix\<close> of the
  base path and the version of the event: a base path that is some text followed by a
  slash and the version yields that text; a base path that does not end with the
  version, or that ends with the version but not with a slash and the version, is
  written unchanged.
\<close>

theorem context_is_base_path_without_version_suffix:
  "api_context (doc_data (fst (createAPIYaml rt event))) =
     removeVersionSuffix (BasePath (API event)) (APIVersion (API event))
   \<and> (\<forall>p. BasePath (API event) = p @ ''/'' @ APIVersion (API event) \<longrightarrow>
          api_context (doc_data (fst (createAPIYaml rt event))) = p)
   \<and> (\<not> suffix (APIVersion (API event)) (BasePath (API event)) \<longrightarrow>
          api_context (doc_data (fst (createAPIYaml rt event))) = BasePath (API event))
   \<and> (\<not> suffix (''/'' @ APIVersion (API event)) (BasePath (API event)) \<longrightarrow>
          api_context (doc_data (fst (createAPIYaml rt event))) = BasePath (API event))"
proof -
  let ?b = "BasePath (API event)" and ?v = "APIVersion (API event)"
  have c: "api_context (doc_data (fst (createAPIYaml rt event))) = removeVersionSuffix ?b ?v"
    by (rule createAPIYaml_fields(1))
  have 1: "removeVersionSuffix ?b ?v = p" if "?b = p @ ''/'' @ ?v" for p
  proof -
    have "HasSuffix (p @ ''/'' @ ?v) ?v"
      using HasSuffix_append [of "p @ ''/''" ?v] by simp
    moreover have "TrimSuffix (p @ ''/'' @ ?v) (''/'' @ ?v) = p"
      by (rule TrimSuffix_append)
    ultimately show ?thesis using that by (simp add: removeVersionSuffix_def)
  qed
  have 3: "removeVersionSuffix ?b ?v = ?b" if "\<not> suffix (''/'' @ ?v) ?b"
    using that by (simp add: removeVersionSuffix_def TrimSuffix_not)
  have 2: "removeVersionSuffix ?b ?v = ?b" if "\<not> suffix ?v ?b"
    using that by (simp add: removeVersionSuffix_def HasSuffix_iff)
  show ?thesis unfolding c using 1 2 3 by blast
qed

theorem context_is_base_path_without_version_suffix_witness:
  "api_context (doc_data (fst (createAPIYaml (exampleRuntime (\<lambda>k. ''u'') [])
      (exampleEvent \<lparr> Protocol = ''https'', ProdEndpoints = [], SandEndpoints = [] \<rparr> [])))) = ''/pets''
   \<and> api_context (doc_data (fst (createAPIYaml (exampleRuntime (\<lambda>k. ''u'') [])
      \<lparr> Event = ''CREATED'',
        API = (exampleAPI \<lparr> Protocol = ''https'', ProdEndpoints = [], SandEndpoints = [] \<rparr> [])
                \<lparr> BasePath := ''/pets/v2'' \<rparr> \<rparr>))) = ''/pets/v2''"
proof -
  let ?rt = "exampleRuntime (\<lambda>k. ''u'') []"
  let ?e1 = "exampleEvent \<lparr> Protocol = ''https'', ProdEndpoints = [], SandEndpoints = [] \<rparr> []"
  let ?e2 = "\<lparr> Event = ''CREATED'',
        API = (exampleAPI \<lparr> Protocol = ''https'', ProdEndpoints = [], SandEndpoints = [] \<rparr> [])
                \<lparr> BasePath := ''/pets/v2'' \<rparr> \<rparr>"
  have h1: "BasePath (API ?e1) = ''/pets'' @ ''/'' @ APIVersion (API ?e1)"
    by (simp add: exampleEvent_def exampleAPI_def)
  have h2: "\<not> suffix (APIVersion (API ?e2)) (BasePath (API ?e2))"
    by (simp add: exampleAPI_def suffix_Cons)
  from context_is_base_path_without_version_suffix [of ?rt ?e1] h1
  have 1: "api_context (doc_data (fst (createAPIYaml ?rt ?e1))) = ''/pets''" by blast
  from context_is_base_path_without_version_suffix [of ?rt ?e2] h2
  have "api_context (doc_data (fst (createAPIYaml ?rt ?e2))) = BasePath (API ?e2)" by blast
  then have 2: "api_context (doc_data (fst (createAPIYaml ?rt ?e2))) = ''/pets/v2''"
    by (simp add: exampleAPI_def)
  from 1 2 show ?thesis by blast
qed

text \<open>
  C2. The endpoint descriptors that \<^verbatim>\<open>createAPIYaml\<close> resolves are the production
  descriptors followed by the sandbox descriptors, one per entry of the event and in the
  order of the entries. When the event has a production entry, the
  \<^verbatim>\<open>primaryProductionEndpointId\<close> of the API definition is the identifier of the
  first production descriptor, which is the descriptor of the first production entry
  (it carries that entry's URL); likewise for sandbox. The endpoint document is emitted
  exactly when the event has more than one production entry or more than one sandbox
  entry, and then it lists the identifiers of all descriptors in that order.
\<close>

theorem primary_endpoint_ids_and_endpoint_document:
  "(let me = MultiEndpoints (API event);
        ev = resolveEndpoints rt me;
        production = filter (\<lambda>d. DeploymentStage d = ''PRODUCTION'') (apimEndpints ev);
        sandbox = filter (\<lambda>d. DeploymentStage d = ''SANDBOX'') (apimEndpints ev);
        apiData = doc_data (fst (createAPIYaml rt event));
        endpointsYaml = snd (snd (createAPIYaml rt event))
    in apimEndpints ev = production @ sandbox
     \<and> length production = length (ProdEndpoints me)
     \<and> length sandbox = length (SandEndpoints me)
     \<and> (\<forall>e rest. ProdEndpoints me = e # rest \<longrightarrow>
           api_primaryProductionEndpointId apiData = Some (EndpointUUID (hd production))
         \<and> Endpoints.URL (ProductionEndpoints (EndpointConfig (hd production))) = stageURL me e)
     \<and> (\<forall>e rest. SandEndpoints me = e # rest \<longrightarrow>
           api_primarySandboxEndpointId apiData = Some (EndpointUUID (hd sandbox))
         \<and> Endpoints.URL (SandboxEndpoints (EndpointConfig (hd sandbox))) = stageURL me e)
     \<and> (endpointsYaml \<noteq> None \<longleftrightarrow>
           1 < length (ProdEndpoints me) \<or> 1 < length (SandEndpoints me))
     \<and> (\<forall>doc. endpointsYaml = Some doc \<longrightarrow>
           map ep_id (eds_data doc) = map EndpointUUID (production @ sandbox)))"
proof -
  let ?me = "MultiEndpoints (API event)"
  let ?ev = "resolveEndpoints rt ?me"
  from resolveEndpoints_endpoints [of rt ?me]
  obtain X Y where XY: "apimEndpints ?ev = X @ Y"
     "length X = length (ProdEndpoints ?me)" "length Y = length (SandEndpoints ?me)"
     "\<forall>d \<in> set X. DeploymentStage d = ''PRODUCTION''"
     "\<forall>d \<in> set Y. DeploymentStage d = ''SANDBOX''"
     "\<forall>e rest. ProdEndpoints ?me = e # rest \<longrightarrow>
           EndpointUUID (hd X) = newUUID rt 0 @ ''--PRODUCTION''
         \<and> Endpoints.URL (ProductionEndpoints (EndpointConfig (hd X))) = stageURL ?me e"
     "\<forall>e rest. SandEndpoints ?me = e # rest \<longrightarrow>
           EndpointUUID (hd Y) = newUUID rt (length (ProdEndpoints ?me)) @ ''--SANDBOX''
         \<and> Endpoints.URL (SandboxEndpoints (EndpointConfig (hd Y))) = stageURL ?me e"
    by blast
  have fX: "filter (\<lambda>d. DeploymentStage d = ''PRODUCTION'') (apimEndpints ?ev) = X"
    unfolding XY(1) using XY(4,5) by (rule filter_stages(1))
  have fY: "filter (\<lambda>d. DeploymentStage d = ''SANDBOX'') (apimEndpints ?ev) = Y"
    unfolding XY(1) using XY(4,5) by (rule filter_stages(2))
  have prod: "api_primaryProductionEndpointId (doc_data (fst (createAPIYaml rt event))) = Some (EndpointUUID (hd X))
         \<and> Endpoints.URL (ProductionEndpoints (EndpointConfig (hd X))) = stageURL ?me e"
    if "ProdEndpoints ?me = e # rest" for e rest
    using that XY(6)
    by (simp add: createAPIYaml_fields multiEndpointConfigEnabled_iff resolveEndpoints_primary_production)
  have sand: "api_primarySandboxEndpointId (doc_data (fst (createAPIYaml rt event))) = Some (EndpointUUID (hd Y))
         \<and> Endpoints.URL (SandboxEndpoints (EndpointConfig (hd Y))) = stageURL ?me e"
    if "SandEndpoints ?me = e # rest" for e rest
    using that XY(7)
    by (simp add: createAPIYaml_fields multiEndpointConfigEnabled_iff resolveEndpoints_primary_sandbox)
  have doc: "snd (snd (createAPIYaml rt event)) \<noteq> None \<longleftrightarrow>
           1 < length (ProdEndpoints ?me) \<or> 1 < length (SandEndpoints ?me)"
    by (simp add: createAPIYaml_fields resolveEndpoints_counts)
  have ids: "map ep_id (eds_data doc) = map EndpointUUID (X @ Y)"
    if "snd (snd (createAPIYaml rt event)) = Some doc" for doc
  proof -
    have "eds_data doc = map endpointDoc (apimEndpints ?ev)"
      using that by (auto simp: createAPIYaml_fields split: if_splits)
    then show ?thesis by (simp add: XY(1) endpointDoc_def comp_def)
  qed
  show ?thesis
    unfolding Let_def fX fY using XY(1,2,3) prod sand doc ids by blast
qed

theorem primary_endpoint_ids_and_endpoint_document_witness:
  "api_primaryProductionEndpointId (doc_data (fst (createAPIYaml
       (exampleRuntime (\<lambda>k. [''u0'', ''u1'', ''u2''] ! k) [])
       (exampleEvent \<lparr> Protocol = ''https'',
          ProdEndpoints = [exampleEntry ''a.example.com'', exampleEntry ''b.example.com''],
          SandEndpoints = [exampleEntry ''s.example.com''] \<rparr> [])))) = Some ''u0--PRODUCTION''
   \<and> api_primarySandboxEndpointId (doc_data (fst (createAPIYaml
       (exampleRuntime (\<lambda>k. [''u0'', ''u1'', ''u2''] ! k) [])
       (exampleEvent \<lparr> Protocol = ''https'',
          ProdEndpoints = [exampleEntry ''a.example.com'', exampleEntry ''b.example.com''],
          SandEndpoints = [exampleEntry ''s.example.com''] \<rparr> [])))) = Some ''u2--SANDBOX''
   \<and> map_option (\<lambda>doc. map ep_id (eds_data doc)) (snd (snd (createAPIYaml
       (exampleRuntime (\<lambda>k. [''u0'', ''u1'', ''u2''] ! k) [])
       (exampleEvent \<lparr> Protocol = ''https'',
          ProdEndpoints = [exampleEntry ''a.example.com'', exampleEntry ''b.example.com''],
          SandEndpoints = [exampleEntry ''s.example.com''] \<rparr> [])))) =
      Some [''u0--PRODUCTION'', ''u1--PRODUCTION'', ''u2--SANDBOX'']"
proof -
  let ?rt = "exampleRuntime (\<lambda>k. [''u0'', ''u1'', ''u2''] ! k) []"
  let ?me = "\<lparr> Protocol = ''https'',
          ProdEndpoints = [exampleEntry ''a.example.com'', exampleEntry ''b.example.com''],
          SandEndpoints = [exampleEntry ''s.example.com''] \<rparr>"
  let ?e = "exampleEvent ?me []"
  let ?ev = "resolveEndpoints ?rt ?me"
  have me: "MultiEndpoints (API ?e) = ?me"
    by (simp add: exampleEvent_def exampleAPI_def)
  have eps: "apimEndpints ?ev =
      [productionAPIMEndpoint ?me (exampleEntry ''a.example.com'') ''u0--PRODUCTION''
         ''Default Production Endpoint'' ''https://a.example.com'',
       productionAPIMEndpoint ?me (exampleEntry ''b.example.com'') ''u1--PRODUCTION''
         ''2 Production Endpoint'' ''https://b.example.com'',
       sandboxAPIMEndpoint ?me (exampleEntry ''s.example.com'') ''u2--SANDBOX''
         ''Default Sandbox Endpoint'' ''https://s.example.com'']"
    by (simp add: resolveEndpoints_def exampleRuntime_def prodEndpointStep_def sandEndpointStep_def
        initialEndpointVars_def stageURL_def exampleEntry_def digitChar_def Let_def)
  have hp: "ProdEndpoints ?me = exampleEntry ''a.example.com'' # [exampleEntry ''b.example.com'']"
    by simp
  have hs: "SandEndpoints ?me = exampleEntry ''s.example.com'' # []"
    by simp
  have hn: "1 < length (ProdEndpoints ?me) \<or> 1 < length (SandEndpoints ?me)"
    by simp
  note t = primary_endpoint_ids_and_endpoint_document [of ?e ?rt, unfolded Let_def me]
  from t hp have "api_primaryProductionEndpointId (doc_data (fst (createAPIYaml ?rt ?e))) =
      Some (EndpointUUID (hd (filter (\<lambda>d. DeploymentStage d = ''PRODUCTION'') (apimEndpints ?ev))))"
    by blast
  then have 1: "api_primaryProductionEndpointId (doc_data (fst (createAPIYaml ?rt ?e))) = Some ''u0--PRODUCTION''"
    unfolding eps by (simp add: productionAPIMEndpoint_def sandboxAPIMEndpoint_def)
  from t hs have "api_primarySandboxEndpointId (doc_data (fst (createAPIYaml ?rt ?e))) =
      Some (EndpointUUID (hd (filter (\<lambda>d. DeploymentStage d = ''SANDBOX'') (apimEndpints ?ev))))"
    by blast
  then have 2: "api_primarySandboxEndpointId (doc_data (fst (createAPIYaml ?rt ?e))) = Some ''u2--SANDBOX''"
    unfolding eps by (simp add: productionAPIMEndpoint_def sandboxAPIMEndpoint_def)
  from t hn obtain doc where doc: "snd (snd (createAPIYaml ?rt ?e)) = Some doc"
    by blast
  with t have "map ep_id (eds_data doc) =
      map EndpointUUID (filter (\<lambda>d. DeploymentStage d = ''PRODUCTION'') (apimEndpints ?ev)
        @ filter (\<lambda>d. DeploymentStage d = ''SANDBOX'') (apimEndpints ?ev))"
    by blast
  then have "map ep_id (eds_data doc) = [''u0--PRODUCTION'', ''u1--PRODUCTION'', ''u2--SANDBOX'']"
    unfolding eps by (simp add: productionAPIMEndpoint_def sandboxAPIMEndpoint_def)
  with doc have 3: "map_option (\<lambda>doc. map ep_id (eds_data doc)) (snd (snd (createAPIYaml ?rt ?e))) =
      Some [''u0--PRODUCTION'', ''u1--PRODUCTION'', ''u2--SANDBOX'']"
    by simp
  from 1 2 3 show ?thesis by blast
qed

section \<open>The primary endpoints in the API definition\<close>

text \<open>
  What line 616 tests. The primary-endpoint identifiers and the marker
  \<^verbatim>\<open>ENDPOINT\<close> are written, and the endpoint configuration is built from the URLs
  of the primary endpoints, as soon as the multi-endpoint configuration of the event has
  one production or sandbox entry; when it has none, the three keys are absent and the
  inline endpoint configuration built from the single-endpoint fields is kept. The
  endpoint document, which lists the descriptors, is guarded by another test (line 606):
  it is emitted when a stage has more than one entry.
\<close>

lemma primary_endpoints_guard:
  "(let me = MultiEndpoints (API event);
        ev = resolveEndpoints rt me;
        apiData = doc_data (fst (createAPIYaml rt event))
    in (ProdEndpoints me \<noteq> [] \<or> SandEndpoints me \<noteq> [] \<longrightarrow>
          api_endpointImplementationType apiData = Some ''ENDPOINT''
        \<and> api_primaryProductionEndpointId apiData = Some (primaryProductionEndpointID ev)
        \<and> api_primarySandboxEndpointId apiData = Some (primarySandboxEndpointID ev)
        \<and> api_endpointConfig apiData = primaryEndpointConfig (API event) ev
        \<and> ec_production_endpoints (api_endpointConfig apiData) =
            Some (if ProdEndpoints me = [] then '''' else stageURL me (hd (ProdEndpoints me)))
        \<and> ec_sandbox_endpoints (api_endpointConfig apiData) =
            Some (if SandEndpoints me = [] then '''' else stageURL me (hd (SandEndpoints me))))
     \<and> (ProdEndpoints me = [] \<and> SandEndpoints me = [] \<longrightarrow>
          api_endpointImplementationType apiData = None
        \<and> api_primaryProductionEndpointId apiData = None
        \<and> api_primarySandboxEndpointId apiData = None
        \<and> api_endpointConfig apiData = inlineEndpointConfig (API event)
        \<and> ec_production_endpoints (api_endpointConfig apiData) =
            (if ProdEndpoint (API event) = '''' then None
             else Some (EndpointProtocol (API event) @ ''://'' @ ProdEndpoint (API event)))
        \<and> ec_sandbox_endpoints (api_endpointConfig apiData) =
            (if SandEndpoint (API event) = '''' then None
             else Some (EndpointProtocol (API event) @ ''://'' @ SandEndpoint (API event)))))"
proof -
  let ?me = "MultiEndpoints (API event)"
  let ?ev = "resolveEndpoints rt ?me"
  let ?d = "doc_data (fst (createAPIYaml rt event))"
  have multi: "api_endpointImplementationType ?d = Some ''ENDPOINT''
        \<and> api_primaryProductionEndpointId ?d = Some (primaryProductionEndpointID ?ev)
        \<and> api_primarySandboxEndpointId ?d = Some (primarySandboxEndpointID ?ev)
        \<and> api_endpointConfig ?d = primaryEndpointConfig (API event) ?ev
        \<and> ec_production_endpoints (api_endpointConfig ?d) =
            Some (if ProdEndpoints ?me = [] then '''' else stageURL ?me (hd (ProdEndpoints ?me)))
        \<and> ec_sandbox_endpoints (api_endpointConfig ?d) =
            Some (if SandEndpoints ?me = [] then '''' else stageURL ?me (hd (SandEndpoints ?me)))"
    if "ProdEndpoints ?me \<noteq> [] \<or> SandEndpoints ?me \<noteq> []"
  proof -
    from that have en: "multiEndpointConfigEnabled ?ev"
      by (simp add: multiEndpointConfigEnabled_iff)
    then show ?thesis
      by (simp add: createAPIYaml_fields primaryEndpointConfig_def
          resolveEndpoints_primary_production resolveEndpoints_primary_sandbox)
  qed
  have inline: "api_endpointImplementationType ?d = None
        \<and> api_primaryProductionEndpointId ?d = None
        \<and> api_primarySandboxEndpointId ?d = None
        \<and> api_endpointConfig ?d = inlineEndpointConfig (API event)
        \<and> ec_production_endpoints (api_endpointConfig ?d) =
            (if ProdEndpoint (API event) = '''' then None
             else Some (EndpointProtocol (API event) @ ''://'' @ ProdEndpoint (API event)))
        \<and> ec_sandbox_endpoints (api_endpointConfig ?d) =
            (if SandEndpoint (API event) = '''' then None
             else Some (EndpointProtocol (API event) @ ''://'' @ SandEndpoint (API event)))"
    if "ProdEndpoints ?me = [] \<and> SandEndpoints ?me = []"
  proof -
    from that have en: "\<not> multiEndpointConfigEnabled ?ev"
      by (simp add: multiEndpointConfigEnabled_iff)
    then show ?thesis
      by (simp add: createAPIYaml_fields inlineEndpointConfig_def Let_def)
  qed
  show ?thesis unfolding Let_def using multi inline by blast
qed


text \<open>
  C5. An event with a single production entry in its multi-endpoint configuration and no
  sandbox entry. No stage has more than one endpoint, so C5 wants the inline endpoint
  configuration: the production endpoint of the single-endpoint fields, and no sandbox
  key since the event has no sandbox endpoint. The code writes the marker
  \<^verbatim>\<open>ENDPOINT\<close> and both primary identifiers, the sandbox one empty, and replaces the
  inline configuration by one with the URL of the entry and an empty sandbox URL; yet it
  emits no endpoint document (the test of line 606 is on the counts), so the identifier
  it wrote names a descriptor that no document holds. The test of line 616 is on the
  identifiers, which the first entry of a stage sets, not on the counts.
\<close>

theorem endpoint_marker_without_second_endpoint:
  "api_endpointImplementationType (doc_data (fst (createAPIYaml
          (exampleRuntime (\<lambda>k. ''u0'') [])
          (exampleEvent \<lparr> Protocol = ''https'', ProdEndpoints = [exampleEntry ''a.example.com''],
             SandEndpoints = [] \<rparr> [])))) = Some ''ENDPOINT''
   \<and> api_primaryProductionEndpointId (doc_data (fst (createAPIYaml
          (exampleRuntime (\<lambda>k. ''u0'') [])
          (exampleEvent \<lparr> Protocol = ''https'', ProdEndpoints = [exampleEntry ''a.example.com''],
             SandEndpoints = [] \<rparr> [])))) = Some ''u0--PRODUCTION''
   \<and> api_primarySandboxEndpointId (doc_data (fst (createAPIYaml
          (exampleRuntime (\<lambda>k. ''u0'') [])
          (exampleEvent \<lparr> Protocol = ''https'', ProdEndpoints = [exampleEntry ''a.example.com''],
             SandEndpoints = [] \<rparr> [])))) = Some ''''
   \<and> ec_production_endpoints (api_endpointConfig (doc_data (fst (createAPIYaml
          (exampleRuntime (\<lambda>k. ''u0'') [])
          (exampleEvent \<lparr> Protocol = ''https'', ProdEndpoints = [exampleEntry ''a.example.com''],
             SandEndpoints = [] \<rparr> []))))) = Some ''https://a.example.com''
   \<and> ec_sandbox_endpoints (api_endpointConfig (doc_data (fst (createAPIYaml
          (exampleRuntime (\<lambda>k. ''u0'') [])
          (exampleEvent \<lparr> Protocol = ''https'', ProdEndpoints = [exampleEntry ''a.example.com''],
             SandEndpoints = [] \<rparr> []))))) = Some ''''
   \<and> ec_production_endpoints (inlineEndpointConfig (exampleAPI \<lparr> Protocol = ''https'',
             ProdEndpoints = [exampleEntry ''a.example.com''], SandEndpoints = [] \<rparr> [])) =
       Some ''https://api.example.com''
   \<and> ec_sandbox_endpoints (inlineEndpointConfig (exampleAPI \<lparr> Protocol = ''https'',
             ProdEndpoints = [exampleEntry ''a.example.com''], SandEndpoints = [] \<rparr> [])) = None
   \<and> api_endpointConfig (doc_data (fst (createAPIYaml
          (exampleRuntime (\<lambda>k. ''u0'') [])
          (exampleEvent \<lparr> Protocol = ''https'', ProdEndpoints = [exampleEntry ''a.example.com''],
             SandEndpoints = [] \<rparr> [])))) \<noteq>
       inlineEndpointConfig (exampleAPI \<lparr> Protocol = ''https'',
             ProdEndpoints = [exampleEntry ''a.example.com''], SandEndpoints = [] \<rparr> [])
   \<and> snd (snd (createAPIYaml
          (exampleRuntime (\<lambda>k. ''u0'') [])
          (exampleEvent \<lparr> Protocol = ''https'', ProdEndpoints = [exampleEntry ''a.example.com''],
             SandEndpoints = [] \<rparr> []))) = None"
proof -
  let ?rt = "exampleRuntime (\<lambda>k. ''u0'') []"
  let ?me = "\<lparr> Protocol = ''https'', ProdEndpoints = [exampleEntry ''a.example.com''],
             SandEndpoints = [] \<rparr>"
  let ?e = "exampleEvent ?me []"
  have me: "MultiEndpoints (API ?e) = ?me"
    by (simp add: exampleEvent_def exampleAPI_def)
  have en: "multiEndpointConfigEnabled (resolveEndpoints ?rt (MultiEndpoints (API ?e)))"
    by (simp add: multiEndpointConfigEnabled_iff me)
  have 1: "api_endpointImplementationType (doc_data (fst (createAPIYaml ?rt ?e))) = Some ''ENDPOINT''"
    using en by (simp add: createAPIYaml_fields)
  have 2: "api_primaryProductionEndpointId (doc_data (fst (createAPIYaml ?rt ?e))) = Some ''u0--PRODUCTION''"
    using en by (simp add: createAPIYaml_fields me resolveEndpoints_primary_production exampleRuntime_def)
  have 3: "api_primarySandboxEndpointId (doc_data (fst (createAPIYaml ?rt ?e))) = Some ''''"
    using en by (simp add: createAPIYaml_fields me resolveEndpoints_primary_sandbox)
  have url: "primaryProdcutionURL (resolveEndpoints ?rt ?me) = ''https://a.example.com''"
    by (simp add: resolveEndpoints_primary_production stageURL_def exampleEntry_def)
  have 4: "ec_production_endpoints (api_endpointConfig (doc_data (fst (createAPIYaml ?rt ?e)))) =
      Some ''https://a.example.com''"
    using en url by (simp add: createAPIYaml_fields me primaryEndpointConfig_def)
  have 5: "ec_sandbox_endpoints (api_endpointConfig (doc_data (fst (createAPIYaml ?rt ?e)))) = Some ''''"
    using en by (simp add: createAPIYaml_fields me primaryEndpointConfig_def resolveEndpoints_primary_sandbox)
  have 6: "ec_production_endpoints (inlineEndpointConfig (exampleAPI ?me [])) = Some ''https://api.example.com''"
    by (simp add: inlineEndpointConfig_def exampleAPI_def Let_def)
  have 7: "ec_sandbox_endpoints (inlineEndpointConfig (exampleAPI ?me [])) = None"
    by (simp add: inlineEndpointConfig_def exampleAPI_def Let_def)
  from 5 7 have 8: "api_endpointConfig (doc_data (fst (createAPIYaml ?rt ?e))) \<noteq>
       inlineEndpointConfig (exampleAPI ?me [])"
    by auto
  have 9: "snd (snd (createAPIYaml ?rt ?e)) = None"
    by (simp add: createAPIYaml_fields me resolveEndpoints_counts)
  from 1 2 3 4 5 6 7 8 9 show ?thesis by simp
qed

section \<open>Properties of the handler\<close>

text \<open>
  The environment labels in effect are those of the control-plane configuration when
  the configuration can be read, and the single label \<^verbatim>\<open>Default\<close> otherwise.
  Without a configured label, \<^verbatim>\<open>envLabel[0]\<close> is an index out of range: the delete
  branch panics before it makes any call.
\<close>

lemma delete_event_without_environment_label_panics:
  "ReadConfigs rt = Some cpConfig \<Longrightarrow> EnvironmentLabels cpConfig = [] \<Longrightarrow>
   Event event = DeleteEvent (constants rt) \<Longrightarrow>
     postAPIs rt client (Inr event) = (Panic, [])"
  by (simp add: postAPIs_def handleDeleteEvent_def environmentLabels_def)

text \<open>
  A delete event for the API \<^verbatim>\<open>X\<close>, revision \<^verbatim>\<open>2\<close>, received while the
  configuration holds an empty list of environment labels: the handler panics, it
  neither calls \<^verbatim>\<open>DeleteAPIRevision\<close> nor responds 200 or 503. There is no configured
  label that the payload could carry, so C6 does not hold for every delete event.
\<close>

theorem delete_event_without_configured_label:
  "postAPIs ((exampleRuntime (\<lambda>k. ''u'') [])
               \<lparr> ReadConfigs := Some \<lparr> Provider = ''admin'', EnvironmentLabels = [] \<rparr> \<rparr>)
     \<lparr> DeleteAPIRevision = (\<lambda>apiID revisionID payload. None),
       CreateZipFile = (\<lambda>files. ''''), ImportAPI = (\<lambda>name bytes. Inl ''unused'') \<rparr>
     (Inr \<lparr> Event = ''DELETED'',
           API = exampleAPI \<lparr> Protocol = ''https'', ProdEndpoints = [], SandEndpoints = [] \<rparr> [] \<rparr>) =
     (Panic, [])"
  by (simp add: postAPIs_def handleDeleteEvent_def environmentLabels_def exampleRuntime_def
      exampleConstants_def)

text \<open>
  C6, as the code has it. Let a label be in effect: the first of the environment labels
  of the configuration when the configuration can be read (and has one), the label
  \<^verbatim>\<open>Default\<close> when it cannot. Then a delete event makes the handler call
  \<^verbatim>\<open>DeleteAPIRevision\<close> exactly once, with the API identifier and the revision
  identifier of the event and a payload of one element carrying that revision
  identifier, that label, the vhost of the event and \<^verbatim>\<open>displayOnDevportal\<close> true, and
  makes no other call; the response is 503 with the text of the error when the call
  returns one, and 200 with the message \<^verbatim>\<open>Success\<close> otherwise.
\<close>

theorem delete_event_undeploys_revision:
  assumes "Event event = DeleteEvent (constants rt)"
    and "ReadConfigs rt = Some cpConfig \<and> EnvironmentLabels cpConfig = label # others
       \<or> ReadConfigs rt = None \<and> label = ''Default''"
  shows "postAPIs rt client (Inr event) =
     (Responded
        (case DeleteAPIRevision client (API.APIUUID (API event)) (RevisionID (API event))
                [\<lparr> up_revisionUuid = RevisionID (API event), up_name = label,
                   up_vhost = Vhost (API event), up_displayOnDevportal = True \<rparr>] of
           Some errorText \<Rightarrow> \<lparr> status = 503, body = JSONString errorText \<rparr>
         | None \<Rightarrow> \<lparr> status = 200, body = JSONObject [(''message'', ''Success'')] \<rparr>),
      [CallDeleteAPIRevision (API.APIUUID (API event)) (RevisionID (API event))
         [\<lparr> up_revisionUuid = RevisionID (API event), up_name = label,
            up_vhost = Vhost (API event), up_displayOnDevportal = True \<rparr>]])"
proof -
  from assms(2) have "environmentLabels rt = label # (if ReadConfigs rt = None then [] else others)"
    by (auto simp add: environmentLabels_def)
  with assms(1) show ?thesis
    by (simp add: postAPIs_def handleDeleteEvent_def marshalPayload_def Let_def split: option.splits)
qed

theorem delete_event_undeploys_revision_witness:
  "postAPIs ((exampleRuntime (\<lambda>k. ''u'') [])
               \<lparr> ReadConfigs := Some \<lparr> Provider = ''admin'',
                                      EnvironmentLabels = [''Production'', ''Default''] \<rparr> \<rparr>)
     \<lparr> DeleteAPIRevision = (\<lambda>apiID revisionID payload. Some ''backend down''),
       CreateZipFile = (\<lambda>files. ''''), ImportAPI = (\<lambda>name bytes. Inl ''unused'') \<rparr>
     (Inr \<lparr> Event = ''DELETED'',
           API = exampleAPI \<lparr> Protocol = ''https'', ProdEndpoints = [], SandEndpoints = [] \<rparr> [] \<rparr>) =
     (Responded \<lparr> status = 503, body = JSONString ''backend down'' \<rparr>,
      [CallDeleteAPIRevision ''X'' ''2''
         [\<lparr> up_revisionUuid = ''2'', up_name = ''Production'', up_vhost = ''foo'',
            up_displayOnDevportal = True \<rparr>]])
   \<and> postAPIs ((exampleRuntime (\<lambda>k. ''u'') [])
               \<lparr> ReadConfigs := Some \<lparr> Provider = ''admin'',
                                      EnvironmentLabels = [''Production'', ''Default''] \<rparr> \<rparr>)
     \<lparr> DeleteAPIRevision = (\<lambda>apiID revisionID payload. None),
       CreateZipFile = (\<lambda>files. ''''), ImportAPI = (\<lambda>name bytes. Inl ''unused'') \<rparr>
     (Inr \<lparr> Event = ''DELETED'',
           API = exampleAPI \<lparr> Protocol = ''https'', ProdEndpoints = [], SandEndpoints = [] \<rparr> [] \<rparr>) =
     (Responded \<lparr> status = 200, body = JSONObject [(''message'', ''Success'')] \<rparr>,
      [CallDeleteAPIRevision ''X'' ''2''
         [\<lparr> up_revisionUuid = ''2'', up_name = ''Production'', up_vhost = ''foo'',
            up_displayOnDevportal = True \<rparr>]])
   \<and> postAPIs ((exampleRuntime (\<lambda>k. ''u'') [])\<lparr> ReadConfigs := None \<rparr>)
     \<lparr> DeleteAPIRevision = (\<lambda>apiID revisionID payload. None),
       CreateZipFile = (\<lambda>files. ''''), ImportAPI = (\<lambda>name bytes. Inl ''unused'') \<rparr>
     (Inr \<lparr> Event = ''DELETED'',
           API = exampleAPI \<lparr> Protocol = ''https'', ProdEndpoints = [], SandEndpoints = [] \<rparr> [] \<rparr>) =
     (Responded \<lparr> status = 200, body = JSONObject [(''message'', ''Success'')] \<rparr>,
      [CallDeleteAPIRevision ''X'' ''2''
         [\<lparr> up_revisionUuid = ''2'', up_name = ''Default'', up_vhost = ''foo'',
            up_displayOnDevportal = True \<rparr>]])"
proof -
  let ?cfg = "\<lparr> Provider = ''admin'', EnvironmentLabels = [''Production'', ''Default''] \<rparr>"
  let ?rt = "(exampleRuntime (\<lambda>k. ''u'') [])\<lparr> ReadConfigs := Some ?cfg \<rparr>"
  let ?unread = "(exampleRuntime (\<lambda>k. ''u'') [])\<lparr> ReadConfigs := None \<rparr>"
  let ?e = "\<lparr> Event = ''DELETED'',
           API = exampleAPI \<lparr> Protocol = ''https'', ProdEndpoints = [], SandEndpoints = [] \<rparr> [] \<rparr>"
  let ?bad = "\<lparr> DeleteAPIRevision = (\<lambda>apiID revisionID payload. Some ''backend down''),
       CreateZipFile = (\<lambda>files. ''''), ImportAPI = (\<lambda>name bytes. Inl ''unused'') \<rparr>"
  let ?good = "\<lparr> DeleteAPIRevision = (\<lambda>apiID revisionID payload. None),
       CreateZipFile = (\<lambda>files. ''''), ImportAPI = (\<lambda>name bytes. Inl ''unused'') \<rparr>"
  have labels: "ReadConfigs ?rt = Some ?cfg \<and> EnvironmentLabels ?cfg = ''Production'' # [''Default'']
       \<or> ReadConfigs ?rt = None \<and> ''Production'' = ''Default''"
    by simp
  have fallback: "ReadConfigs ?unread = Some ?cfg \<and> EnvironmentLabels ?cfg = ''Default'' # []
       \<or> ReadConfigs ?unread = None \<and> ''Default'' = ''Default''"
    by simp
  have del: "Event ?e = DeleteEvent (constants ?rt)"
    by (simp add: exampleRuntime_def exampleConstants_def)
  have del0: "Event ?e = DeleteEvent (constants ?unread)"
    by (simp add: exampleRuntime_def exampleConstants_def)
  have 1: "postAPIs ?rt ?bad (Inr ?e) =
     (Responded \<lparr> status = 503, body = JSONString ''backend down'' \<rparr>,
      [CallDeleteAPIRevision ''X'' ''2''
         [\<lparr> up_revisionUuid = ''2'', up_name = ''Production'', up_vhost = ''foo'',
            up_displayOnDevportal = True \<rparr>]])"
    using delete_event_undeploys_revision [OF del labels, of ?bad]
    by (simp add: exampleAPI_def)
  have 2: "postAPIs ?rt ?good (Inr ?e) =
     (Responded \<lparr> status = 200, body = JSONObject [(''message'', ''Success'')] \<rparr>,
      [CallDeleteAPIRevision ''X'' ''2''
         [\<lparr> up_revisionUuid = ''2'', up_name = ''Production'', up_vhost = ''foo'',
            up_displayOnDevportal = True \<rparr>]])"
    using delete_event_undeploys_revision [OF del labels, of ?good]
    by (simp add: exampleAPI_def)
  have 3: "postAPIs ?unread ?good (Inr ?e) =
     (Responded \<lparr> status = 200, body = JSONObject [(''message'', ''Success'')] \<rparr>,
      [CallDeleteAPIRevision ''X'' ''2''
         [\<lparr> up_revisionUuid = ''2'', up_name = ''Default'', up_vhost = ''foo'',
            up_displayOnDevportal = True \<rparr>]])"
    using delete_event_undeploys_revision [OF del0 fallback, of ?good]
    by (simp add: exampleAPI_def)
  from 1 2 3 show ?thesis by blast
qed
section \<open>Operation policies\<close>

text \<open>
  What \<^verbatim>\<open>append\<close> does to the elements that slices show: the result shows the
  elements of its argument followed by the new one, and the argument still shows what it
  showed.
\<close>

lemma wfSlice_nil: "wfSlice h nilSlice"
  by (simp add: wfSlice_def nilSlice_def)

lemma append_slice_elems:
  assumes "wfSlice h s" and "append_slice g h s x = (h', s')"
  shows "elems h' s' = elems h s @ [x]" and "elems h' s = elems h s"
    and "wfSlice h' s'" and "wfSlice h' s"
proof -
  show "elems h' s' = elems h s @ [x]"
  proof (cases "len s < cap s")
    case True
    with assms have "length (arrays h (arr s)) = cap s" by (auto simp: wfSlice_def)
    with True assms(2) show ?thesis
      by (auto simp: append_slice_def elems_def take_Suc_conv_app_nth)
  next
    case False
    with assms have "len s = cap s" by (simp add: wfSlice_def)
    with False assms have "length (elems h s) = len s"
      by (auto simp: wfSlice_def elems_def)
    with False assms(2) show ?thesis
      by (auto simp: append_slice_def Let_def elems_def)
  qed
  show "elems h' s = elems h s"
  proof (cases "len s < cap s")
    case True
    with assms(2) show ?thesis by (auto simp: append_slice_def elems_def)
  next
    case False
    with assms show ?thesis
      by (auto simp: append_slice_def Let_def elems_def wfSlice_def)
  qed
  show "wfSlice h' s'"
    using assms by (auto simp: append_slice_def Let_def wfSlice_def elems_def split: if_splits)
  show "wfSlice h' s"
    using assms by (auto simp: append_slice_def Let_def wfSlice_def elems_def split: if_splits)
qed


lemma appendResponseToRequest_elems:
  assumes "wfSlice (heap v) (responseOperationPolicies v)"
  shows "elems (heap (appendResponseToRequest rt p v)) (requestOperationPolicies (appendResponseToRequest rt p v)) =
           elems (heap v) (responseOperationPolicies v) @ [p]"
    and "responseOperationPolicies (appendResponseToRequest rt p v) = responseOperationPolicies v"
    and "elems (heap (appendResponseToRequest rt p v)) (responseOperationPolicies v) =
           elems (heap v) (responseOperationPolicies v)"
    and "wfSlice (heap (appendResponseToRequest rt p v)) (responseOperationPolicies v)"
proof -
  obtain h' s' where a: "append_slice (growslice rt) (heap v) (responseOperationPolicies v) p = (h', s')"
    by (cases "append_slice (growslice rt) (heap v) (responseOperationPolicies v) p")
  then have v': "heap (appendResponseToRequest rt p v) = h'"
    "requestOperationPolicies (appendResponseToRequest rt p v) = s'"
    "responseOperationPolicies (appendResponseToRequest rt p v) = responseOperationPolicies v"
    by (simp_all add: appendResponseToRequest_def)
  note r = append_slice_elems [OF assms a]
  show "elems (heap (appendResponseToRequest rt p v)) (requestOperationPolicies (appendResponseToRequest rt p v)) =
           elems (heap v) (responseOperationPolicies v) @ [p]"
    unfolding v' by (rule r(1))
  show "responseOperationPolicies (appendResponseToRequest rt p v) = responseOperationPolicies v"
    by (rule v'(3))
  show "elems (heap (appendResponseToRequest rt p v)) (responseOperationPolicies v) =
           elems (heap v) (responseOperationPolicies v)"
    unfolding v' by (rule r(2))
  show "wfSlice (heap (appendResponseToRequest rt p v)) (responseOperationPolicies v)"
    unfolding v' by (rule r(4))
qed

text \<open>
  The loop over the request headers to remove, run on a non-empty list of names: the
  request slice ends as the response slice followed by the removal of the last name,
  whatever the request slice held before and however many names there are; the response
  slice shows what it showed.
\<close>

lemma requestRemoveHeadersLoop_elems:
  assumes "wfSlice (heap v) (responseOperationPolicies v)" and "names \<noteq> []"
  shows "elems (heap (requestRemoveHeadersLoop rt names v))
           (requestOperationPolicies (requestRemoveHeadersLoop rt names v)) =
         elems (heap v) (responseOperationPolicies v) @ [removeHeaderPolicy rt (last names)]
       \<and> elems (heap (requestRemoveHeadersLoop rt names v))
           (responseOperationPolicies (requestRemoveHeadersLoop rt names v)) =
         elems (heap v) (responseOperationPolicies v)"
  using assms
proof (induction names arbitrary: v)
  case Nil
  then show ?case by simp
next
  case (Cons n names)
  let ?p = "removeHeaderPolicy rt n"
  let ?v = "appendResponseToRequest rt ?p v"
  note r = appendResponseToRequest_elems [OF Cons.prems(1), of rt ?p]
  have step: "requestRemoveHeadersLoop rt (n # names) v = requestRemoveHeadersLoop rt names ?v"
    by simp
  show ?case
  proof (cases "names = []")
    case True
    then show ?thesis unfolding step using r by simp
  next
    case False
    have wf: "wfSlice (heap ?v) (responseOperationPolicies ?v)"
      using r(2,4) by simp
    from Cons.IH [OF wf False] r(2,3) False
    show ?thesis unfolding step by simp
  qed
qed

subsection \<open>Concrete events\<close>

text \<open>The definitions that a run of \<^verbatim>\<open>extractOperations\<close> on a concrete event unfolds.\<close>

lemmas ex_defs = extractOperations_def exampleRuntime_def exampleEvent_def exampleAPI_def
    exampleConstants_def declared_def noHeaders_def ToUpper_def toUpperASCII_def
    EqualFold_def toLowerASCII_def literalRegex_def operationStep_def initialExtractVars_def
    appendResponseToRequest_def appendRequestToRequest_def appendResponseToResponse_def
    append_slice_def nilSlice_def emptyHeap_def doubling_def elems_def
    readOperation_def addHeaderPolicy_def removeHeaderPolicy_def Let_def

text \<open>
  C3. A REST event whose schema has the operation \<^verbatim>\<open>get /pets\<close>, matched by a declared
  operation with one header filter that removes the request headers \<^verbatim>\<open>a\<close> and
  \<^verbatim>\<open>b\<close>: the request policy list of the extracted operation holds one policy, the
  removal of \<^verbatim>\<open>b\<close>, not the two removals. Each round of the loop of line 941 assigns
  to the request slice the response slice extended by one policy, so the round for
  \<^verbatim>\<open>b\<close> discards what the round for \<^verbatim>\<open>a\<close> assigned.
\<close>

theorem request_header_removal_keeps_one_policy:
  "(case extractOperations (exampleRuntime (\<lambda>k. ''u'') [(''/pets'', [''get''])])
          (exampleEvent \<lparr> Protocol = ''https'', ProdEndpoints = [], SandEndpoints = [] \<rparr>
             [declared ''/pets'' ''GET''
                [FilterAPKHeaders \<lparr> RequestHeaders = \<lparr> AddHeaders = [], RemoveHeaders = [''a'', ''b''] \<rparr>,
                                    ResponseHeaders = noHeaders \<rparr>]]) [] of
      Inl err \<Rightarrow> None
    | Inr (operations, scopes, h) \<Rightarrow>
        Some (map (\<lambda>operation. (Target operation,
                     Request (OperationPolicies (readOperation h operation)))) operations)) =
   Some [(''/pets'',
          [\<lparr> PolicyName = ''removeHeader'', PolicyVersion = ''v1'', PolicyID = '''', PolicyType = '''',
             Parameters = HeaderParameters \<lparr> Header.Name = ''b'', Value = '''' \<rparr> \<rparr>])]"
  by (simp add: ex_defs)

text \<open>
  C10. A REST event whose schema has the operations \<^verbatim>\<open>get /a\<close> and \<^verbatim>\<open>get /b\<close>,
  visited in that order; the declared operation for \<^verbatim>\<open>/a\<close> adds a request header,
  the one for \<^verbatim>\<open>/b\<close> removes a request header. The request policy list of the later
  operation holds the removal only: the policy accumulated for the earlier operation is
  not in it, because the assignment of line 949 restarts the request slice from the
  response slice.
\<close>

theorem later_operation_loses_earlier_request_policies:
  "(case extractOperations (exampleRuntime (\<lambda>k. ''u'') [(''/a'', [''get'']), (''/b'', [''get''])])
          (exampleEvent \<lparr> Protocol = ''https'', ProdEndpoints = [], SandEndpoints = [] \<rparr>
             [declared ''/a'' ''GET''
                [FilterAPKHeaders
                   \<lparr> RequestHeaders = \<lparr> AddHeaders = [\<lparr> APKHeader.Name = ''x'', Value = ''1'' \<rparr>],
                                        RemoveHeaders = [] \<rparr>,
                     ResponseHeaders = noHeaders \<rparr>],
              declared ''/b'' ''GET''
                [FilterAPKHeaders \<lparr> RequestHeaders = \<lparr> AddHeaders = [], RemoveHeaders = [''y''] \<rparr>,
                                    ResponseHeaders = noHeaders \<rparr>]]) [] of
      Inl err \<Rightarrow> None
    | Inr (operations, scopes, h) \<Rightarrow>
        Some (map (\<lambda>operation. (Target operation,
                     Request (OperationPolicies (readOperation h operation)))) operations)) =
   Some [(''/a'',
          [\<lparr> PolicyName = ''addHeader'', PolicyVersion = ''v1'', PolicyID = '''', PolicyType = '''',
             Parameters = HeaderParameters \<lparr> Header.Name = ''x'', Value = ''1'' \<rparr> \<rparr>]),
         (''/b'',
          [\<lparr> PolicyName = ''removeHeader'', PolicyVersion = ''v1'', PolicyID = '''', PolicyType = '''',
             Parameters = HeaderParameters \<lparr> Header.Name = ''y'', Value = '''' \<rparr> \<rparr>])]"
  by (simp add: ex_defs)

text \<open>
  The slice that line 949 assigns to the request variable can share its array with the
  response slice. An operation with three header filters: five response headers added;
  then the request header \<^verbatim>\<open>x\<close> removed and the response headers \<^verbatim>\<open>r6\<close> and
  \<^verbatim>\<open>r7\<close> added; then the request header \<^verbatim>\<open>a\<close> added. With capacities doubling,
  the response slice has length 5 in an array of 8 when \<^verbatim>\<open>x\<close> is processed, so the
  request slice takes over that array; the later appends to either slice write into it.
  Both lists end as \<^verbatim>\<open>r1\<close> to \<^verbatim>\<open>r6\<close> followed by \<^verbatim>\<open>a\<close>: the removal of
  \<^verbatim>\<open>x\<close> is in neither, and the response list holds the request policy for
  \<^verbatim>\<open>a\<close> where \<^verbatim>\<open>r7\<close> was.
\<close>

lemma response_list_overwritten_through_shared_array:
  "(case extractOperations (exampleRuntime (\<lambda>k. ''u'') [(''/pets'', [''get''])])
          (exampleEvent \<lparr> Protocol = ''https'', ProdEndpoints = [], SandEndpoints = [] \<rparr> [declared ''/pets'' ''GET''
                [FilterAPKHeaders
                   \<lparr> RequestHeaders = noHeaders,
                     ResponseHeaders = \<lparr> AddHeaders = [exampleHeader ''r1'', exampleHeader ''r2'', exampleHeader ''r3'',
                                                       exampleHeader ''r4'', exampleHeader ''r5''],
                                         RemoveHeaders = [] \<rparr> \<rparr>,
                 FilterAPKHeaders
                   \<lparr> RequestHeaders = \<lparr> AddHeaders = [], RemoveHeaders = [''x''] \<rparr>,
                     ResponseHeaders = \<lparr> AddHeaders = [exampleHeader ''r6'', exampleHeader ''r7''],
                                         RemoveHeaders = [] \<rparr> \<rparr>,
                 FilterAPKHeaders
                   \<lparr> RequestHeaders = \<lparr> AddHeaders = [exampleHeader ''a''], RemoveHeaders = [] \<rparr>,
                     ResponseHeaders = noHeaders \<rparr>]]) [] of
      Inl err \<Rightarrow> None
    | Inr (operations, scopes, h) \<Rightarrow>
        Some (map (\<lambda>operation.
                (map (\<lambda>p. (PolicyName p, Parameters p)) (Request (OperationPolicies (readOperation h operation))),
                 map (\<lambda>p. (PolicyName p, Parameters p)) (Response (OperationPolicies (readOperation h operation)))))
              operations)) =
   Some [(map (\<lambda>n. (''addHeader'', HeaderParameters \<lparr> Header.Name = n, Value = ''v'' \<rparr>))
            [''r1'', ''r2'', ''r3'', ''r4'', ''r5'', ''r6'', ''a''],
          map (\<lambda>n. (''addHeader'', HeaderParameters \<lparr> Header.Name = n, Value = ''v'' \<rparr>))
            [''r1'', ''r2'', ''r3'', ''r4'', ''r5'', ''r6'', ''a''])]"
  by code_simp

section \<open>Repeating the synthesis\<close>

text \<open>
  Of the runtime, the loops of operation extraction read the constants, the
  regular-expression engine and the growth of slices, but neither the UUID generator
  nor the order in which the map of scope wrappers is visited.
\<close>

lemma append_newUUID [simp]:
  "appendRequestToRequest (rt\<lparr> newUUID := g \<rparr>) p v = appendRequestToRequest rt p v"
  "appendResponseToRequest (rt\<lparr> newUUID := g \<rparr>) p v = appendResponseToRequest rt p v"
  "appendResponseToResponse (rt\<lparr> newUUID := g \<rparr>) p v = appendResponseToResponse rt p v"
  by (simp_all add: appendRequestToRequest_def appendResponseToRequest_def appendResponseToResponse_def)

lemma headerPolicy_newUUID [simp]:
  "addHeaderPolicy (rt\<lparr> newUUID := g \<rparr>) header = addHeaderPolicy rt header"
  "removeHeaderPolicy (rt\<lparr> newUUID := g \<rparr>) name = removeHeaderPolicy rt name"
  by (simp_all add: addHeaderPolicy_def removeHeaderPolicy_def)

lemma requestAddHeadersLoop_newUUID [simp]:
  "requestAddHeadersLoop (rt\<lparr> newUUID := g \<rparr>) hs v = requestAddHeadersLoop rt hs v"
  by (induction hs arbitrary: v) simp_all

lemma requestRemoveHeadersLoop_newUUID [simp]:
  "requestRemoveHeadersLoop (rt\<lparr> newUUID := g \<rparr>) hs v = requestRemoveHeadersLoop rt hs v"
  by (induction hs arbitrary: v) simp_all

lemma responseAddHeadersLoop_newUUID [simp]:
  "responseAddHeadersLoop (rt\<lparr> newUUID := g \<rparr>) hs v = responseAddHeadersLoop rt hs v"
  by (induction hs arbitrary: v) simp_all

lemma responseRemoveHeadersLoop_newUUID [simp]:
  "responseRemoveHeadersLoop (rt\<lparr> newUUID := g \<rparr>) hs v = responseRemoveHeadersLoop rt hs v"
  by (induction hs arbitrary: v) simp_all

lemma mirrorURLsLoop_newUUID [simp]:
  "mirrorURLsLoop (rt\<lparr> newUUID := g \<rparr>) us v = mirrorURLsLoop rt us v"
  by (induction us arbitrary: v) simp_all

lemma filterStep_newUUID [simp]:
  "filterStep (rt\<lparr> newUUID := g \<rparr>) f v = filterStep rt f v"
  by (cases f) (simp_all add: Let_def)

lemma filtersLoop_newUUID [simp]:
  "filtersLoop (rt\<lparr> newUUID := g \<rparr>) fs v = filtersLoop rt fs v"
  by (induction fs arbitrary: v) simp_all

lemma operationStep_newUUID [simp]:
  "operationStep (rt\<lparr> newUUID := g \<rparr>) event eps path verb v = operationStep rt event eps path verb v"
  by (simp add: operationStep_def Let_def split: option.splits)

lemma verbsLoop_newUUID [simp]:
  "verbsLoop (rt\<lparr> newUUID := g \<rparr>) event eps path verbs v = verbsLoop rt event eps path verbs v"
  by (induction verbs arbitrary: v) simp_all

lemma pathsLoop_newUUID [simp]:
  "pathsLoop (rt\<lparr> newUUID := g \<rparr>) event eps paths v = pathsLoop rt event eps paths v"
  by (induction paths arbitrary: v) auto

lemma append_rangeScopewrappers [simp]:
  "appendRequestToRequest (rt\<lparr> rangeScopewrappers := r \<rparr>) p v = appendRequestToRequest rt p v"
  "appendResponseToRequest (rt\<lparr> rangeScopewrappers := r \<rparr>) p v = appendResponseToRequest rt p v"
  "appendResponseToResponse (rt\<lparr> rangeScopewrappers := r \<rparr>) p v = appendResponseToResponse rt p v"
  by (simp_all add: appendRequestToRequest_def appendResponseToRequest_def appendResponseToResponse_def)

lemma headerPolicy_rangeScopewrappers [simp]:
  "addHeaderPolicy (rt\<lparr> rangeScopewrappers := r \<rparr>) header = addHeaderPolicy rt header"
  "removeHeaderPolicy (rt\<lparr> rangeScopewrappers := r \<rparr>) name = removeHeaderPolicy rt name"
  by (simp_all add: addHeaderPolicy_def removeHeaderPolicy_def)

lemma requestAddHeadersLoop_rangeScopewrappers [simp]:
  "requestAddHeadersLoop (rt\<lparr> rangeScopewrappers := r \<rparr>) hs v = requestAddHeadersLoop rt hs v"
  by (induction hs arbitrary: v) simp_all

lemma requestRemoveHeadersLoop_rangeScopewrappers [simp]:
  "requestRemoveHeadersLoop (rt\<lparr> rangeScopewrappers := r \<rparr>) hs v = requestRemoveHeadersLoop rt hs v"
  by (induction hs arbitrary: v) simp_all

lemma responseAddHeadersLoop_rangeScopewrappers [simp]:
  "responseAddHeadersLoop (rt\<lparr> rangeScopewrappers := r \<rparr>) hs v = responseAddHeadersLoop rt hs v"
  by (induction hs arbitrary: v) simp_all

lemma responseRemoveHeadersLoop_rangeScopewrappers [simp]:
  "responseRemoveHeadersLoop (rt\<lparr> rangeScopewrappers := r \<rparr>) hs v = responseRemoveHeadersLoop rt hs v"
  by (induction hs arbitrary: v) simp_all

lemma mirrorURLsLoop_rangeScopewrappers [simp]:
  "mirrorURLsLoop (rt\<lparr> rangeScopewrappers := r \<rparr>) us v = mirrorURLsLoop rt us v"
  by (induction us arbitrary: v) simp_all

lemma filterStep_rangeScopewrappers [simp]:
  "filterStep (rt\<lparr> rangeScopewrappers := r \<rparr>) f v = filterStep rt f v"
  by (cases f) (simp_all add: Let_def)

lemma filtersLoop_rangeScopewrappers [simp]:
  "filtersLoop (rt\<lparr> rangeScopewrappers := r \<rparr>) fs v = filtersLoop rt fs v"
  by (induction fs arbitrary: v) simp_all

lemma operationStep_rangeScopewrappers [simp]:
  "operationStep (rt\<lparr> rangeScopewrappers := r \<rparr>) event eps path verb v = operationStep rt event eps path verb v"
  by (simp add: operationStep_def Let_def split: option.splits)

lemma verbsLoop_rangeScopewrappers [simp]:
  "verbsLoop (rt\<lparr> rangeScopewrappers := r \<rparr>) event eps path verbs v = verbsLoop rt event eps path verbs v"
  by (induction verbs arbitrary: v) simp_all

lemma pathsLoop_rangeScopewrappers [simp]:
  "pathsLoop (rt\<lparr> rangeScopewrappers := r \<rparr>) event eps paths v = pathsLoop rt event eps paths v"
  by (induction paths arbitrary: v) auto

lemma extractOperations_newUUID [simp]:
  "extractOperations (rt\<lparr> newUUID := g \<rparr>) event eps = extractOperations rt event eps"
  by (simp add: extractOperations_def Let_def split: option.splits)

lemma rewriteDefinition_newUUID [simp]:
  "rewriteDefinition (rt\<lparr> newUUID := g \<rparr>) api ops scopes = rewriteDefinition rt api ops scopes"
  by (simp add: rewriteDefinition_def split: option.splits)

lemma apiRequestPolicies_newUUID [simp]:
  "apiRequestPolicies (rt\<lparr> newUUID := g \<rparr>) api eps = apiRequestPolicies rt api eps"
  by (simp add: apiRequestPolicies_def split: option.splits)

lemma createDeployementYaml_newUUID [simp]:
  "createDeployementYaml (rt\<lparr> newUUID := g \<rparr>) vhost = createDeployementYaml rt vhost"
  by (simp add: createDeployementYaml_def Let_def split: option.splits)

lemma createAdditionalProperties_newUUID [simp]:
  "createAdditionalProperties (rt\<lparr> newUUID := g \<rparr>) data = createAdditionalProperties rt data"
  by (simp add: createAdditionalProperties_def)

text \<open>
  The order in which the scope wrappers are visited is read by nothing but the final
  loop of \<^verbatim>\<open>extractOperations\<close>.
\<close>

lemma rewriteDefinition_rangeScopewrappers [simp]:
  "rewriteDefinition (rt\<lparr> rangeScopewrappers := r \<rparr>) api ops scopes = rewriteDefinition rt api ops scopes"
  by (simp add: rewriteDefinition_def split: option.splits)

lemma apiRequestPolicies_rangeScopewrappers [simp]:
  "apiRequestPolicies (rt\<lparr> rangeScopewrappers := r \<rparr>) api eps = apiRequestPolicies rt api eps"
  by (simp add: apiRequestPolicies_def split: option.splits)

lemma createDeployementYaml_rangeScopewrappers [simp]:
  "createDeployementYaml (rt\<lparr> rangeScopewrappers := r \<rparr>) vhost = createDeployementYaml rt vhost"
  by (simp add: createDeployementYaml_def Let_def split: option.splits)

lemma createAdditionalProperties_rangeScopewrappers [simp]:
  "createAdditionalProperties (rt\<lparr> rangeScopewrappers := r \<rparr>) data = createAdditionalProperties rt data"
  by (simp add: createAdditionalProperties_def)

lemma prodEndpointsLoop_rangeScopewrappers [simp]:
  "prodEndpointsLoop (rt\<lparr> rangeScopewrappers := r \<rparr>) me es v = prodEndpointsLoop rt me es v"
  by (induction es arbitrary: v) (simp_all add: prodEndpointStep_def Let_def)

lemma sandEndpointsLoop_rangeScopewrappers [simp]:
  "sandEndpointsLoop (rt\<lparr> rangeScopewrappers := r \<rparr>) me es v = sandEndpointsLoop rt me es v"
  by (induction es arbitrary: v) (simp_all add: sandEndpointStep_def Let_def)

lemma resolveEndpoints_rangeScopewrappers [simp]:
  "resolveEndpoints (rt\<lparr> rangeScopewrappers := r \<rparr>) me = resolveEndpoints rt me"
  by (simp add: resolveEndpoints_def)

text \<open>
  Two runs of \<^verbatim>\<open>extractOperations\<close> that differ in that order only: both fail, or
  both return the same operations in the same store and the same scope wrappers, the
  latter in an order of their own.
\<close>

lemma extractOperations_scope_order:
  "(extractOperations (rt\<lparr> rangeScopewrappers := r \<rparr>) event eps = Inl UnmarshalError
      \<and> extractOperations rt event eps = Inl UnmarshalError)
   \<or> (\<exists>ops scopes' scopes h.
         extractOperations (rt\<lparr> rangeScopewrappers := r \<rparr>) event eps = Inr (ops, scopes', h)
       \<and> extractOperations rt event eps = Inr (ops, scopes, h)
       \<and> mset scopes' = mset scopes)"
proof (cases "ToUpper (APIType (API event)) = ''GRAPHQL''")
  case True
  then show ?thesis by (simp add: extractOperations_def)
next
  case notGraphQL: False
  show ?thesis
  proof (cases "ToUpper (APIType (API event)) = ''REST''")
    case False
    with notGraphQL show ?thesis by (simp add: extractOperations_def)
  next
    case True
    show ?thesis
    proof (cases "unmarshalPaths rt (Definition (API event))")
      case None
      with notGraphQL True show ?thesis by (simp add: extractOperations_def)
    next
      case (Some paths)
      have "mset (map snd (rangeMap r (scopewrappers (pathsLoop rt event eps paths initialExtractVars)))) =
            mset (map snd (rangeMap (rangeScopewrappers rt)
                    (scopewrappers (pathsLoop rt event eps paths initialExtractVars))))"
        by (simp add: rangeMap_mset)
      with notGraphQL True Some show ?thesis
        by (simp add: extractOperations_def Let_def)
    qed
  qed
qed

text \<open>
  So two runs of \<^verbatim>\<open>createAPIYaml\<close> that differ in that order only return the same
  definition and the same endpoint document, and API definitions that are equal but
  for the order of the list of scopes.
\<close>

lemma createAPIYaml_scope_order:
  "snd (createAPIYaml (rt\<lparr> rangeScopewrappers := r \<rparr>) event) = snd (createAPIYaml rt event)
   \<and> fst (createAPIYaml (rt\<lparr> rangeScopewrappers := r \<rparr>) event) =
       (fst (createAPIYaml rt event))
         \<lparr> doc_data := (doc_data (fst (createAPIYaml rt event)))
              \<lparr> api_scopes := api_scopes (doc_data (fst (createAPIYaml (rt\<lparr> rangeScopewrappers := r \<rparr>) event))) \<rparr> \<rparr>
   \<and> mset (api_scopes (doc_data (fst (createAPIYaml (rt\<lparr> rangeScopewrappers := r \<rparr>) event)))) =
       mset (api_scopes (doc_data (fst (createAPIYaml rt event))))"
proof -
  let ?eps = "apimEndpints (resolveEndpoints rt (MultiEndpoints (API event)))"
  from extractOperations_scope_order [of r rt event ?eps]
  show ?thesis
  proof (elim disjE conjE exE)
    assume "extractOperations (rt\<lparr> rangeScopewrappers := r \<rparr>) event ?eps = Inl UnmarshalError"
      and "extractOperations rt event ?eps = Inl UnmarshalError"
    then show ?thesis by (simp add: createAPIYaml_def Let_def)
  next
    fix ops scopes' scopes h
    assume x: "extractOperations (rt\<lparr> rangeScopewrappers := r \<rparr>) event ?eps = Inr (ops, scopes', h)"
      "extractOperations rt event ?eps = Inr (ops, scopes, h)"
      and m: "mset scopes' = mset scopes"
    have "rewriteDefinition rt (API event) (map (readOperation h) ops) scopes' =
          rewriteDefinition rt (API event) (map (readOperation h) ops) scopes"
      using m by (rule rewriteDefinition_permutation)
    with x m show ?thesis by (simp add: createAPIYaml_def Let_def)
  qed
qed

text \<open>The identifiers are read by the resolution of the endpoints only, one per entry.\<close>

lemma prodEndpointsLoop_same_draws:
  "(\<forall>k. uuidsDrawn v \<le> k \<and> k < uuidsDrawn v + length es \<longrightarrow> g1 k = g2 k) \<Longrightarrow>
     prodEndpointsLoop (rt\<lparr> newUUID := g1 \<rparr>) me es v = prodEndpointsLoop (rt\<lparr> newUUID := g2 \<rparr>) me es v"
proof (induction es arbitrary: v)
  case Nil
  then show ?case by simp
next
  case (Cons e es)
  have step: "prodEndpointStep (rt\<lparr> newUUID := g1 \<rparr>) me e v = prodEndpointStep (rt\<lparr> newUUID := g2 \<rparr>) me e v"
    using Cons.prems by (simp add: prodEndpointStep_def Let_def)
  have "\<forall>k. uuidsDrawn (prodEndpointStep (rt\<lparr> newUUID := g2 \<rparr>) me e v) \<le> k
          \<and> k < uuidsDrawn (prodEndpointStep (rt\<lparr> newUUID := g2 \<rparr>) me e v) + length es \<longrightarrow> g1 k = g2 k"
    using Cons.prems by (simp add: prodEndpointStep_fields)
  from Cons.IH [OF this] show ?case by (simp add: step)
qed

lemma sandEndpointsLoop_same_draws:
  "(\<forall>k. uuidsDrawn v \<le> k \<and> k < uuidsDrawn v + length es \<longrightarrow> g1 k = g2 k) \<Longrightarrow>
     sandEndpointsLoop (rt\<lparr> newUUID := g1 \<rparr>) me es v = sandEndpointsLoop (rt\<lparr> newUUID := g2 \<rparr>) me es v"
proof (induction es arbitrary: v)
  case Nil
  then show ?case by simp
next
  case (Cons e es)
  have step: "sandEndpointStep (rt\<lparr> newUUID := g1 \<rparr>) me e v = sandEndpointStep (rt\<lparr> newUUID := g2 \<rparr>) me e v"
    using Cons.prems by (simp add: sandEndpointStep_def Let_def)
  have "\<forall>k. uuidsDrawn (sandEndpointStep (rt\<lparr> newUUID := g2 \<rparr>) me e v) \<le> k
          \<and> k < uuidsDrawn (sandEndpointStep (rt\<lparr> newUUID := g2 \<rparr>) me e v) + length es \<longrightarrow> g1 k = g2 k"
    using Cons.prems by (simp add: sandEndpointStep_fields)
  from Cons.IH [OF this] show ?case by (simp add: step)
qed

lemma resolveEndpoints_same_draws:
  assumes "\<forall>k < length (ProdEndpoints me) + length (SandEndpoints me). g1 k = g2 k"
  shows "resolveEndpoints (rt\<lparr> newUUID := g1 \<rparr>) me = resolveEndpoints (rt\<lparr> newUUID := g2 \<rparr>) me"
proof -
  have p: "prodEndpointsLoop (rt\<lparr> newUUID := g1 \<rparr>) me (ProdEndpoints me) initialEndpointVars =
      prodEndpointsLoop (rt\<lparr> newUUID := g2 \<rparr>) me (ProdEndpoints me) initialEndpointVars"
    using assms by (intro prodEndpointsLoop_same_draws) (simp add: initialEndpointVars_def)
  have "sandEndpointsLoop (rt\<lparr> newUUID := g1 \<rparr>) me (SandEndpoints me)
          (prodEndpointsLoop (rt\<lparr> newUUID := g2 \<rparr>) me (ProdEndpoints me) initialEndpointVars) =
        sandEndpointsLoop (rt\<lparr> newUUID := g2 \<rparr>) me (SandEndpoints me)
          (prodEndpointsLoop (rt\<lparr> newUUID := g2 \<rparr>) me (ProdEndpoints me) initialEndpointVars)"
    using assms
    by (intro sandEndpointsLoop_same_draws) (simp add: prodEndpointsLoop_counts initialEndpointVars_def)
  with p show ?thesis by (simp add: resolveEndpoints_def)
qed

lemma createAPIYaml_same_draws:
  assumes "\<forall>k < length (ProdEndpoints (MultiEndpoints (API event)))
                 + length (SandEndpoints (MultiEndpoints (API event))). g1 k = g2 k"
  shows "createAPIYaml (rt\<lparr> newUUID := g1 \<rparr>) event = createAPIYaml (rt\<lparr> newUUID := g2 \<rparr>) event"
proof -
  have ev: "resolveEndpoints (rt\<lparr> newUUID := g1 \<rparr>) (MultiEndpoints (API event)) =
      resolveEndpoints (rt\<lparr> newUUID := g2 \<rparr>) (MultiEndpoints (API event))"
    using assms by (rule resolveEndpoints_same_draws)
  show ?thesis by (simp add: createAPIYaml_def Let_def ev)
qed

lemma createAPIYaml_lists:
  "api_operations (doc_data (fst (createAPIYaml rt event))) =
     (case extractOperations rt event (apimEndpints (resolveEndpoints rt (MultiEndpoints (API event)))) of
        Inl operationsErr \<Rightarrow> []
      | Inr (ops, scopes, h) \<Rightarrow> map (readOperation h) ops)"
  "api_scopes (doc_data (fst (createAPIYaml rt event))) =
     (case extractOperations rt event (apimEndpints (resolveEndpoints rt (MultiEndpoints (API event)))) of
        Inl operationsErr \<Rightarrow> []
      | Inr (ops, scopes, h) \<Rightarrow> scopes)"
  "api_additionalProperties (doc_data (fst (createAPIYaml rt event))) =
     createAdditionalProperties rt (APIProperties (API event))"
  by (simp_all add: createAPIYaml_def Let_def)

lemma equal_but_for_scopes:
  "a = b\<lparr> doc_data := (doc_data b)\<lparr> api_scopes := s \<rparr> \<rparr> \<Longrightarrow>
   c = b\<lparr> doc_data := (doc_data b)\<lparr> api_scopes := t \<rparr> \<rparr> \<Longrightarrow>
   a = c\<lparr> doc_data := (doc_data c)\<lparr> api_scopes := s \<rparr> \<rparr>"
  by simp

lemmas repeated_defs = repeatedEvent_def repeatedPaths_def rankFirst_def rangeMap_def
    createAdditionalProperties_def extractOperations_def exampleRuntime_def exampleEvent_def
    exampleAPI_def exampleConstants_def declared_def ToUpper_def toUpperASCII_def
    EqualFold_def toLowerASCII_def literalRegex_def operationStep_def initialExtractVars_def
    readOperation_def Let_def

text \<open>
  Three pairs of runs of \<^verbatim>\<open>createAPIYaml\<close> on one event, with the same
  configuration; the event has two production entries, two operations and two API
  properties. The runs of a pair give API definitions that differ elsewhere than in the
  order of the scopes:
  \<^item> when \<^verbatim>\<open>uuid.New()\<close> returns other identifiers, in the primary production endpoint
    identifier;
  \<^item> when the \<^verbatim>\<open>range\<close> over the paths of the schema visits them in another order,
    in the order of the list of operations;
  \<^item> when the \<^verbatim>\<open>range\<close> over the API properties visits them in another order, in
    the order of the list of additional properties.
  So the synthesis does not repeat as C1 states it.
\<close>

theorem synthesis_differs_between_runs:
  "api_primaryProductionEndpointId (doc_data (fst (createAPIYaml
       (exampleRuntime (\<lambda>k. if k = 0 then ''u0'' else ''u1'') repeatedPaths) repeatedEvent))) =
     Some ''u0--PRODUCTION''
   \<and> api_primaryProductionEndpointId (doc_data (fst (createAPIYaml
       (exampleRuntime (\<lambda>k. if k = 0 then ''w0'' else ''w1'') repeatedPaths) repeatedEvent))) =
     Some ''w0--PRODUCTION''
   \<and> map Target (api_operations (doc_data (fst (createAPIYaml
       (exampleRuntime (\<lambda>k. ''u'') [(''/a'', [''get'']), (''/b'', [''get''])]) repeatedEvent)))) =
     [''/a'', ''/b'']
   \<and> map Target (api_operations (doc_data (fst (createAPIYaml
       (exampleRuntime (\<lambda>k. ''u'') [(''/b'', [''get'']), (''/a'', [''get''])]) repeatedEvent)))) =
     [''/b'', ''/a'']
   \<and> map AdditionalProperty.Name (api_additionalProperties (doc_data (fst (createAPIYaml
       ((exampleRuntime (\<lambda>k. ''u'') repeatedPaths)\<lparr> rangeAPIProperties := rankFirst ''k1'' \<rparr>)
       repeatedEvent)))) =
     [''k1'', ''k2'']
   \<and> map AdditionalProperty.Name (api_additionalProperties (doc_data (fst (createAPIYaml
       ((exampleRuntime (\<lambda>k. ''u'') repeatedPaths)\<lparr> rangeAPIProperties := rankFirst ''k2'' \<rparr>)
       repeatedEvent)))) =
     [''k2'', ''k1'']"
proof -
  have me: "MultiEndpoints (API repeatedEvent) =
      \<lparr> Protocol = ''https'',
        ProdEndpoints = [exampleEntry ''a.example.com'', exampleEntry ''b.example.com''],
        SandEndpoints = [] \<rparr>"
    by (simp add: repeatedEvent_def exampleAPI_def)
  have id: "api_primaryProductionEndpointId (doc_data (fst (createAPIYaml
       (exampleRuntime g paths) repeatedEvent))) = Some (g 0 @ ''--PRODUCTION'')" for g paths
    by (simp add: createAPIYaml_fields me multiEndpointConfigEnabled_iff
        resolveEndpoints_primary_production exampleRuntime_def)
  have ops: "map Target (api_operations (doc_data (fst (createAPIYaml
       (exampleRuntime (\<lambda>k. ''u'') [(p, [''get'']), (q, [''get''])]) repeatedEvent)))) = [p, q]"
    if "p = ''/a'' \<and> q = ''/b'' \<or> p = ''/b'' \<and> q = ''/a''" for p q
    using that by (auto simp add: createAPIYaml_lists repeated_defs)
  have props: "map AdditionalProperty.Name (api_additionalProperties (doc_data (fst (createAPIYaml
       ((exampleRuntime (\<lambda>k. ''u'') repeatedPaths)\<lparr> rangeAPIProperties := rankFirst key \<rparr>)
       repeatedEvent)))) = (if key = ''k1'' then [''k1'', ''k2''] else [''k2'', ''k1''])"
    if "key = ''k1'' \<or> key = ''k2''" for key
    using that by (auto simp add: createAPIYaml_lists repeated_defs)
  show ?thesis
    using id [of "\<lambda>k. if k = 0 then ''u0'' else ''u1''" repeatedPaths]
      id [of "\<lambda>k. if k = 0 then ''w0'' else ''w1''" repeatedPaths]
      ops [of "''/a''" "''/b''"] ops [of "''/b''" "''/a''"]
      props [of "''k1''"] props [of "''k2''"]
    by simp
qed

text \<open>
  C1, as the code has it. The documents are a function of the event, the configuration,
  the identifiers that \<^verbatim>\<open>uuid.New()\<close> returns for the endpoint descriptors (one per
  multi-endpoint entry), and the orders in which the maps of the schema, of the API
  properties and of the scope wrappers are visited; the mirror store is not read. Take
  two runs on the same event with the same configuration, in which the paths and verbs
  of the schema and the API properties are visited in the same order and the same
  identifiers are drawn for the entries of the event, while the scope wrappers are
  visited in any two orders. They produce the same definition, the same endpoint document
  and the same deployment document, and API definitions that are equal but for the list
  of scopes, which holds the same scopes in both, possibly in another order. If the scope
  wrappers are visited in the same order as well, all documents are the same. An event
  without multi-endpoint entries draws no identifier.
\<close>

theorem synthesis_repeats_with_same_identifiers:
  assumes "\<forall>k < length (ProdEndpoints (MultiEndpoints (API event)))
                 + length (SandEndpoints (MultiEndpoints (API event))). g1 k = g2 k"
  shows "(let run1 = rt\<lparr> newUUID := g1, rangeScopewrappers := r1 \<rparr>;
              run2 = rt\<lparr> newUUID := g2, rangeScopewrappers := r2 \<rparr>;
              apiYaml1 = fst (createAPIYaml run1 event);
              apiYaml2 = fst (createAPIYaml run2 event)
          in snd (createAPIYaml run1 event) = snd (createAPIYaml run2 event)
           \<and> apiYaml1 = apiYaml2\<lparr> doc_data := (doc_data apiYaml2)
                                     \<lparr> api_scopes := api_scopes (doc_data apiYaml1) \<rparr> \<rparr>
           \<and> mset (api_scopes (doc_data apiYaml1)) = mset (api_scopes (doc_data apiYaml2))
           \<and> createDeployementYaml run1 vhost = createDeployementYaml run2 vhost)
       \<and> createAPIYaml (rt\<lparr> newUUID := g1, rangeScopewrappers := r1 \<rparr>) event =
         createAPIYaml (rt\<lparr> newUUID := g2, rangeScopewrappers := r1 \<rparr>) event"
proof -
  let ?run1 = "rt\<lparr> newUUID := g1, rangeScopewrappers := r1 \<rparr>"
  let ?run2 = "rt\<lparr> newUUID := g2, rangeScopewrappers := r2 \<rparr>"
  let ?base1 = "rt\<lparr> newUUID := g1 \<rparr>"
  let ?base2 = "rt\<lparr> newUUID := g2 \<rparr>"
  have base: "createAPIYaml ?base1 event = createAPIYaml ?base2 event"
    using assms by (rule createAPIYaml_same_draws)
  note o1 = createAPIYaml_scope_order [of r1 ?base1 event]
  note o2 = createAPIYaml_scope_order [of r2 ?base2 event]
  have rest: "snd (createAPIYaml ?run1 event) = snd (createAPIYaml ?run2 event)"
    using o1 o2 base by simp
  have a1: "fst (createAPIYaml ?run1 event) =
      (fst (createAPIYaml ?base2 event))
        \<lparr> doc_data := (doc_data (fst (createAPIYaml ?base2 event)))
             \<lparr> api_scopes := api_scopes (doc_data (fst (createAPIYaml ?run1 event))) \<rparr> \<rparr>"
    using o1 unfolding base by blast
  have a2: "fst (createAPIYaml ?run2 event) =
      (fst (createAPIYaml ?base2 event))
        \<lparr> doc_data := (doc_data (fst (createAPIYaml ?base2 event)))
             \<lparr> api_scopes := api_scopes (doc_data (fst (createAPIYaml ?run2 event))) \<rparr> \<rparr>"
    using o2 by blast
  have api: "fst (createAPIYaml ?run1 event) =
      (fst (createAPIYaml ?run2 event))
        \<lparr> doc_data := (doc_data (fst (createAPIYaml ?run2 event)))
             \<lparr> api_scopes := api_scopes (doc_data (fst (createAPIYaml ?run1 event))) \<rparr> \<rparr>"
    using a1 a2 by (rule equal_but_for_scopes)
  have scopes: "mset (api_scopes (doc_data (fst (createAPIYaml ?run1 event)))) =
      mset (api_scopes (doc_data (fst (createAPIYaml ?run2 event))))"
    using o1 o2 base by simp
  have dep: "createDeployementYaml ?run1 vhost = createDeployementYaml ?run2 vhost"
    by simp
  have "\<forall>k < length (ProdEndpoints (MultiEndpoints (API event)))
                 + length (SandEndpoints (MultiEndpoints (API event))). g1 k = g2 k"
    by fact
  then have same: "createAPIYaml (rt\<lparr> rangeScopewrappers := r1, newUUID := g1 \<rparr>) event =
      createAPIYaml (rt\<lparr> rangeScopewrappers := r1, newUUID := g2 \<rparr>) event"
    by (rule createAPIYaml_same_draws)
  have swap: "rt\<lparr> newUUID := g, rangeScopewrappers := r1 \<rparr> = rt\<lparr> rangeScopewrappers := r1, newUUID := g \<rparr>" for g
    by simp
  from rest api scopes dep same show ?thesis
    unfolding Let_def swap by blast
qed

theorem synthesis_repeats_with_same_identifiers_witness:
  "(let run1 = (exampleRuntime (\<lambda>k. ''u'') repeatedPaths)
                 \<lparr> newUUID := (\<lambda>k. if k < 2 then ''u'' else ''x''),
                   rangeScopewrappers := rankFirst ''read'' \<rparr>;
        run2 = (exampleRuntime (\<lambda>k. ''u'') repeatedPaths)
                 \<lparr> newUUID := (\<lambda>k. if k < 2 then ''u'' else ''y''),
                   rangeScopewrappers := rankFirst ''write'' \<rparr>;
        apiYaml1 = fst (createAPIYaml run1 repeatedEvent);
        apiYaml2 = fst (createAPIYaml run2 repeatedEvent)
    in snd (createAPIYaml run1 repeatedEvent) = snd (createAPIYaml run2 repeatedEvent)
     \<and> apiYaml1 = apiYaml2\<lparr> doc_data := (doc_data apiYaml2)
                               \<lparr> api_scopes := api_scopes (doc_data apiYaml1) \<rparr> \<rparr>
     \<and> mset (api_scopes (doc_data apiYaml1)) = mset (api_scopes (doc_data apiYaml2))
     \<and> createDeployementYaml run1 ''foo'' = createDeployementYaml run2 ''foo''
     \<and> map (\<lambda>scopeWrapper. Scope.Name (Scope scopeWrapper)) (api_scopes (doc_data apiYaml1)) =
         [''read'', ''write'']
     \<and> map (\<lambda>scopeWrapper. Scope.Name (Scope scopeWrapper)) (api_scopes (doc_data apiYaml2)) =
         [''write'', ''read''])"
proof -
  let ?rt = "exampleRuntime (\<lambda>k. ''u'') repeatedPaths"
  let ?g1 = "\<lambda>k::nat. if k < 2 then ''u'' else ''x''"
  let ?g2 = "\<lambda>k::nat. if k < 2 then ''u'' else ''y''"
  have h: "\<forall>k < length (ProdEndpoints (MultiEndpoints (API repeatedEvent)))
                 + length (SandEndpoints (MultiEndpoints (API repeatedEvent))). ?g1 k = ?g2 k"
    by (simp add: repeatedEvent_def exampleAPI_def)
  have s: "map (\<lambda>scopeWrapper. Scope.Name (Scope scopeWrapper)) (api_scopes (doc_data (fst (createAPIYaml
       (?rt\<lparr> newUUID := g, rangeScopewrappers := rankFirst key \<rparr>) repeatedEvent)))) =
     (if key = ''read'' then [''read'', ''write''] else [''write'', ''read''])"
    if "key = ''read'' \<or> key = ''write''" for g key
    using that by (auto simp add: createAPIYaml_lists repeated_defs)
  note main = synthesis_repeats_with_same_identifiers
         [OF h, of "rankFirst ''read''" ?rt "rankFirst ''write''" "''foo''", unfolded Let_def]
  note first = s [of "''read''" ?g1, simplified]
  note second = s [of "''write''" ?g2, simplified]
  from main first second show ?thesis unfolding Let_def by blast
qed
end
